theory Spec2Isabelle
  imports
    Main
    "HOL-Library.List_Lexorder"
    "HOL-Library.Char_ord"
    "HOL-Library.Product_Lexorder"
begin

section \<open>Data model (memory-governance-lib.ts)\<close>

datatype memoryStatus = Active | Pending | Deprecated

datatype memoryEnv = EnvAll | EnvProd | EnvStaging | EnvDev

datatype confidenceLevel = High | Medium | Low

text \<open>
  \<^verbatim>\<open>PrimitiveValue = string | number | boolean\<close>. Numbers are modelled as integers;
  non-integral and non-finite numbers (in particular NaN, which is not strictly equal to
  itself) are outside the model.
\<close>

datatype primitiveValue = StrV string | NumV int | BoolV bool

record memoryScope =
  env :: memoryEnv
  service :: "string option"
  region :: "string option"

text \<open>
  \<^verbatim>\<open>MemoryItem\<close>. The source fields \<^verbatim>\<open>id\<close>, \<^verbatim>\<open>value\<close> and \<^verbatim>\<open>next\<close> are
  \<open>item_id\<close>, \<open>item_value\<close> and \<open>next'\<close> here. An optional property that is absent or
  \<^verbatim>\<open>undefined\<close> is \<open>None\<close>.
\<close>

record memoryItem =
  item_id :: string
  topic :: string
  key :: string
  item_value :: primitiveValue
  status :: memoryStatus
  source :: string
  effective_from :: string
  expires :: string
  scope :: memoryScope
  updated :: "string option"
  confidence :: "confidenceLevel option"
  next' :: "string option"

datatype auditIssueCode = Schema | DuplicateId | NoSource | Stale | Conflict

record auditIssue =
  code :: auditIssueCode
  message :: string
  ids :: "string list"

text \<open>
  A value produced by \<^verbatim>\<open>YAML.parse\<close> (type \<^verbatim>\<open>unknown\<close> in the source). An object keeps
  its properties in order; \<^verbatim>\<open>undefined\<close> is the absence of a property.
\<close>

datatype raw =
    RNull
  | RStr string
  | RNum int
  | RBool bool
  | RArr "raw list"
  | RObj "(string \<times> raw) list"

type_synonym rawObject = "(string \<times> raw) list"

definition getProp :: "rawObject \<Rightarrow> string \<Rightarrow> raw option" where
  "getProp obj k = map_of obj k"

definition DEFAULT_LOCK_TIMEOUT_MS :: int where
  "DEFAULT_LOCK_TIMEOUT_MS = 30000"

definition DEFAULT_LOCK_RETRY_MS :: int where
  "DEFAULT_LOCK_RETRY_MS = 200"

definition DEFAULT_LOCK_STALE_MS :: int where
  "DEFAULT_LOCK_STALE_MS = 15 * 60 * 1000"

subsection \<open>String primitives of the host\<close>

text \<open>
  Strings are lists of 8-bit characters (code points below 256).
  \<^verbatim>\<open>String.prototype.trim\<close> removes white space and line terminators at both ends:
  in this range TAB, LF, VT, FF, CR, SPACE and NBSP.
\<close>

definition isWhiteSpace :: "char \<Rightarrow> bool" where
  "isWhiteSpace c = (of_char c \<in> {9, 10, 11, 12, 13, 32, 160 :: nat})"

definition trim :: "string \<Rightarrow> string" where
  "trim s = rev (dropWhile isWhiteSpace (rev (dropWhile isWhiteSpace s)))"

text \<open>
  \<^verbatim>\<open>String.prototype.toLowerCase\<close> on this range: A-Z and the Latin-1 capitals
  (all of 192..222 but the multiplication sign 215) move up by 32.
\<close>

definition lowerChar :: "char \<Rightarrow> char" where
  "lowerChar c =
     (let n = (of_char c :: nat)
      in if (65 \<le> n \<and> n \<le> 90) \<or> (192 \<le> n \<and> n \<le> 222 \<and> n \<noteq> 215)
         then char_of (n + 32) else c)"

definition toLowerCase :: "string \<Rightarrow> string" where
  "toLowerCase s = map lowerChar s"

definition startsWith :: "string \<Rightarrow> string \<Rightarrow> bool" where
  "startsWith s p = (take (length p) s = p)"

definition isDigit :: "char \<Rightarrow> bool" where
  "isDigit c = (48 \<le> (of_char c :: nat) \<and> (of_char c :: nat) \<le> 57)"

definition digitVal :: "char \<Rightarrow> nat" where
  "digitVal c = of_char c - 48"

definition digitsVal :: "string \<Rightarrow> nat" where
  "digitsVal s = foldl (\<lambda>acc c. 10 * acc + digitVal c) 0 s"

text \<open>Decimal rendering of a number inside a template literal.\<close>

fun decimal :: "nat \<Rightarrow> string" where
  "decimal n =
     (if n < 10 then [char_of (48 + n)]
      else decimal (n div 10) @ [char_of (48 + n mod 10)])"

declare decimal.simps [simp del]

definition quoted :: "string \<Rightarrow> string" where
  "quoted s = [char_of (39 :: nat)] @ s @ [char_of (39 :: nat)]"

fun joinWith :: "string \<Rightarrow> string list \<Rightarrow> string" where
  "joinWith sep [] = []"
| "joinWith sep [x] = x"
| "joinWith sep (x # y # ys) = x @ sep @ joinWith sep (y # ys)"

text \<open>\<^verbatim>\<open>ISO_DAY = /^\d{4}-\d{2}-\d{2}$/\<close> and \<^verbatim>\<open>ID_PATTERN = /^MEM-\d{4}-\d{2}-\d{3}$/\<close>.\<close>

definition ISO_DAY :: "string \<Rightarrow> bool" where
  "ISO_DAY s =
     (length s = 10 \<and> list_all isDigit (take 4 s) \<and> s ! 4 = CHR ''-'' \<and>
      list_all isDigit (take 2 (drop 5 s)) \<and> s ! 7 = CHR ''-'' \<and>
      list_all isDigit (drop 8 s))"

definition ID_PATTERN :: "string \<Rightarrow> bool" where
  "ID_PATTERN s =
     (length s = 15 \<and> take 4 s = ''MEM-'' \<and> list_all isDigit (take 4 (drop 4 s)) \<and>
      s ! 8 = CHR ''-'' \<and> list_all isDigit (take 2 (drop 9 s)) \<and> s ! 11 = CHR ''-'' \<and>
      list_all isDigit (drop 12 s))"

text \<open>
  \<^verbatim>\<open>Date.parse(`${value}T00:00:00Z`)\<close> for a value of the form \<^verbatim>\<open>ISO_DAY\<close>, as the
  Node.js runtime computes it: the month must lie in 1..12 and the day in 1..31 (a day
  past the end of its month rolls over into the next one), and the result is the number
  of milliseconds between 1970-01-01 and that day. \<open>None\<close> stands for NaN.
\<close>

definition daysFromCivil :: "int \<Rightarrow> int \<Rightarrow> int \<Rightarrow> int" where
  "daysFromCivil y m d =
     (let y' = (if m \<le> 2 then y - 1 else y);
          era = y' div 400;
          yoe = y' - era * 400;
          doy = (153 * (if m > 2 then m - 3 else m + 9) + 2) div 5 + d - 1;
          doe = yoe * 365 + yoe div 4 - yoe div 100 + doy
      in era * 146097 + doe - 719468)"

definition dateParseUtcDay :: "string \<Rightarrow> int option" where
  "dateParseUtcDay s =
     (let y = int (digitsVal (take 4 s));
          m = int (digitsVal (take 2 (drop 5 s)));
          d = int (digitsVal (drop 8 s))
      in if 1 \<le> m \<and> m \<le> 12 \<and> 1 \<le> d \<and> d \<le> 31
         then Some (daysFromCivil y m d * 86400000) else None)"

subsection \<open>Field readers\<close>

definition asObject :: "raw \<Rightarrow> rawObject option" where
  "asObject v = (case v of RObj obj \<Rightarrow> Some obj | _ \<Rightarrow> None)"

text \<open>The argument is \<open>None\<close> for \<^verbatim>\<open>undefined\<close>.\<close>

definition asString :: "raw option \<Rightarrow> string option" where
  "asString v =
     (case v of
        Some (RStr s) \<Rightarrow> (let trimmed = trim s in if length trimmed > 0 then Some trimmed else None)
      | _ \<Rightarrow> None)"

definition parseIsoDay :: "string \<Rightarrow> int option" where
  "parseIsoDay v = (if \<not> ISO_DAY v then None else dateParseUtcDay v)"

definition isValidSource :: "string \<Rightarrow> bool" where
  "isValidSource src =
     (startsWith src ''https://'' \<or> startsWith src ''docs/'' \<or>
      startsWith src ''memory/'' \<or> startsWith src ''src/'')"

definition normalizeEnv :: "raw option \<Rightarrow> memoryEnv option" where
  "normalizeEnv v =
     (case v of
        None \<Rightarrow> Some EnvAll
      | Some (RStr s) \<Rightarrow>
          (let normalized = toLowerCase (trim s)
           in if normalized = ''all'' then Some EnvAll
              else if normalized = ''prod'' then Some EnvProd
              else if normalized = ''staging'' then Some EnvStaging
              else if normalized = ''dev'' then Some EnvDev
              else None)
      | Some _ \<Rightarrow> None)"

definition normalizeStatus :: "raw option \<Rightarrow> memoryStatus option" where
  "normalizeStatus v =
     (case v of
        Some (RStr s) \<Rightarrow>
          (let normalized = toLowerCase (trim s)
           in if normalized = ''active'' then Some Active
              else if normalized = ''pending'' then Some Pending
              else if normalized = ''deprecated'' then Some Deprecated
              else None)
      | _ \<Rightarrow> None)"

definition normalizeConfidence :: "raw option \<Rightarrow> confidenceLevel option" where
  "normalizeConfidence v =
     (case v of
        Some (RStr s) \<Rightarrow>
          (let normalized = toLowerCase (trim s)
           in if normalized = ''high'' then Some High
              else if normalized = ''medium'' then Some Medium
              else if normalized = ''low'' then Some Low
              else None)
      | _ \<Rightarrow> None)"

definition primitiveValue :: "raw option \<Rightarrow> primitiveValue option" where
  "primitiveValue v =
     (case v of
        Some (RStr s) \<Rightarrow> Some (StrV s)
      | Some (RNum n) \<Rightarrow> Some (NumV n)
      | Some (RBool b) \<Rightarrow> Some (BoolV b)
      | _ \<Rightarrow> None)"

definition makeIssue :: "auditIssueCode \<Rightarrow> string \<Rightarrow> string list \<Rightarrow> auditIssue" where
  "makeIssue c m is = \<lparr>code = c, message = m, ids = is\<rparr>"

subsection \<open>Validation of one raw record (\<^verbatim>\<open>buildItem\<close>)\<close>

text \<open>
  The label \<^verbatim>\<open>${id ?? `#${index + 1}`}\<close> and the id list \<^verbatim>\<open>id ? [id] : []\<close> that
  every issue after the id check carries.
\<close>

definition itemLabel :: "string option \<Rightarrow> nat \<Rightarrow> string" where
  "itemLabel idv index = (case idv of Some i \<Rightarrow> i | None \<Rightarrow> ''#'' @ decimal (index + 1))"

definition itemIssue :: "auditIssueCode \<Rightarrow> string option \<Rightarrow> nat \<Rightarrow> string \<Rightarrow> auditIssue" where
  "itemIssue c idv index txt =
     makeIssue c (''Item '' @ itemLabel idv index @ txt)
       (case idv of Some i \<Rightarrow> [i] | None \<Rightarrow> [])"

text \<open>\<^verbatim>\<open>x ?? undefined\<close>: null becomes undefined.\<close>

definition orUndefined :: "raw option \<Rightarrow> raw option" where
  "orUndefined v = (case v of Some RNull \<Rightarrow> None | _ \<Rightarrow> v)"

text \<open>\<^verbatim>\<open>scopeRaw?.k\<close>.\<close>

definition optProp :: "rawObject option \<Rightarrow> string \<Rightarrow> raw option" where
  "optProp obj k = (case obj of None \<Rightarrow> None | Some o' \<Rightarrow> getProp o' k)"

text \<open>\<^verbatim>\<open>if (cond) { issues.push(issue); }\<close>\<close>

definition issueIf :: "bool \<Rightarrow> auditIssue \<Rightarrow> auditIssue list" where
  "issueIf cond issue = (if cond then [issue] else [])"

text \<open>
  \<open>buildItem\<close> in two parts: \<open>recordIssues\<close> is the array \<^verbatim>\<open>issues\<close> after the last
  field check of an object, and \<open>recordItem\<close> is the item assembled from the fields, if
  every required field is there.
\<close>

definition recordIssues :: "rawObject \<Rightarrow> nat \<Rightarrow> auditIssue list" where
  "recordIssues obj index =
     (let idv = asString (getProp obj ''id'');
          issues1 =
            (case idv of
               None \<Rightarrow>
                 [makeIssue Schema
                    (''Item #'' @ decimal (index + 1) @ '' is missing '' @ quoted ''id'') []]
             | Some i \<Rightarrow>
                 issueIf (\<not> ID_PATTERN i)
                   (makeIssue Schema (''Item '' @ i @ '' has invalid id format'') [i]));
          topicv = asString (getProp obj ''topic'');
          issues2 =
            issueIf (topicv = None)
              (itemIssue Schema idv index ('' is missing '' @ quoted ''topic''));
          keyv = asString (getProp obj ''key'');
          issues3 =
            issueIf (keyv = None)
              (itemIssue Schema idv index ('' is missing '' @ quoted ''key''));
          valuev = primitiveValue (getProp obj ''value'');
          issues4 =
            issueIf (valuev = None)
              (itemIssue Schema idv index ('' has invalid '' @ quoted ''value'' @ '' type''));
          statusv = normalizeStatus (getProp obj ''status'');
          issues5 =
            issueIf (statusv = None)
              (itemIssue Schema idv index ('' has invalid '' @ quoted ''status''));
          sourcev = asString (getProp obj ''source'');
          issues6 =
            (case sourcev of
               None \<Rightarrow> [itemIssue NoSource idv index ('' is missing '' @ quoted ''source'')]
             | Some src \<Rightarrow>
                 issueIf (\<not> isValidSource src)
                   (itemIssue NoSource idv index ('' has invalid source '' @ quoted src)));
          effectiveFrom = asString (getProp obj ''effective_from'');
          issues7 =
            issueIf (effectiveFrom = None \<or> Option.bind effectiveFrom parseIsoDay = None)
              (itemIssue Schema idv index
                 ('' has invalid '' @ quoted ''effective_from'' @ '' date''));
          expiresv = asString (getProp obj ''expires'');
          issues8 =
            issueIf (expiresv = None \<or> Option.bind expiresv parseIsoDay = None)
              (itemIssue Schema idv index ('' has invalid '' @ quoted ''expires'' @ '' date''));
          issues9 =
            (case (Option.bind effectiveFrom parseIsoDay, Option.bind expiresv parseIsoDay) of
               (Some effectiveTs, Some expiresTs) \<Rightarrow>
                 issueIf (effectiveTs > expiresTs)
                   (itemIssue Schema idv index '' has effective_from after expires'')
             | _ \<Rightarrow> []);
          scopeRaw =
            (case getProp obj ''scope'' of None \<Rightarrow> Some [] | Some sv \<Rightarrow> asObject sv);
          issues10 =
            issueIf (getProp obj ''scope'' \<noteq> None \<and> scopeRaw = None)
              (itemIssue Schema idv index ('' has invalid '' @ quoted ''scope''));
          envv = normalizeEnv (optProp scopeRaw ''env'');
          issues11 =
            issueIf (envv = None)
              (itemIssue Schema idv index
                 ('' has invalid '' @ quoted ''scope.env'' @ '' (use all|prod|staging|dev)''));
          updatedv = asString (orUndefined (getProp obj ''updated''));
          issues12 =
            (case updatedv of
               Some u \<Rightarrow>
                 issueIf (parseIsoDay u = None)
                   (itemIssue Schema idv index ('' has invalid '' @ quoted ''updated'' @ '' date''))
             | None \<Rightarrow> [])
      in issues1 @ issues2 @ issues3 @ issues4 @ issues5 @ issues6 @ issues7 @ issues8 @
         issues9 @ issues10 @ issues11 @ issues12)"

definition recordItem :: "rawObject \<Rightarrow> memoryItem option" where
  "recordItem obj =
     (let scopeRaw =
            (case getProp obj ''scope'' of None \<Rightarrow> Some [] | Some sv \<Rightarrow> asObject sv);
          servicev = asString (orUndefined (optProp scopeRaw ''service''));
          regionv = asString (orUndefined (optProp scopeRaw ''region''));
          updatedv = asString (orUndefined (getProp obj ''updated''));
          nextv = asString (orUndefined (getProp obj ''next''));
          confidencev = normalizeConfidence (getProp obj ''confidence'')
      in
       (case asString (getProp obj ''id'') of None \<Rightarrow> None | Some i \<Rightarrow>
       (case asString (getProp obj ''topic'') of None \<Rightarrow> None | Some t \<Rightarrow>
       (case asString (getProp obj ''key'') of None \<Rightarrow> None | Some k \<Rightarrow>
       (case primitiveValue (getProp obj ''value'') of None \<Rightarrow> None | Some v \<Rightarrow>
       (case normalizeStatus (getProp obj ''status'') of None \<Rightarrow> None | Some st \<Rightarrow>
       (case asString (getProp obj ''source'') of None \<Rightarrow> None | Some src \<Rightarrow>
       (case asString (getProp obj ''effective_from'') of None \<Rightarrow> None | Some ef \<Rightarrow>
       (case asString (getProp obj ''expires'') of None \<Rightarrow> None | Some ex \<Rightarrow>
       (case normalizeEnv (optProp scopeRaw ''env'') of None \<Rightarrow> None | Some e \<Rightarrow>
          Some \<lparr>item_id = i, topic = t, key = k, item_value = v, status = st,
                source = src, effective_from = ef, expires = ex,
                scope = \<lparr>env = e, service = servicev, region = regionv\<rparr>,
                updated = updatedv, confidence = confidencev, next' = nextv\<rparr>))))))))))"

definition buildItem :: "raw \<Rightarrow> nat \<Rightarrow> memoryItem option \<times> auditIssue list" where
  "buildItem rawv index =
     (case asObject rawv of
        None \<Rightarrow>
          (None, [makeIssue Schema (''Item #'' @ decimal (index + 1) @ '' is not a valid object'') []])
      | Some obj \<Rightarrow>
          (let issues = recordIssues obj index
           in if issues \<noteq> [] then (None, issues) else (recordItem obj, issues)))"

definition isExpired :: "memoryItem \<Rightarrow> string \<Rightarrow> bool" where
  "isExpired item today =
     (case (parseIsoDay (expires item), parseIsoDay today) of
        (Some itemTs, Some todayTs) \<Rightarrow> itemTs < todayTs
      | _ \<Rightarrow> False)"

subsection \<open>Sorting\<close>

text \<open>
  \<^verbatim>\<open>String.prototype.localeCompare\<close> is the host's collation. It is modelled as a linear
  order on strings, for which the lexicographic order on character codes stands in; the
  result is negative, zero or positive.
\<close>

definition localeCompare :: "string \<Rightarrow> string \<Rightarrow> int" where
  "localeCompare a b = (if a < b then - 1 else if b < a then 1 else 0)"

definition compareItems :: "memoryItem \<Rightarrow> memoryItem \<Rightarrow> int" where
  "compareItems a b =
     (if topic a \<noteq> topic b then localeCompare (topic a) (topic b)
      else if key a \<noteq> key b then localeCompare (key a) (key b)
      else localeCompare (item_id a) (item_id b))"

text \<open>
  \<^verbatim>\<open>Array.prototype.toSorted\<close> is a stable sort: an element goes in front of the first
  element that is strictly greater, and stays behind the ones that compare equal.
\<close>

fun insertSorted :: "('a \<Rightarrow> 'a \<Rightarrow> int) \<Rightarrow> 'a \<Rightarrow> 'a list \<Rightarrow> 'a list" where
  "insertSorted cmp x [] = [x]"
| "insertSorted cmp x (y # ys) =
     (if cmp x y \<le> 0 then x # y # ys else y # insertSorted cmp x ys)"

definition toSorted :: "('a \<Rightarrow> 'a \<Rightarrow> int) \<Rightarrow> 'a list \<Rightarrow> 'a list" where
  "toSorted cmp xs = foldr (insertSorted cmp) xs []"

definition sortItems :: "memoryItem list \<Rightarrow> memoryItem list" where
  "sortItems items = toSorted compareItems items"

subsection \<open>Reading a memory file\<close>

text \<open>
  What \<^verbatim>\<open>YAML.parse(await readFile(path))\<close> yields for a file that exists: the parser's
  error, or the parsed document. A file that does not exist is \<open>None\<close>.
\<close>

datatype fileContent = Unparsable string | Parsed raw

fun readEntries :: "raw list \<Rightarrow> nat \<Rightarrow> memoryItem list \<times> auditIssue list" where
  "readEntries [] index = ([], [])"
| "readEntries (r # rs) index =
     (let (item, entryIssues) = buildItem r index;
          (items, issues) = readEntries rs (index + 1)
      in ((case item of Some it \<Rightarrow> [it] | None \<Rightarrow> []) @ items, entryIssues @ issues))"

definition readMemoryItems ::
    "string \<Rightarrow> fileContent option \<Rightarrow> memoryItem list \<times> auditIssue list" where
  "readMemoryItems filePath content =
     (case content of
        None \<Rightarrow> ([], [makeIssue Schema (''Missing memory file: '' @ filePath) []])
      | Some (Unparsable msg) \<Rightarrow>
          ([], [makeIssue Schema (''Failed to parse YAML in '' @ filePath @ '': '' @ msg) []])
      | Some (Parsed (RArr parsed)) \<Rightarrow> readEntries parsed 0
      | Some (Parsed _) \<Rightarrow>
          ([], [makeIssue Schema (filePath @ '' must contain a top-level YAML list'') []]))"

subsection \<open>Conflict detector (memory-conflicts.ts)\<close>

definition datesOverlap :: "string \<Rightarrow> string \<Rightarrow> string \<Rightarrow> string \<Rightarrow> bool" where
  "datesOverlap aStart aEnd bStart bEnd =
     (case (parseIsoDay aStart, parseIsoDay aEnd, parseIsoDay bStart, parseIsoDay bEnd) of
        (Some aStartTs, Some aEndTs, Some bStartTs, Some bEndTs) \<Rightarrow>
          aStartTs \<le> bEndTs \<and> bStartTs \<le> aEndTs
      | _ \<Rightarrow> False)"

text \<open>\<^verbatim>\<open>!a.service\<close>: the property is undefined or the empty string.\<close>

definition falsy :: "string option \<Rightarrow> bool" where
  "falsy v = (case v of None \<Rightarrow> True | Some s \<Rightarrow> s = [])"

definition scopesIntersect :: "memoryScope \<Rightarrow> memoryScope \<Rightarrow> bool" where
  "scopesIntersect a b =
     (let envIntersects = (env a = EnvAll \<or> env b = EnvAll \<or> env a = env b)
      in if \<not> envIntersects then False
         else
           (let serviceIntersects = (falsy (service a) \<or> falsy (service b) \<or> service a = service b)
            in if \<not> serviceIntersects then False
               else
                 (let regionIntersects = (falsy (region a) \<or> falsy (region b) \<or> region a = region b)
                  in regionIntersects)))"

text \<open>
  \<open>isConflictPair\<close> takes the option \<^verbatim>\<open>allowedStatuses\<close>; \<open>None\<close> is the call without
  it, which defaults to \<^verbatim>\<open>["active"]\<close>.
\<close>

definition isConflictPair ::
    "memoryItem \<Rightarrow> memoryItem \<Rightarrow> memoryStatus list option \<Rightarrow> bool" where
  "isConflictPair left right options =
     (let allowedStatuses = (case options of Some sts \<Rightarrow> sts | None \<Rightarrow> [Active])
      in if status left \<notin> set allowedStatuses \<or> status right \<notin> set allowedStatuses then False
         else if topic left \<noteq> topic right \<or> key left \<noteq> key right then False
         else if item_value left = item_value right then False
         else if \<not> scopesIntersect (scope left) (scope right) then False
         else datesOverlap (effective_from left) (expires left)
                (effective_from right) (expires right))"

definition isActiveConflictPair :: "memoryItem \<Rightarrow> memoryItem \<Rightarrow> bool" where
  "isActiveConflictPair left right = isConflictPair left right (Some [Active])"

definition isUnresolvedConflictPair :: "memoryItem \<Rightarrow> memoryItem \<Rightarrow> bool" where
  "isUnresolvedConflictPair left right = isConflictPair left right (Some [Active, Pending])"

definition conflictPairId :: "string \<Rightarrow> string \<Rightarrow> string" where
  "conflictPairId aId bId =
     (case toSorted localeCompare [aId, bId] of
        [leftId, rightId] \<Rightarrow> leftId @ ''__'' @ rightId
      | _ \<Rightarrow> [])"

text \<open>The two nested loops over \<^verbatim>\<open>i < j\<close>.\<close>

fun conflictPairsOf ::
    "memoryStatus list \<Rightarrow> memoryItem list \<Rightarrow> (memoryItem \<times> memoryItem) list" where
  "conflictPairsOf allowedStatuses [] = []"
| "conflictPairsOf allowedStatuses (left # rest) =
     map (\<lambda>right. (left, right))
       (filter (\<lambda>right. isConflictPair left right (Some allowedStatuses)) rest)
     @ conflictPairsOf allowedStatuses rest"

definition listConflictPairs ::
    "memoryItem list \<Rightarrow> memoryStatus list option \<Rightarrow> (memoryItem \<times> memoryItem) list" where
  "listConflictPairs items options =
     (let allowedStatuses = (case options of Some sts \<Rightarrow> sts | None \<Rightarrow> [Active]);
          scoped = filter (\<lambda>item. status item \<in> set allowedStatuses) items
      in conflictPairsOf allowedStatuses scoped)"

definition listActiveConflictPairs :: "memoryItem list \<Rightarrow> (memoryItem \<times> memoryItem) list" where
  "listActiveConflictPairs items = listConflictPairs items (Some [Active])"

definition listUnresolvedConflictPairs :: "memoryItem list \<Rightarrow> (memoryItem \<times> memoryItem) list" where
  "listUnresolvedConflictPairs items = listConflictPairs items (Some [Active, Pending])"

subsection \<open>Global audit\<close>

text \<open>The keys of the \<^verbatim>\<open>seen\<close> map, in insertion order.\<close>

fun seenIds :: "string list \<Rightarrow> string list" where
  "seenIds [] = []"
| "seenIds (x # xs) = x # filter (\<lambda>y. y \<noteq> x) (seenIds xs)"

definition runAudit :: "memoryItem list \<Rightarrow> auditIssue list \<Rightarrow> string \<Rightarrow> auditIssue list" where
  "runAudit items initialIssues today =
     (let allIds = map item_id items;
          duplicates =
            concat (map (\<lambda>i.
              (let entries = filter (\<lambda>j. j = i) allIds
               in if length entries > 1
                  then [makeIssue DuplicateId
                          (''Duplicate id '' @ quoted i @ '' appears '' @ decimal (length entries)
                             @ '' times'') [i]]
                  else [])) (seenIds allIds));
          active = filter (\<lambda>item. status item = Active) items;
          stale =
            concat (map (\<lambda>item.
              if isExpired item today
              then [makeIssue Stale
                      (''Item '' @ item_id item @ '' is active but expired on '' @ expires item)
                      [item_id item]]
              else []) active);
          conflicts =
            map (\<lambda>(left, right).
              makeIssue Conflict
                (''Conflict between '' @ item_id left @ '' and '' @ item_id right @
                 '' (same topic/key with overlapping scope+time but different value)'')
                [item_id left, item_id right]) (listActiveConflictPairs items)
      in initialIssues @ duplicates @ stale @ conflicts)"

record auditSummary =
  summaryFilePath :: string
  summaryToday :: string
  summaryItems :: "memoryItem list"
  summaryIssues :: "auditIssue list"

definition auditMemory :: "string \<Rightarrow> fileContent option \<Rightarrow> string \<Rightarrow> auditSummary" where
  "auditMemory path content day =
     (let (its, parseIssues) = readMemoryItems path content;
          iss = runAudit its parseIssues day
      in \<lparr>summaryFilePath = path, summaryToday = day, summaryItems = sortItems its,
         summaryIssues = iss\<rparr>)"

subsection \<open>Severity policy\<close>

definition isSevere :: "auditIssue \<Rightarrow> bool" where
  "isSevere issue =
     (code issue = Schema \<or> code issue = DuplicateId \<or> code issue = NoSource \<or>
      code issue = Conflict)"

definition auditExitCode :: "auditIssue list \<Rightarrow> nat" where
  "auditExitCode issues =
     (let hasSevere = list_ex isSevere issues
      in if hasSevere then 2
         else if list_ex (\<lambda>issue. code issue = Stale) issues then 1
         else 0)"

subsection \<open>Serialisation\<close>

definition statusName :: "memoryStatus \<Rightarrow> string" where
  "statusName st = (case st of Active \<Rightarrow> ''active'' | Pending \<Rightarrow> ''pending'' | Deprecated \<Rightarrow> ''deprecated'')"

definition envName :: "memoryEnv \<Rightarrow> string" where
  "envName e =
     (case e of EnvAll \<Rightarrow> ''all'' | EnvProd \<Rightarrow> ''prod'' | EnvStaging \<Rightarrow> ''staging'' | EnvDev \<Rightarrow> ''dev'')"

definition confidenceName :: "confidenceLevel \<Rightarrow> string" where
  "confidenceName c = (case c of High \<Rightarrow> ''high'' | Medium \<Rightarrow> ''medium'' | Low \<Rightarrow> ''low'')"

definition valueToRaw :: "primitiveValue \<Rightarrow> raw" where
  "valueToRaw v = (case v of StrV s \<Rightarrow> RStr s | NumV n \<Rightarrow> RNum n | BoolV b \<Rightarrow> RBool b)"

text \<open>A property whose value is \<^verbatim>\<open>undefined\<close> is not written.\<close>

definition optEntry :: "string \<Rightarrow> raw option \<Rightarrow> rawObject" where
  "optEntry k v = (case v of None \<Rightarrow> [] | Some x \<Rightarrow> [(k, x)])"

definition scopeProps :: "memoryScope \<Rightarrow> rawObject" where
  "scopeProps sc =
     [(''env'', RStr (envName (env sc)))] @
     optEntry ''service'' (map_option RStr (service sc)) @
     optEntry ''region'' (map_option RStr (region sc))"

text \<open>
  The document \<^verbatim>\<open>YAML.stringify\<close> writes for an item. The text that \<^verbatim>\<open>YAML.stringify\<close>
  produces is identified with the document \<^verbatim>\<open>YAML.parse\<close> reads back from it, so two
  files have the same bytes when they hold the same document, written by the same call.
  The properties are in the order in which \<open>buildItem\<close> creates them, which is the order
  of every item read from disk. (An object made by a spread with a new \<^verbatim>\<open>updated\<close> or
  \<^verbatim>\<open>next\<close> carries that property last; reading is insensitive to the order, and nothing
  below depends on the order in which such an object is written.)
\<close>

definition itemProps :: "memoryItem \<Rightarrow> rawObject" where
  "itemProps item =
     [(''id'', RStr (item_id item)),
      (''topic'', RStr (topic item)),
      (''key'', RStr (key item)),
      (''value'', valueToRaw (item_value item)),
      (''status'', RStr (statusName (status item))),
      (''source'', RStr (source item)),
      (''effective_from'', RStr (effective_from item)),
      (''expires'', RStr (expires item)),
      (''scope'', RObj (scopeProps (scope item)))] @
     optEntry ''updated'' (map_option RStr (updated item)) @
     optEntry ''confidence'' (map_option (\<lambda>c. RStr (confidenceName c)) (confidence item)) @
     optEntry ''next'' (map_option RStr (next' item))"

definition itemToRaw :: "memoryItem \<Rightarrow> raw" where
  "itemToRaw item = RObj (itemProps item)"

definition serializeItems :: "memoryItem list \<Rightarrow> fileContent" where
  "serializeItems items = Parsed (RArr (map itemToRaw (sortItems items)))"

subsection \<open>File lock\<close>

text \<open>
  An exception: the errors the store raises with \<^verbatim>\<open>new Error(...)\<close>, by the data their
  message is built from, and an exception of a file system call with its \<^verbatim>\<open>code\<close>.
\<close>

datatype error =
    ItemNotFound string
  | AuditFailedAfterStatusChange "string list"
  | ItemMissingAfterUpdate string
  | ConflictItemsNotFound string string
  | DistinctIdsRequired
  | NotUnresolvedConflictPair string string
  | InvalidKeepId string
  | ItemNotFoundDuringMerge string
  | UnableToRemoveDuringMerge string
  | AuditFailedAfterConflictMerge "string list"
  | LockTimeout string
  | FsError "string option"

definition errorCode :: "error \<Rightarrow> string option" where
  "errorCode e = (case e of FsError c \<Rightarrow> c | _ \<Rightarrow> None)"

record lockParams =
  lockPath :: string
  timeoutMs :: "int option"
  retryMs :: "int option"
  staleMs :: "int option"

text \<open>The three constants \<^verbatim>\<open>timeoutMs\<close>, \<^verbatim>\<open>retryMs\<close>, \<^verbatim>\<open>staleMs\<close> of \<^verbatim>\<open>withFileLock\<close>.\<close>

definition lockTimeoutMs :: "lockParams \<Rightarrow> int" where
  "lockTimeoutMs params =
     max 1000 (case timeoutMs params of Some v \<Rightarrow> v | None \<Rightarrow> DEFAULT_LOCK_TIMEOUT_MS)"

definition lockRetryMs :: "lockParams \<Rightarrow> int" where
  "lockRetryMs params =
     max 50 (case retryMs params of Some v \<Rightarrow> v | None \<Rightarrow> DEFAULT_LOCK_RETRY_MS)"

definition lockStaleMs :: "lockParams \<Rightarrow> int" where
  "lockStaleMs params =
     max 60000 (case staleMs params of Some v \<Rightarrow> v | None \<Rightarrow> DEFAULT_LOCK_STALE_MS)"

text \<open>
  What one pass of the acquisition loop observes of its environment: the result of
  \<^verbatim>\<open>open(lockPath, "wx")\<close> and of writing the payload (success, or the exception's
  code), the lock file's modification time as \<^verbatim>\<open>stat\<close> reports it (\<open>None\<close> when
  \<^verbatim>\<open>stat\<close> fails or the time is not finite), and the clock at the two calls of
  \<^verbatim>\<open>Date.now()\<close>. Other processes act between passes, so the observations of
  successive passes are independent inputs. \<^verbatim>\<open>mkdir\<close> with \<^verbatim>\<open>recursive\<close> is taken to
  succeed.
\<close>

datatype openResult = OpenOk | OpenErr "string option"

record lockObs =
  opened :: openResult
  lockMtimeMs :: "int option"
  nowAtStat :: int
  nowAtCheck :: int

definition readLockAgeMs :: "lockObs \<Rightarrow> int option" where
  "readLockAgeMs ob = (case lockMtimeMs ob of None \<Rightarrow> None | Some m \<Rightarrow> Some (nowAtStat ob - m))"

datatype lockEvent = Released | UnlinkedStale | Slept int

datatype 'a outcome = Returned 'a | Threw error | StillWaiting

text \<open>The branch of the \<^verbatim>\<open>catch\<close> block after an \<^verbatim>\<open>EEXIST\<close>.\<close>

datatype collision = Reclaim | TimedOut | SleepRetry

definition onCollision :: "lockParams \<Rightarrow> int \<Rightarrow> lockObs \<Rightarrow> collision" where
  "onCollision params startedAt ob =
     (let ageMs = readLockAgeMs ob
      in if (case ageMs of None \<Rightarrow> False | Some a \<Rightarrow> a > lockStaleMs params) then Reclaim
         else if nowAtCheck ob - startedAt \<ge> lockTimeoutMs params then TimedOut
         else SleepRetry)"

text \<open>
  The result of the \<^verbatim>\<open>try\<close> block of one pass: it ended the call, or it raised an
  exception whose code is \<^verbatim>\<open>EEXIST\<close>. The events are what the pass did to the lock.
\<close>

datatype ('a, 's) attempt = Finished "lockEvent list" "'a outcome" 's | Collided "lockEvent list" 's

definition tryAcquire :: "lockObs \<Rightarrow> ('s \<Rightarrow> (error + 'a) \<times> 's) \<Rightarrow> 's \<Rightarrow> ('a, 's) attempt" where
  "tryAcquire ob task s =
     (case opened ob of
        OpenOk \<Rightarrow>
          (case task s of
             (Inr v, s') \<Rightarrow> Finished [Released] (Returned v) s'
           | (Inl e, s') \<Rightarrow>
               if errorCode e \<noteq> Some ''EEXIST'' then Finished [Released] (Threw e) s'
               else Collided [Released] s')
      | OpenErr c \<Rightarrow>
          if c \<noteq> Some ''EEXIST'' then Finished [] (Threw (FsError c)) s else Collided [] s)"

text \<open>
  The \<^verbatim>\<open>while (true)\<close> loop, run on a finite script of observations; when the script
  ends before the loop does, the caller is still waiting.
\<close>

fun withFileLockLoop ::
    "lockParams \<Rightarrow> int \<Rightarrow> lockObs list \<Rightarrow> ('s \<Rightarrow> (error + 'a) \<times> 's) \<Rightarrow> 's \<Rightarrow>
     lockEvent list \<times> 'a outcome \<times> 's" where
  "withFileLockLoop params startedAt [] task s = ([], StillWaiting, s)"
| "withFileLockLoop params startedAt (ob # rest) task s =
     (case tryAcquire ob task s of
        Finished evs out s' \<Rightarrow> (evs, out, s')
      | Collided evs s' \<Rightarrow>
          (case onCollision params startedAt ob of
             Reclaim \<Rightarrow>
               (case withFileLockLoop params startedAt rest task s' of
                  (evs', out, s'') \<Rightarrow> (evs @ [UnlinkedStale] @ evs', out, s''))
           | TimedOut \<Rightarrow> (evs, Threw (LockTimeout (lockPath params)), s')
           | SleepRetry \<Rightarrow>
               (case withFileLockLoop params startedAt rest task s' of
                  (evs', out, s'') \<Rightarrow> (evs @ [Slept (lockRetryMs params)] @ evs', out, s''))))"

text \<open>\<open>startedAt\<close> is the clock when \<^verbatim>\<open>withFileLock\<close> is entered.\<close>

definition withFileLock ::
    "lockParams \<Rightarrow> int \<Rightarrow> lockObs list \<Rightarrow> ('s \<Rightarrow> (error + 'a) \<times> 's) \<Rightarrow> 's \<Rightarrow>
     lockEvent list \<times> 'a outcome \<times> 's" where
  "withFileLock params startedAt obs task s = withFileLockLoop params startedAt obs task s"

section \<open>Status store (memory-status-lib.ts)\<close>

record statusBuckets =
  active :: "memoryItem list"
  pending :: "memoryItem list"
  deprecated :: "memoryItem list"

text \<open>The path strings; they occur in messages only.\<close>

record memoryStatusPaths =
  memoryRoot :: string
  memoryPath :: string
  activePath :: string
  pendingPath :: string
  deprecatedPath :: string

text \<open>
  The files of the store, taken to be five different files: the three buckets, the
  canonical file, and the runtime projection (the workspace file and the topic shards,
  which \<^verbatim>\<open>renderRuntimeActiveMemory\<close> derives from a list of items; \<open>Some items\<close> stands
  for the projection rendered from \<open>items\<close>, \<open>None\<close> for anything else).
\<close>

record disk =
  activeFile :: "fileContent option"
  pendingFile :: "fileContent option"
  deprecatedFile :: "fileContent option"
  memoryFile :: "fileContent option"
  runtimeProjection :: "memoryItem list option"

definition STATUS_ORDER :: "memoryStatus list" where
  "STATUS_ORDER = [Active, Pending, Deprecated]"

definition statusLockPath :: "memoryStatusPaths \<Rightarrow> string" where
  "statusLockPath paths = memoryRoot paths @ ''/locks/status-store.lock''"

definition bucketPath :: "memoryStatusPaths \<Rightarrow> memoryStatus \<Rightarrow> string" where
  "bucketPath paths st =
     (if st = Active then activePath paths
      else if st = Pending then pendingPath paths
      else deprecatedPath paths)"

text \<open>The file at \<open>bucketPath paths st\<close>, and writing it.\<close>

definition bucketFile :: "disk \<Rightarrow> memoryStatus \<Rightarrow> fileContent option" where
  "bucketFile fs st =
     (case st of Active \<Rightarrow> activeFile fs | Pending \<Rightarrow> pendingFile fs | Deprecated \<Rightarrow> deprecatedFile fs)"

definition writeBucketFile :: "memoryStatus \<Rightarrow> fileContent \<Rightarrow> disk \<Rightarrow> disk" where
  "writeBucketFile st content fs =
     (case st of
        Active \<Rightarrow> fs\<lparr>activeFile := Some content\<rparr>
      | Pending \<Rightarrow> fs\<lparr>pendingFile := Some content\<rparr>
      | Deprecated \<Rightarrow> fs\<lparr>deprecatedFile := Some content\<rparr>)"

text \<open>\<^verbatim>\<open>buckets[status]\<close>, \<^verbatim>\<open>buckets[status].push(item)\<close>, \<^verbatim>\<open>buckets[status].splice(index, 1)\<close>.\<close>

definition bucket :: "statusBuckets \<Rightarrow> memoryStatus \<Rightarrow> memoryItem list" where
  "bucket buckets st =
     (case st of Active \<Rightarrow> active buckets | Pending \<Rightarrow> pending buckets | Deprecated \<Rightarrow> deprecated buckets)"

definition setBucket :: "statusBuckets \<Rightarrow> memoryStatus \<Rightarrow> memoryItem list \<Rightarrow> statusBuckets" where
  "setBucket buckets st xs =
     (case st of
        Active \<Rightarrow> buckets\<lparr>active := xs\<rparr>
      | Pending \<Rightarrow> buckets\<lparr>pending := xs\<rparr>
      | Deprecated \<Rightarrow> buckets\<lparr>deprecated := xs\<rparr>)"

definition pushItem :: "statusBuckets \<Rightarrow> memoryStatus \<Rightarrow> memoryItem \<Rightarrow> statusBuckets" where
  "pushItem buckets st item = setBucket buckets st (bucket buckets st @ [item])"

definition spliceOut :: "statusBuckets \<Rightarrow> memoryStatus \<Rightarrow> nat \<Rightarrow> statusBuckets" where
  "spliceOut buckets st index =
     setBucket buckets st (take index (bucket buckets st) @ drop (index + 1) (bucket buckets st))"

definition emptyBuckets :: statusBuckets where
  "emptyBuckets = \<lparr>active = [], pending = [], deprecated = []\<rparr>"

definition cloneItem :: "memoryItem \<Rightarrow> memoryItem" where
  "cloneItem item = item\<lparr>scope := scope item\<rparr>"

definition cloneBuckets :: "statusBuckets \<Rightarrow> statusBuckets" where
  "cloneBuckets input =
     \<lparr>active = map cloneItem (active input),
      pending = map cloneItem (pending input),
      deprecated = map cloneItem (deprecated input)\<rparr>"

definition writeMemoryItems :: "memoryItem list \<Rightarrow> fileContent" where
  "writeMemoryItems items = serializeItems items"

definition saveStatusBuckets :: "memoryStatusPaths \<Rightarrow> statusBuckets \<Rightarrow> disk \<Rightarrow> disk" where
  "saveStatusBuckets paths buckets fs =
     (let fs1 = writeBucketFile Active (writeMemoryItems (sortItems (active buckets))) fs;
          fs2 = writeBucketFile Pending (writeMemoryItems (sortItems (pending buckets))) fs1
      in writeBucketFile Deprecated (writeMemoryItems (sortItems (deprecated buckets))) fs2)"

definition loadStatusBuckets :: "memoryStatusPaths \<Rightarrow> disk \<Rightarrow> statusBuckets" where
  "loadStatusBuckets paths fs =
     foldl (\<lambda>buckets st.
        (case bucketFile fs st of
           None \<Rightarrow> buckets
         | Some content \<Rightarrow>
             foldl (\<lambda>bs item. pushItem bs st (item\<lparr>status := st\<rparr>)) buckets
               (fst (readMemoryItems (bucketPath paths st) (Some content)))))
       emptyBuckets STATUS_ORDER"

definition ensureStatusBuckets :: "memoryStatusPaths \<Rightarrow> disk \<Rightarrow> disk" where
  "ensureStatusBuckets paths fs =
     (let hasAnyBucket = (activeFile fs \<noteq> None \<or> pendingFile fs \<noteq> None \<or> deprecatedFile fs \<noteq> None)
      in if hasAnyBucket
         then (let existing = loadStatusBuckets paths fs in saveStatusBuckets paths existing fs)
         else
           (let seed = readMemoryItems (memoryPath paths) (memoryFile fs);
                buckets = foldl (\<lambda>bs item. pushItem bs (status item) item) emptyBuckets (fst seed)
            in saveStatusBuckets paths buckets fs))"

definition flattenBuckets :: "statusBuckets \<Rightarrow> memoryItem list" where
  "flattenBuckets buckets = sortItems (active buckets @ pending buckets @ deprecated buckets)"

definition rebuildUnifiedMemory :: "memoryStatusPaths \<Rightarrow> statusBuckets \<Rightarrow> disk \<Rightarrow> disk" where
  "rebuildUnifiedMemory paths buckets fs =
     fs\<lparr>memoryFile := Some (writeMemoryItems (flattenBuckets buckets))\<rparr>"

definition renderRuntimeActiveMemory :: "memoryStatusPaths \<Rightarrow> statusBuckets \<Rightarrow> disk \<Rightarrow> disk" where
  "renderRuntimeActiveMemory paths buckets fs =
     (let all = flattenBuckets buckets in fs\<lparr>runtimeProjection := Some all\<rparr>)"

record statusCounts =
  activeCount :: nat
  pendingCount :: nat
  deprecatedCount :: nat

definition countsByStatus :: "statusBuckets \<Rightarrow> statusCounts" where
  "countsByStatus buckets =
     \<lparr>activeCount = length (active buckets),
      pendingCount = length (pending buckets),
      deprecatedCount = length (deprecated buckets)\<rparr>"

text \<open>\<^verbatim>\<open>Array.prototype.findIndex\<close>; \<open>None\<close> is the result -1.\<close>

fun findIndex :: "('a \<Rightarrow> bool) \<Rightarrow> 'a list \<Rightarrow> nat option" where
  "findIndex P [] = None"
| "findIndex P (x # xs) = (if P x then Some 0 else map_option Suc (findIndex P xs))"

record located =
  locStatus :: memoryStatus
  locIndex :: nat
  locItem :: memoryItem

fun findItemStatusIn :: "memoryStatus list \<Rightarrow> statusBuckets \<Rightarrow> string \<Rightarrow> located option" where
  "findItemStatusIn [] buckets i = None"
| "findItemStatusIn (st # sts) buckets i =
     (case findIndex (\<lambda>item. item_id item = i) (bucket buckets st) of
        None \<Rightarrow> findItemStatusIn sts buckets i
      | Some index \<Rightarrow>
          if index < length (bucket buckets st)
          then Some \<lparr>locStatus = st, locIndex = index, locItem = bucket buckets st ! index\<rparr>
          else findItemStatusIn sts buckets i)"

definition findItemStatus :: "statusBuckets \<Rightarrow> string \<Rightarrow> located option" where
  "findItemStatus buckets i = findItemStatusIn STATUS_ORDER buckets i"

text \<open>
  The \<^verbatim>\<open>try\<close>/\<^verbatim>\<open>catch\<close> block that ends \<^verbatim>\<open>applyStatusChange\<close> and \<^verbatim>\<open>applyConflictMerge\<close>:
  save, rebuild, audit; on a severe verdict restore \<open>previous\<close> and raise. The two
  blocks differ in the prefix of the message only, which is \<open>mkError\<close> here. File system
  calls are taken to succeed.
\<close>

definition commitBuckets ::
    "(string list \<Rightarrow> error) \<Rightarrow> memoryStatusPaths \<Rightarrow> string \<Rightarrow> statusBuckets \<Rightarrow> statusBuckets \<Rightarrow>
     disk \<Rightarrow> (error + unit) \<times> disk" where
  "commitBuckets mkError paths day current previous fs =
     (let fs1 = saveStatusBuckets paths current fs;
          fs2 = rebuildUnifiedMemory paths current fs1;
          audit = auditMemory (memoryPath paths) (memoryFile fs2) day;
          exit = auditExitCode (summaryIssues audit)
      in if exit = 2
         then
           (Inl (mkError (map message (summaryIssues audit))),
            renderRuntimeActiveMemory paths previous
              (rebuildUnifiedMemory paths previous (saveStatusBuckets paths previous fs2)))
         else (Inr (), renderRuntimeActiveMemory paths current fs2))"

record statusChangeParams =
  scPaths :: memoryStatusPaths
  scId :: string
  scTo :: memoryStatus
  scToday :: "string option"

record statusChangeResult =
  resFrom :: memoryStatus
  resTo :: memoryStatus
  resItem :: memoryItem
  resCounts :: statusCounts

text \<open>
  The task \<^verbatim>\<open>applyStatusChange\<close> runs under the lock. \<open>utcToday\<close> is what
  \<^verbatim>\<open>formatDateNowUtc()\<close> returns when the task runs.
\<close>

definition applyStatusChangeTask ::
    "statusChangeParams \<Rightarrow> string \<Rightarrow> disk \<Rightarrow> (error + statusChangeResult) \<times> disk" where
  "applyStatusChangeTask params utcToday fs =
     (let day = (case scToday params of Some d \<Rightarrow> d | None \<Rightarrow> utcToday);
          fs1 = ensureStatusBuckets (scPaths params) fs;
          current = loadStatusBuckets (scPaths params) fs1;
          previous = cloneBuckets current
      in case findItemStatus current (scId params) of
           None \<Rightarrow> (Inl (ItemNotFound (scId params)), fs1)
         | Some loc \<Rightarrow>
             (let current' =
                    (if locStatus loc \<noteq> scTo params
                     then pushItem (spliceOut current (locStatus loc) (locIndex loc)) (scTo params)
                            ((locItem loc)\<lparr>status := scTo params, updated := Some day\<rparr>)
                     else current)
              in case commitBuckets AuditFailedAfterStatusChange (scPaths params) day current'
                        previous fs1 of
                   (Inl e, fs2) \<Rightarrow> (Inl e, fs2)
                 | (Inr u, fs2) \<Rightarrow>
                     (case findItemStatus current' (scId params) of
                        None \<Rightarrow> (Inl (ItemMissingAfterUpdate (scId params)), fs2)
                      | Some upd \<Rightarrow>
                          (Inr \<lparr>resFrom = locStatus loc, resTo = scTo params,
                                resItem = locItem upd, resCounts = countsByStatus current'\<rparr>,
                           fs2))))"

definition applyStatusChange ::
    "statusChangeParams \<Rightarrow> string \<Rightarrow> int \<Rightarrow> lockObs list \<Rightarrow> disk \<Rightarrow>
     lockEvent list \<times> statusChangeResult outcome \<times> disk" where
  "applyStatusChange params utcToday startedAt obs fs =
     withFileLock
       \<lparr>lockPath = statusLockPath (scPaths params), timeoutMs = None, retryMs = None, staleMs = None\<rparr>
       startedAt obs (applyStatusChangeTask params utcToday) fs"

record conflictMergeParams =
  cmPaths :: memoryStatusPaths
  cmLeftId :: string
  cmRightId :: string
  cmMergedValue :: primitiveValue
  cmKeepId :: "string option"
  cmToday :: "string option"

record conflictMergeResult =
  mergedId :: string
  deprecatedId :: string
  mergeCounts :: statusCounts
  pairId :: string

definition removeItemById :: "statusBuckets \<Rightarrow> string \<Rightarrow> error + memoryItem \<times> statusBuckets" where
  "removeItemById current i =
     (case findItemStatus current i of
        None \<Rightarrow> Inl (ItemNotFoundDuringMerge i)
      | Some loc \<Rightarrow>
          (case drop (locIndex loc) (bucket current (locStatus loc)) of
             [] \<Rightarrow> Inl (UnableToRemoveDuringMerge i)
           | removed # _ \<Rightarrow> Inr (removed, spliceOut current (locStatus loc) (locIndex loc))))"

definition applyConflictMergeTask ::
    "conflictMergeParams \<Rightarrow> string \<Rightarrow> disk \<Rightarrow> (error + conflictMergeResult) \<times> disk" where
  "applyConflictMergeTask params utcToday fs =
     (let day = (case cmToday params of Some d \<Rightarrow> d | None \<Rightarrow> utcToday);
          fs1 = ensureStatusBuckets (cmPaths params) fs;
          current = loadStatusBuckets (cmPaths params) fs1;
          previous = cloneBuckets current
      in case (findItemStatus current (cmLeftId params), findItemStatus current (cmRightId params)) of
           (Some leftLocated, Some rightLocated) \<Rightarrow>
             if cmLeftId params = cmRightId params then (Inl DistinctIdsRequired, fs1)
             else if \<not> isUnresolvedConflictPair (locItem leftLocated) (locItem rightLocated)
             then (Inl (NotUnresolvedConflictPair (cmLeftId params) (cmRightId params)), fs1)
             else
               (let keepId = (case cmKeepId params of Some k \<Rightarrow> k | None \<Rightarrow> cmLeftId params)
                in if keepId \<noteq> cmLeftId params \<and> keepId \<noteq> cmRightId params
                   then (Inl (InvalidKeepId keepId), fs1)
                   else
                     (let keep = (if keepId = cmLeftId params then leftLocated else rightLocated);
                          other = (if keepId = cmLeftId params then rightLocated else leftLocated);
                          pid = conflictPairId (cmLeftId params) (cmRightId params)
                      in case removeItemById current (item_id (locItem keep)) of
                           Inl e \<Rightarrow> (Inl e, fs1)
                         | Inr (keepOriginal, current1) \<Rightarrow>
                             (case removeItemById current1 (item_id (locItem other)) of
                                Inl e \<Rightarrow> (Inl e, fs1)
                              | Inr (otherOriginal, current2) \<Rightarrow>
                                  (let merged = keepOriginal
                                         \<lparr>status := Active, item_value := cmMergedValue params,
                                          updated := Some day,
                                          next' := Some (''Merged conflict '' @ pid @
                                            ''; resolved by keeping '' @ item_id (locItem keep) @ ''.'')\<rparr>;
                                       deprecatedOther = otherOriginal
                                         \<lparr>status := Deprecated, updated := Some day,
                                          next' := Some (''Deprecated after conflict merge '' @ pid @
                                            '' into '' @ item_id merged @ ''.'')\<rparr>;
                                       current3 =
                                         pushItem (pushItem current2 Active merged) Deprecated
                                           deprecatedOther
                                   in case commitBuckets AuditFailedAfterConflictMerge
                                             (cmPaths params) day current3 previous fs1 of
                                        (Inl e, fs2) \<Rightarrow> (Inl e, fs2)
                                      | (Inr u, fs2) \<Rightarrow>
                                          (Inr \<lparr>mergedId = item_id merged,
                                                deprecatedId = item_id deprecatedOther,
                                                mergeCounts = countsByStatus current3,
                                                pairId = pid\<rparr>,
                                           fs2)))))
         | _ \<Rightarrow> (Inl (ConflictItemsNotFound (cmLeftId params) (cmRightId params)), fs1))"

definition applyConflictMerge ::
    "conflictMergeParams \<Rightarrow> string \<Rightarrow> int \<Rightarrow> lockObs list \<Rightarrow> disk \<Rightarrow>
     lockEvent list \<times> conflictMergeResult outcome \<times> disk" where
  "applyConflictMerge params utcToday startedAt obs fs =
     withFileLock
       \<lparr>lockPath = statusLockPath (cmPaths params), timeoutMs = None, retryMs = None, staleMs = None\<rparr>
       startedAt obs (applyConflictMergeTask params utcToday) fs"

record initResult =
  initPaths :: memoryStatusPaths
  initCounts :: statusCounts

definition initializeTask :: "memoryStatusPaths \<Rightarrow> disk \<Rightarrow> (error + unit) \<times> disk" where
  "initializeTask paths fs =
     (let fs1 = ensureStatusBuckets paths fs;
          buckets = loadStatusBuckets paths fs1;
          fs2 = saveStatusBuckets paths buckets fs1;
          fs3 = rebuildUnifiedMemory paths buckets fs2
      in (Inr (), renderRuntimeActiveMemory paths buckets fs3))"

text \<open>\<open>paths\<close> is the result of \<^verbatim>\<open>resolveMemoryStatusPaths(args)\<close>.\<close>

definition initializeStatusStore ::
    "memoryStatusPaths \<Rightarrow> int \<Rightarrow> lockObs list \<Rightarrow> disk \<Rightarrow>
     lockEvent list \<times> initResult outcome \<times> disk" where
  "initializeStatusStore paths startedAt obs fs =
     (case withFileLock
             \<lparr>lockPath = statusLockPath paths, timeoutMs = None, retryMs = None, staleMs = None\<rparr>
             startedAt obs (initializeTask paths) fs of
        (evs, Returned u, fs') \<Rightarrow>
          (let buckets = loadStatusBuckets paths fs'
           in (evs, Returned \<lparr>initPaths = paths, initCounts = countsByStatus buckets\<rparr>, fs'))
      | (evs, Threw e, fs') \<Rightarrow> (evs, Threw e, fs')
      | (evs, StillWaiting, fs') \<Rightarrow> (evs, StillWaiting, fs'))"

section \<open>Well-formed items\<close>

text \<open>
  What \<open>buildItem\<close> guarantees of an item it returns; the status is not constrained.
\<close>

definition trimmed :: "string \<Rightarrow> bool" where
  "trimmed s = (s \<noteq> [] \<and> trim s = s)"

definition optTrimmed :: "string option \<Rightarrow> bool" where
  "optTrimmed v = (case v of None \<Rightarrow> True | Some s \<Rightarrow> trimmed s)"

definition wellFormedItem :: "memoryItem \<Rightarrow> bool" where
  "wellFormedItem item =
     (trimmed (item_id item) \<and> ID_PATTERN (item_id item) \<and>
      trimmed (topic item) \<and> trimmed (key item) \<and>
      trimmed (source item) \<and> isValidSource (source item) \<and>
      trimmed (effective_from item) \<and> trimmed (expires item) \<and>
      (case (parseIsoDay (effective_from item), parseIsoDay (expires item)) of
         (Some effectiveTs, Some expiresTs) \<Rightarrow> effectiveTs \<le> expiresTs
       | _ \<Rightarrow> False) \<and>
      optTrimmed (service (scope item)) \<and> optTrimmed (region (scope item)) \<and>
      optTrimmed (updated item) \<and>
      (case updated item of None \<Rightarrow> True | Some u \<Rightarrow> parseIsoDay u \<noteq> None) \<and>
      optTrimmed (next' item))"

text \<open>The objects for which no field check of \<open>buildItem\<close> raises an issue.\<close>

definition recordValid :: "rawObject \<Rightarrow> bool" where
  "recordValid obj =
     ((case asString (getProp obj ''id'') of None \<Rightarrow> False | Some i \<Rightarrow> ID_PATTERN i) \<and>
      asString (getProp obj ''topic'') \<noteq> None \<and>
      asString (getProp obj ''key'') \<noteq> None \<and>
      primitiveValue (getProp obj ''value'') \<noteq> None \<and>
      normalizeStatus (getProp obj ''status'') \<noteq> None \<and>
      (case asString (getProp obj ''source'') of None \<Rightarrow> False | Some src \<Rightarrow> isValidSource src) \<and>
      Option.bind (asString (getProp obj ''effective_from'')) parseIsoDay \<noteq> None \<and>
      Option.bind (asString (getProp obj ''expires'')) parseIsoDay \<noteq> None \<and>
      (case (Option.bind (asString (getProp obj ''effective_from'')) parseIsoDay,
             Option.bind (asString (getProp obj ''expires'')) parseIsoDay) of
         (Some effectiveTs, Some expiresTs) \<Rightarrow> \<not> effectiveTs > expiresTs
       | _ \<Rightarrow> True) \<and>
      (case getProp obj ''scope'' of None \<Rightarrow> True | Some sv \<Rightarrow> asObject sv \<noteq> None) \<and>
      normalizeEnv
        (optProp (case getProp obj ''scope'' of None \<Rightarrow> Some [] | Some sv \<Rightarrow> asObject sv)
           ''env'') \<noteq> None \<and>
      (case asString (orUndefined (getProp obj ''updated'')) of
         None \<Rightarrow> True
       | Some u \<Rightarrow> parseIsoDay u \<noteq> None))"

text \<open>
  The field checks of \<open>buildItem\<close> by the code of the issue they raise: the check of
  the source raises \<^verbatim>\<open>no-source\<close>, every other check raises \<^verbatim>\<open>schema\<close>.
\<close>

definition sourceAllowed :: "rawObject \<Rightarrow> bool" where
  "sourceAllowed obj =
     (case asString (getProp obj ''source'') of None \<Rightarrow> False | Some src \<Rightarrow> isValidSource src)"

definition fieldsValid :: "rawObject \<Rightarrow> bool" where
  "fieldsValid obj =
     ((case asString (getProp obj ''id'') of None \<Rightarrow> False | Some i \<Rightarrow> ID_PATTERN i) \<and>
      asString (getProp obj ''topic'') \<noteq> None \<and>
      asString (getProp obj ''key'') \<noteq> None \<and>
      primitiveValue (getProp obj ''value'') \<noteq> None \<and>
      normalizeStatus (getProp obj ''status'') \<noteq> None \<and>
      Option.bind (asString (getProp obj ''effective_from'')) parseIsoDay \<noteq> None \<and>
      Option.bind (asString (getProp obj ''expires'')) parseIsoDay \<noteq> None \<and>
      (case (Option.bind (asString (getProp obj ''effective_from'')) parseIsoDay,
             Option.bind (asString (getProp obj ''expires'')) parseIsoDay) of
         (Some effectiveTs, Some expiresTs) \<Rightarrow> \<not> effectiveTs > expiresTs
       | _ \<Rightarrow> True) \<and>
      (case getProp obj ''scope'' of None \<Rightarrow> True | Some sv \<Rightarrow> asObject sv \<noteq> None) \<and>
      normalizeEnv
        (optProp (case getProp obj ''scope'' of None \<Rightarrow> Some [] | Some sv \<Rightarrow> asObject sv)
           ''env'') \<noteq> None \<and>
      (case asString (orUndefined (getProp obj ''updated'')) of
         None \<Rightarrow> True
       | Some u \<Rightarrow> parseIsoDay u \<noteq> None))"

text \<open>Every item of a bucket is well formed and carries the bucket's status.\<close>

definition bucketsOk :: "statusBuckets \<Rightarrow> bool" where
  "bucketsOk buckets =
     (list_all (\<lambda>item. wellFormedItem item \<and> status item = Active) (active buckets) \<and>
      list_all (\<lambda>item. wellFormedItem item \<and> status item = Pending) (pending buckets) \<and>
      list_all (\<lambda>item. wellFormedItem item \<and> status item = Deprecated) (deprecated buckets))"

definition sortBuckets :: "statusBuckets \<Rightarrow> statusBuckets" where
  "sortBuckets buckets =
     \<lparr>active = sortItems (active buckets), pending = sortItems (pending buckets),
      deprecated = sortItems (deprecated buckets)\<rparr>"

text \<open>The three bucket files of two stores have the same contents.\<close>

definition sameBucketFiles :: "disk \<Rightarrow> disk \<Rightarrow> bool" where
  "sameBucketFiles a b =
     (activeFile a = activeFile b \<and> pendingFile a = pendingFile b \<and>
      deprecatedFile a = deprecatedFile b)"

text \<open>
  What \<open>findItemStatus\<close> finds: the first status of \<open>STATUS_ORDER\<close> whose bucket has an
  item with the id, and the first such item of that bucket.
\<close>

fun firstWithId :: "memoryStatus list \<Rightarrow> statusBuckets \<Rightarrow> string \<Rightarrow> (memoryStatus \<times> memoryItem) option" where
  "firstWithId [] B i = None"
| "firstWithId (st # sts) B i =
     (case List.find (\<lambda>item. item_id item = i) (bucket B st) of
        Some item \<Rightarrow> Some (st, item)
      | None \<Rightarrow> firstWithId sts B i)"

text \<open>The sort key of \<open>compareItems\<close>.\<close>

definition itemKey :: "memoryItem \<Rightarrow> string \<times> string \<times> string" where
  "itemKey item = (topic item, key item, item_id item)"

section \<open>Example data\<close>

text \<open>The items A and B of the specification's conflict example, and a store layout.\<close>

definition exampleA :: memoryItem where
  "exampleA =
     \<lparr>item_id = ''MEM-2024-01-001'', topic = ''deploy'', key = ''mode'',
      item_value = StrV ''canary'', status = Active, source = ''docs/deploy.md'',
      effective_from = ''2024-01-01'', expires = ''2024-06-01'',
      scope = \<lparr>env = EnvAll, service = None, region = None\<rparr>,
      updated = None, confidence = None, next' = None\<rparr>"

definition exampleB :: memoryItem where
  "exampleB =
     \<lparr>item_id = ''MEM-2024-01-002'', topic = ''deploy'', key = ''mode'',
      item_value = StrV ''blue-green'', status = Active, source = ''docs/deploy.md'',
      effective_from = ''2024-03-01'', expires = ''2024-09-01'',
      scope = \<lparr>env = EnvProd, service = None, region = None\<rparr>,
      updated = None, confidence = None, next' = None\<rparr>"

text \<open>B with a source outside the allow-list, as a raw record.\<close>

definition exampleBadSource :: raw where
  "exampleBadSource = itemToRaw (exampleB\<lparr>source := ''wiki/deploy''\<rparr>)"

definition examplePaths :: memoryStatusPaths where
  "examplePaths =
     \<lparr>memoryRoot = ''/m'', memoryPath = ''/m/MEMORY.yml'',
      activePath = ''/m/status/active.yml'', pendingPath = ''/m/status/pending.yml'',
      deprecatedPath = ''/m/status/deprecated.yml''\<rparr>"

text \<open>A store whose active bucket file holds A with the stored status \<^verbatim>\<open>pending\<close>.\<close>

definition mislabelledDisk :: disk where
  "mislabelledDisk =
     \<lparr>activeFile = Some (Parsed (RArr [itemToRaw (exampleA\<lparr>status := Pending\<rparr>)])),
      pendingFile = None, deprecatedFile = None, memoryFile = None, runtimeProjection = None\<rparr>"

text \<open>The store \<open>mislabelledDisk\<close> after \<^verbatim>\<open>init()\<close>.\<close>

definition initialisedDisk :: disk where
  "initialisedDisk =
     \<lparr>activeFile = Some (Parsed (RArr [itemToRaw exampleA])),
      pendingFile = Some (Parsed (RArr [])),
      deprecatedFile = Some (Parsed (RArr [])),
      memoryFile = Some (Parsed (RArr [itemToRaw exampleA])),
      runtimeProjection = Some [exampleA]\<rparr>"

text \<open>
  A third item on the same slot as A and B, and four stores: A active with B pending;
  the same with B stored under the status \<^verbatim>\<open>active\<close> in the pending file; A and B both
  active; A and C active with B pending.
\<close>

definition exampleC :: memoryItem where
  "exampleC =
     \<lparr>item_id = ''MEM-2024-01-003'', topic = ''deploy'', key = ''mode'',
      item_value = StrV ''rolling'', status = Active, source = ''docs/deploy.md'',
      effective_from = ''2024-01-01'', expires = ''2024-09-01'',
      scope = \<lparr>env = EnvAll, service = None, region = None\<rparr>,
      updated = None, confidence = None, next' = None\<rparr>"

definition pendingConflictDisk :: disk where
  "pendingConflictDisk =
     \<lparr>activeFile = Some (Parsed (RArr [itemToRaw exampleA])),
      pendingFile = Some (Parsed (RArr [itemToRaw (exampleB\<lparr>status := Pending\<rparr>)])),
      deprecatedFile = Some (Parsed (RArr [])),
      memoryFile = None, runtimeProjection = None\<rparr>"

definition mislabelledPendingDisk :: disk where
  "mislabelledPendingDisk =
     \<lparr>activeFile = Some (Parsed (RArr [itemToRaw exampleA])),
      pendingFile = Some (Parsed (RArr [itemToRaw exampleB])),
      deprecatedFile = Some (Parsed (RArr [])),
      memoryFile = None, runtimeProjection = None\<rparr>"

definition activeConflictDisk :: disk where
  "activeConflictDisk =
     \<lparr>activeFile = Some (Parsed (RArr [itemToRaw exampleA, itemToRaw exampleB])),
      pendingFile = Some (Parsed (RArr [])),
      deprecatedFile = Some (Parsed (RArr [])),
      memoryFile = None, runtimeProjection = None\<rparr>"

definition threeWayDisk :: disk where
  "threeWayDisk =
     \<lparr>activeFile = Some (Parsed (RArr [itemToRaw exampleA, itemToRaw exampleC])),
      pendingFile = Some (Parsed (RArr [itemToRaw (exampleB\<lparr>status := Pending\<rparr>)])),
      deprecatedFile = Some (Parsed (RArr [])),
      memoryFile = None, runtimeProjection = None\<rparr>"

definition activateB :: statusChangeParams where
  "activateB =
     \<lparr>scPaths = examplePaths, scId = ''MEM-2024-01-002'', scTo = Active,
      scToday = Some ''2024-04-01''\<rparr>"

definition mergeAB :: conflictMergeParams where
  "mergeAB =
     \<lparr>cmPaths = examplePaths, cmLeftId = ''MEM-2024-01-001'', cmRightId = ''MEM-2024-01-002'',
      cmMergedValue = StrV ''canary-then-blue-green'', cmKeepId = None,
      cmToday = Some ''2024-04-01''\<rparr>"

text \<open>The message of the conflict issue for two ids.\<close>

definition conflictMessage :: "string \<Rightarrow> string \<Rightarrow> string" where
  "conflictMessage a b =
     ''Conflict between '' @ a @ '' and '' @ b @
     '' (same topic/key with overlapping scope+time but different value)''"

text \<open>
  The buckets of \<open>pendingConflictDisk\<close>, before and after B is moved to the active
  bucket on 2024-04-01.
\<close>

definition bucketsBefore :: statusBuckets where
  "bucketsBefore =
     \<lparr>active = [exampleA], pending = [exampleB\<lparr>status := Pending\<rparr>], deprecated = []\<rparr>"

definition bucketsMoved :: statusBuckets where
  "bucketsMoved =
     \<lparr>active = [exampleA, exampleB\<lparr>updated := Some ''2024-04-01''\<rparr>], pending = [],
      deprecated = []\<rparr>"

text \<open>Calls that ask for the status an item already has.\<close>

definition keepBPending :: statusChangeParams where
  "keepBPending =
     \<lparr>scPaths = examplePaths, scId = ''MEM-2024-01-002'', scTo = Pending,
      scToday = Some ''2024-04-01''\<rparr>"

definition keepAActive :: statusChangeParams where
  "keepAActive =
     \<lparr>scPaths = examplePaths, scId = ''MEM-2024-01-001'', scTo = Active,
      scToday = Some ''2024-04-01''\<rparr>"

text \<open>
  The record of A with the stored status \<^verbatim>\<open>archived\<close>, which is none of the three
  status names, and a store whose active bucket file holds it.
\<close>

definition exampleArchived :: raw where
  "exampleArchived =
     RObj (map (\<lambda>(k, v). if k = ''status'' then (k, RStr ''archived'') else (k, v))
             (itemProps exampleA))"

definition archivedDisk :: disk where
  "archivedDisk =
     \<lparr>activeFile = Some (Parsed (RArr [exampleArchived])),
      pendingFile = None, deprecatedFile = None, memoryFile = None, runtimeProjection = None\<rparr>"

text \<open>A and B after the merge \<open>mergeAB\<close> that keeps A.\<close>

definition mergedA :: memoryItem where
  "mergedA =
     exampleA\<lparr>item_value := StrV ''canary-then-blue-green'', updated := Some ''2024-04-01'',
       next' := Some ''Merged conflict MEM-2024-01-001__MEM-2024-01-002; resolved by keeping MEM-2024-01-001.''\<rparr>"

definition deprecatedB :: memoryItem where
  "deprecatedB =
     exampleB\<lparr>status := Deprecated, updated := Some ''2024-04-01'',
       next' := Some ''Deprecated after conflict merge MEM-2024-01-001__MEM-2024-01-002 into MEM-2024-01-001.''\<rparr>"

definition defaultLock :: lockParams where
  "defaultLock =
     \<lparr>lockPath = ''/m/locks/status-store.lock'', timeoutMs = None, retryMs = None,
      staleMs = None\<rparr>"

text \<open>A pass that finds the lock file, last modified at \<open>mtime\<close>, and a pass that creates it.\<close>

definition collisionAt :: "int \<Rightarrow> int \<Rightarrow> lockObs" where
  "collisionAt mtime now =
     \<lparr>opened = OpenErr (Some ''EEXIST''), lockMtimeMs = Some mtime, nowAtStat = now,
      nowAtCheck = now\<rparr>"

definition freeAt :: "int \<Rightarrow> lockObs" where
  "freeAt now = \<lparr>opened = OpenOk, lockMtimeMs = None, nowAtStat = now, nowAtCheck = now\<rparr>"

text \<open>
  A caller that starts at 1000000 ms, finds a fresh lock file, sleeps once and then
  creates the lock file.
\<close>

definition waitingOnce :: "lockObs list" where
  "waitingOnce = [collisionAt 990000 1000000, freeAt 1000200]"

section \<open>Verified properties\<close>

subsection \<open>Severity verdict\<close>

text \<open>
  C2. For every list of audit issues, \<open>auditExitCode\<close> is 2 exactly when some issue has
  code schema, duplicate-id, no-source or conflict; failing that it is 1 exactly when
  some issue has code stale; failing both it is 0.
\<close>

theorem auditExitCode_severity:
  "(auditExitCode issues = 2 \<longleftrightarrow>
      (\<exists>i \<in> set issues. code i \<in> {Schema, DuplicateId, NoSource, Conflict})) \<and>
   (auditExitCode issues = 1 \<longleftrightarrow>
      \<not> (\<exists>i \<in> set issues. code i \<in> {Schema, DuplicateId, NoSource, Conflict}) \<and>
      (\<exists>i \<in> set issues. code i = Stale)) \<and>
   (auditExitCode issues = 0 \<longleftrightarrow>
      \<not> (\<exists>i \<in> set issues. code i \<in> {Schema, DuplicateId, NoSource, Conflict}) \<and>
      \<not> (\<exists>i \<in> set issues. code i = Stale))"
  by (auto simp: auditExitCode_def isSevere_def list_ex_iff)

theorem auditExitCode_severity_witness:
  "auditExitCode [makeIssue Stale ''s'' [], makeIssue Conflict ''c'' []] = 2 \<and>
   auditExitCode [makeIssue Stale ''s'' []] = 1 \<and>
   auditExitCode [] = 0"
  using auditExitCode_severity [of "[makeIssue Stale ''s'' [], makeIssue Conflict ''c'' []]"]
    auditExitCode_severity [of "[makeIssue Stale ''s'' []]"]
    auditExitCode_severity [of "[]"]
  by (simp add: makeIssue_def)

subsection \<open>File lock\<close>

lemma onCollision_cong:
  assumes "lockTimeoutMs p = lockTimeoutMs q" and "lockStaleMs p = lockStaleMs q"
  shows "onCollision p startedAt ob = onCollision q startedAt ob"
  using assms by (auto simp: onCollision_def split: option.splits)

lemma withFileLockLoop_cong:
  assumes "lockTimeoutMs p = lockTimeoutMs q" and "lockRetryMs p = lockRetryMs q"
    and "lockStaleMs p = lockStaleMs q" and "lockPath p = lockPath q"
  shows "withFileLockLoop p startedAt obs task s = withFileLockLoop q startedAt obs task s"
proof -
  have c: "onCollision p startedAt ob = onCollision q startedAt ob" for ob
    using assms by (intro onCollision_cong)
  show ?thesis
    using assms
    by (induction obs arbitrary: s) (auto simp: c split: attempt.splits collision.splits)
qed

text \<open>
  C10. \<open>withFileLock\<close> works with the requested value, or the default when none is
  requested, raised to a floor: the timeout is the larger of 1000 ms and the request
  (30000 ms by default), the poll interval the larger of 50 ms and the request (200 ms by
  default), the stale threshold the larger of 60000 ms and the request (900000 ms by
  default). So the three are at least 1000, 50 and 60000 ms whatever the caller passes; a
  caller asking for a stale threshold of 5000 ms gets 60000 ms, one asking for 120000 ms
  gets 120000 ms, and the lock behaves as if the raised values had been asked for: a lock
  file 100 s old is reclaimed under the first request and waited for under the second.
\<close>

theorem withFileLock_clamps:
  "lockTimeoutMs (params\<lparr>timeoutMs := Some t\<rparr>) = max 1000 t \<and>
   lockTimeoutMs (params\<lparr>timeoutMs := None\<rparr>) = 30000 \<and>
   lockRetryMs (params\<lparr>retryMs := Some r\<rparr>) = max 50 r \<and>
   lockRetryMs (params\<lparr>retryMs := None\<rparr>) = 200 \<and>
   lockStaleMs (params\<lparr>staleMs := Some v\<rparr>) = max 60000 v \<and>
   lockStaleMs (params\<lparr>staleMs := None\<rparr>) = 900000 \<and>
   1000 \<le> lockTimeoutMs params \<and> 50 \<le> lockRetryMs params \<and> 60000 \<le> lockStaleMs params \<and>
   lockStaleMs (params\<lparr>staleMs := Some 5000\<rparr>) = 60000 \<and>
   lockStaleMs (params\<lparr>staleMs := Some 120000\<rparr>) = 120000 \<and>
   withFileLock (params\<lparr>staleMs := Some 5000\<rparr>) startedAt obs task s =
     withFileLock (params\<lparr>staleMs := Some 60000\<rparr>) startedAt obs task s \<and>
   withFileLock (params\<lparr>timeoutMs := Some t, retryMs := Some r, staleMs := Some v\<rparr>)
       startedAt obs task s =
     withFileLock
       (params\<lparr>timeoutMs := Some (max 1000 t), retryMs := Some (max 50 r),
          staleMs := Some (max 60000 v)\<rparr>)
       startedAt obs task s \<and>
   withFileLock (defaultLock\<lparr>staleMs := Some 5000\<rparr>) 1000000
       [collisionAt 900000 1000000, freeAt 1000000] (\<lambda>s. (Inr (7::nat), s)) (0::nat) =
     ([UnlinkedStale, Released], Returned 7, 0) \<and>
   withFileLock (defaultLock\<lparr>staleMs := Some 120000\<rparr>) 1000000
       [collisionAt 900000 1000000, freeAt 1000200] (\<lambda>s. (Inr (7::nat), s)) (0::nat) =
     ([Slept 200, Released], Returned 7, 0)"
proof -
  have 1: "withFileLockLoop (params\<lparr>staleMs := Some 5000\<rparr>) startedAt obs task s =
        withFileLockLoop (params\<lparr>staleMs := Some 60000\<rparr>) startedAt obs task s"
    by (rule withFileLockLoop_cong)
      (simp_all add: lockTimeoutMs_def lockRetryMs_def lockStaleMs_def)
  have 2: "withFileLockLoop (params\<lparr>timeoutMs := Some t, retryMs := Some r, staleMs := Some v\<rparr>)
       startedAt obs task s =
     withFileLockLoop
       (params\<lparr>timeoutMs := Some (max 1000 t), retryMs := Some (max 50 r),
          staleMs := Some (max 60000 v)\<rparr>)
       startedAt obs task s"
    by (rule withFileLockLoop_cong)
      (simp_all add: lockTimeoutMs_def lockRetryMs_def lockStaleMs_def)
  have 3: "withFileLock (defaultLock\<lparr>staleMs := Some 5000\<rparr>) 1000000
       [collisionAt 900000 1000000, freeAt 1000000] (\<lambda>s. (Inr (7::nat), s)) (0::nat) =
     ([UnlinkedStale, Released], Returned 7, 0)"
    by (simp add: collisionAt_def freeAt_def defaultLock_def readLockAgeMs_def lockStaleMs_def
      lockTimeoutMs_def lockRetryMs_def DEFAULT_LOCK_STALE_MS_def DEFAULT_LOCK_TIMEOUT_MS_def
      DEFAULT_LOCK_RETRY_MS_def withFileLock_def tryAcquire_def onCollision_def)
  have 4: "withFileLock (defaultLock\<lparr>staleMs := Some 120000\<rparr>) 1000000
       [collisionAt 900000 1000000, freeAt 1000200] (\<lambda>s. (Inr (7::nat), s)) (0::nat) =
     ([Slept 200, Released], Returned 7, 0)"
    by (simp add: collisionAt_def freeAt_def defaultLock_def readLockAgeMs_def lockStaleMs_def
      lockTimeoutMs_def lockRetryMs_def DEFAULT_LOCK_STALE_MS_def DEFAULT_LOCK_TIMEOUT_MS_def
      DEFAULT_LOCK_RETRY_MS_def withFileLock_def tryAcquire_def onCollision_def)
  have 5: "lockTimeoutMs (params\<lparr>timeoutMs := Some t\<rparr>) = max 1000 t"
    "lockTimeoutMs (params\<lparr>timeoutMs := None\<rparr>) = 30000"
    "lockRetryMs (params\<lparr>retryMs := Some r\<rparr>) = max 50 r"
    "lockRetryMs (params\<lparr>retryMs := None\<rparr>) = 200"
    "lockStaleMs (params\<lparr>staleMs := Some v\<rparr>) = max 60000 v"
    "lockStaleMs (params\<lparr>staleMs := None\<rparr>) = 900000"
    by (simp_all add: lockTimeoutMs_def lockRetryMs_def lockStaleMs_def
      DEFAULT_LOCK_STALE_MS_def DEFAULT_LOCK_TIMEOUT_MS_def DEFAULT_LOCK_RETRY_MS_def)
  have 6: "1000 \<le> lockTimeoutMs params" "50 \<le> lockRetryMs params" "60000 \<le> lockStaleMs params"
    "lockStaleMs (params\<lparr>staleMs := Some 5000\<rparr>) = 60000"
    "lockStaleMs (params\<lparr>staleMs := Some 120000\<rparr>) = 120000"
    by (simp_all add: lockTimeoutMs_def lockRetryMs_def lockStaleMs_def)
  from 1 2 have 7: "withFileLock (params\<lparr>staleMs := Some 5000\<rparr>) startedAt obs task s =
     withFileLock (params\<lparr>staleMs := Some 60000\<rparr>) startedAt obs task s"
    "withFileLock (params\<lparr>timeoutMs := Some t, retryMs := Some r, staleMs := Some v\<rparr>)
       startedAt obs task s =
     withFileLock
       (params\<lparr>timeoutMs := Some (max 1000 t), retryMs := Some (max 50 r),
          staleMs := Some (max 60000 v)\<rparr>)
       startedAt obs task s"
    by (simp_all add: withFileLock_def)
  from 3 4 5 6 7 show ?thesis by (intro conjI)
qed

text \<open>
  C5. When creating the lock file fails with \<^verbatim>\<open>EEXIST\<close>: if the lock file's age is
  above the stale threshold, the file is unlinked and the next pass follows with no sleep
  in between; otherwise, if the time since \<open>startedAt\<close> has reached the timeout, the call
  raises the timeout error, the task is not run and nothing further happens; otherwise
  the caller sleeps the poll interval and the next pass follows.
\<close>

theorem withFileLock_collision:
  assumes "opened ob = OpenErr (Some ''EEXIST'')"
  shows
    "((\<exists>age. readLockAgeMs ob = Some age \<and> age > lockStaleMs params) \<longrightarrow>
        withFileLock params startedAt (ob # rest) task s =
          (case withFileLock params startedAt rest task s of
             (evs, out, s') \<Rightarrow> (UnlinkedStale # evs, out, s'))) \<and>
     (\<not> (\<exists>age. readLockAgeMs ob = Some age \<and> age > lockStaleMs params) \<and>
      nowAtCheck ob - startedAt \<ge> lockTimeoutMs params \<longrightarrow>
        withFileLock params startedAt (ob # rest) task s =
          ([], Threw (LockTimeout (lockPath params)), s)) \<and>
     (\<not> (\<exists>age. readLockAgeMs ob = Some age \<and> age > lockStaleMs params) \<and>
      nowAtCheck ob - startedAt < lockTimeoutMs params \<longrightarrow>
        withFileLock params startedAt (ob # rest) task s =
          (case withFileLock params startedAt rest task s of
             (evs, out, s') \<Rightarrow> (Slept (lockRetryMs params) # evs, out, s')))"
  using assms
  by (auto simp: withFileLock_def tryAcquire_def onCollision_def split: option.splits prod.splits)

text \<open>
  The three cases at work, with the default configuration and a caller that started at
  1000000 ms: a lock file 1000 s old is reclaimed at once; a fresh one after 30 s of
  waiting ends in the timeout error; a fresh one at the first pass costs one sleep of
  200 ms.
\<close>

theorem withFileLock_collision_witness:
  "withFileLock defaultLock 1000000 [collisionAt 0 1000000, freeAt 1000000]
     (\<lambda>s. (Inr (7::nat), s)) (0::nat)
     = ([UnlinkedStale, Released], Returned 7, 0) \<and>
   withFileLock defaultLock 1000000 [collisionAt 990000 1030000, freeAt 1030200]
     (\<lambda>s. (Inr (7::nat), s)) (0::nat)
     = ([], Threw (LockTimeout ''/m/locks/status-store.lock''), 0) \<and>
   withFileLock defaultLock 1000000 [collisionAt 990000 1000000, freeAt 1000200]
     (\<lambda>s. (Inr (7::nat), s)) (0::nat)
     = ([Slept 200, Released], Returned 7, 0)"
  using
    withFileLock_collision [of "collisionAt 0 1000000" defaultLock 1000000
      "[freeAt 1000000]" "\<lambda>s. (Inr (7::nat), s)" "0::nat"]
    withFileLock_collision [of "collisionAt 990000 1030000" defaultLock 1000000
      "[freeAt 1030200]" "\<lambda>s. (Inr (7::nat), s)" "0::nat"]
    withFileLock_collision [of "collisionAt 990000 1000000" defaultLock 1000000
      "[freeAt 1000200]" "\<lambda>s. (Inr (7::nat), s)" "0::nat"]
  by (simp add: collisionAt_def freeAt_def defaultLock_def readLockAgeMs_def lockStaleMs_def
      lockTimeoutMs_def lockRetryMs_def DEFAULT_LOCK_STALE_MS_def DEFAULT_LOCK_TIMEOUT_MS_def
      DEFAULT_LOCK_RETRY_MS_def withFileLock_def tryAcquire_def)

subsection \<open>Conflict predicate\<close>

lemma parseIsoDay_examples:
  "parseIsoDay ''2024-01-01'' = Some 1704067200000"
  "parseIsoDay ''2024-06-01'' = Some 1717200000000"
  "parseIsoDay ''2024-03-01'' = Some 1709251200000"
  "parseIsoDay ''2024-09-01'' = Some 1725148800000"
  "parseIsoDay ''2024-07-01'' = Some 1719792000000"
  "parseIsoDay ''2024-04-01'' = Some 1711929600000"
  by code_simp+

text \<open>
  C3, as the code has it. \<open>isConflictPair a b\<close> holds exactly when the status of both
  items is among the allowed statuses (only \<^verbatim>\<open>active\<close> unless the caller says
  otherwise), topic and key are equal, the values differ, the scopes intersect (env equal
  or one of them \<^verbatim>\<open>all\<close>; service equal or one of them unset or empty; region
  likewise), and the four dates parse as ISO days with
  \<open>effective_from a \<le> expires b\<close> and \<open>effective_from b \<le> expires a\<close>.
\<close>

theorem isConflictPair_iff:
  "isConflictPair a b options \<longleftrightarrow>
     status a \<in> set (case options of Some sts \<Rightarrow> sts | None \<Rightarrow> [Active]) \<and>
     status b \<in> set (case options of Some sts \<Rightarrow> sts | None \<Rightarrow> [Active]) \<and>
     topic a = topic b \<and> key a = key b \<and> item_value a \<noteq> item_value b \<and>
     (env (scope a) = env (scope b) \<or> env (scope a) = EnvAll \<or> env (scope b) = EnvAll) \<and>
     (service (scope a) = service (scope b) \<or> falsy (service (scope a)) \<or>
      falsy (service (scope b))) \<and>
     (region (scope a) = region (scope b) \<or> falsy (region (scope a)) \<or>
      falsy (region (scope b))) \<and>
     (\<exists>aStart aEnd bStart bEnd.
        parseIsoDay (effective_from a) = Some aStart \<and> parseIsoDay (expires a) = Some aEnd \<and>
        parseIsoDay (effective_from b) = Some bStart \<and> parseIsoDay (expires b) = Some bEnd \<and>
        aStart \<le> bEnd \<and> bStart \<le> aEnd)"
  by (auto simp: isConflictPair_def scopesIntersect_def datesOverlap_def Let_def
      split: option.splits)

text \<open>
  The specification's example: A and B, both active, conflict; with B's window moved to
  start on 2024-07-01 they do not.
\<close>

theorem isConflictPair_iff_witness:
  "isConflictPair exampleA exampleB None \<and>
   \<not> isConflictPair exampleA (exampleB\<lparr>effective_from := ''2024-07-01''\<rparr>) None"
  using isConflictPair_iff [of exampleA exampleB None]
    isConflictPair_iff [of exampleA "exampleB\<lparr>effective_from := ''2024-07-01''\<rparr>" None]
  by (simp add: exampleA_def exampleB_def parseIsoDay_examples)

text \<open>
  C3 as stated fails: the same A and B, both deprecated, agree on topic and key, differ in
  value, intersect in scope and overlap in time, and yet are no conflict pair, neither
  with the default statuses nor with \<^verbatim>\<open>active\<close> and \<^verbatim>\<open>pending\<close>.
\<close>

theorem isConflictPair_status_counterexample:
  "\<not> isConflictPair (exampleA\<lparr>status := Deprecated\<rparr>) (exampleB\<lparr>status := Deprecated\<rparr>) None \<and>
   \<not> isUnresolvedConflictPair (exampleA\<lparr>status := Deprecated\<rparr>)
       (exampleB\<lparr>status := Deprecated\<rparr>) \<and>
   topic (exampleA\<lparr>status := Deprecated\<rparr>) = topic (exampleB\<lparr>status := Deprecated\<rparr>) \<and>
   key (exampleA\<lparr>status := Deprecated\<rparr>) = key (exampleB\<lparr>status := Deprecated\<rparr>) \<and>
   item_value (exampleA\<lparr>status := Deprecated\<rparr>) \<noteq>
     item_value (exampleB\<lparr>status := Deprecated\<rparr>) \<and>
   scopesIntersect (scope (exampleA\<lparr>status := Deprecated\<rparr>))
     (scope (exampleB\<lparr>status := Deprecated\<rparr>)) \<and>
   datesOverlap (effective_from (exampleA\<lparr>status := Deprecated\<rparr>))
     (expires (exampleA\<lparr>status := Deprecated\<rparr>))
     (effective_from (exampleB\<lparr>status := Deprecated\<rparr>))
     (expires (exampleB\<lparr>status := Deprecated\<rparr>))"
  by (simp add: exampleA_def exampleB_def isConflictPair_def isUnresolvedConflictPair_def
      scopesIntersect_def datesOverlap_def parseIsoDay_examples falsy_def)

subsection \<open>Validation of a record and its round trip\<close>

lemma trim_fixed:
  assumes "s \<noteq> []" "\<not> isWhiteSpace (hd s)" "\<not> isWhiteSpace (last s)"
  shows "trim s = s"
proof -
  have 1: "dropWhile isWhiteSpace s = s"
    using assms by (cases s) auto
  have "rev s \<noteq> []" "\<not> isWhiteSpace (hd (rev s))"
    using assms by (simp_all add: hd_rev)
  then have 2: "dropWhile isWhiteSpace (rev s) = rev s"
    by (cases "rev s") auto
  show ?thesis by (simp add: trim_def 1 2)
qed

lemma trim_ends:
  assumes "trim s \<noteq> []"
  shows "\<not> isWhiteSpace (hd (trim s)) \<and> \<not> isWhiteSpace (last (trim s))"
proof -
  define u where "u = dropWhile isWhiteSpace s"
  define v where "v = dropWhile isWhiteSpace (rev u)"
  have t: "trim s = rev v" by (simp add: trim_def u_def v_def)
  with assms have v: "v \<noteq> []" by simp
  then have hv: "\<not> isWhiteSpace (hd v)"
    unfolding v_def by (metis hd_dropWhile)
  have "rev u = takeWhile isWhiteSpace (rev u) @ v"
    by (simp add: v_def)
  then have "last (rev u) = last v"
    using v by (metis last_appendR)
  moreover have "u \<noteq> []" using v by (auto simp: v_def)
  ultimately have "last v = hd u" by (simp add: last_rev)
  moreover have "\<not> isWhiteSpace (hd u)"
    using \<open>u \<noteq> []\<close> unfolding u_def by (metis hd_dropWhile)
  ultimately show ?thesis
    using hv v by (simp add: t hd_rev last_rev)
qed

lemma trimmed_trim: "trim s \<noteq> [] \<Longrightarrow> trimmed (trim s)"
  using trim_ends [of s] trim_fixed [of "trim s"] by (simp add: trimmed_def)

lemma asString_Some_trimmed: "asString v = Some t \<Longrightarrow> trimmed t"
  by (auto simp: asString_def Let_def trimmed_trim split: option.splits raw.splits if_splits)

lemma asString_trimmed [simp]: "trimmed s \<Longrightarrow> asString (Some (RStr s)) = Some s"
  by (simp add: asString_def trimmed_def)

lemma asString_orUndefined_trimmed [simp]:
  "trimmed s \<Longrightarrow> asString (orUndefined (Some (RStr s))) = Some s"
  by (simp add: orUndefined_def)

lemma asString_None [simp]: "asString None = None" "asString (orUndefined None) = None"
  by (simp_all add: asString_def orUndefined_def)

lemma normalizeStatus_statusName [simp]: "normalizeStatus (Some (RStr (statusName st))) = Some st"
  by (cases st) (simp_all add: normalizeStatus_def statusName_def trim_def isWhiteSpace_def
      toLowerCase_def lowerChar_def)

lemma normalizeEnv_envName [simp]: "normalizeEnv (Some (RStr (envName e))) = Some e"
  by (cases e) (simp_all add: normalizeEnv_def envName_def trim_def isWhiteSpace_def
      toLowerCase_def lowerChar_def)

lemma normalizeConfidence_confidenceName [simp]:
  "normalizeConfidence (Some (RStr (confidenceName c))) = Some c"
  by (cases c) (simp_all add: normalizeConfidence_def confidenceName_def trim_def isWhiteSpace_def
      toLowerCase_def lowerChar_def)

lemma normalizeConfidence_None [simp]: "normalizeConfidence None = None"
  by (simp add: normalizeConfidence_def)

lemma primitiveValue_valueToRaw [simp]: "primitiveValue (Some (valueToRaw v)) = Some v"
  by (cases v) (simp_all add: primitiveValue_def valueToRaw_def)

lemma issueIf_Nil [simp]: "issueIf c x = [] \<longleftrightarrow> \<not> c"
  by (simp add: issueIf_def)

lemma issueIf_set [simp]: "y \<in> set (issueIf c x) \<longleftrightarrow> c \<and> y = x"
  by (cases c) (auto simp: issueIf_def)

lemma code_itemIssue [simp]: "code (itemIssue c idv i t) = c"
  by (simp add: itemIssue_def makeIssue_def)

lemma code_makeIssue [simp]: "code (makeIssue c m is) = c"
  by (simp add: makeIssue_def)

lemma recordIssues_codes:
  "issue \<in> set (recordIssues obj i) \<Longrightarrow> code issue = Schema \<or> code issue = NoSource"
  unfolding recordIssues_def Let_def
  by (auto split: option.splits)



lemma idBlock_Nil:
  "(case v of None \<Rightarrow> [x] | Some i \<Rightarrow> issueIf (\<not> P i) (y i)) = [] \<longleftrightarrow>
   (case v of None \<Rightarrow> False | Some i \<Rightarrow> P i)"
  by (simp split: option.splits)

lemma updatedBlock_Nil:
  "(case v of Some u \<Rightarrow> issueIf (Q u) (y u) | None \<Rightarrow> []) = [] \<longleftrightarrow>
   (case v of None \<Rightarrow> True | Some u \<Rightarrow> \<not> Q u)"
  by (simp split: option.splits)

lemma datesBlock_Nil:
  "(case (a, b) of (Some (s :: int), Some e) \<Rightarrow> issueIf (s > e) (y s e) | _ \<Rightarrow> []) = [] \<longleftrightarrow>
   (case (a, b) of (Some s, Some e) \<Rightarrow> \<not> s > e | _ \<Rightarrow> True)"
  by (simp split: option.splits)

lemma bind_None_iff: "(v = None \<or> Option.bind v f = None) \<longleftrightarrow> Option.bind v f = None"
  by (cases v) simp_all

lemma scopeBlock_iff:
  "\<not> (v \<noteq> None \<and> (case v of None \<Rightarrow> Some [] | Some sv \<Rightarrow> asObject sv) = None) \<longleftrightarrow>
   (case v of None \<Rightarrow> True | Some sv \<Rightarrow> asObject sv \<noteq> None)"
  by (cases v) simp_all

lemma recordIssues_Nil_iff: "recordIssues obj i = [] \<longleftrightarrow> recordValid obj"
  unfolding recordIssues_def recordValid_def Let_def append_is_Nil_conv
    idBlock_Nil updatedBlock_Nil datesBlock_Nil issueIf_Nil bind_None_iff scopeBlock_iff
  by (rule refl)

lemma recordItem_valid:
  assumes v: "recordValid obj"
  shows "\<exists>item. recordItem obj = Some item \<and> wellFormedItem item"
proof -
  from v obtain i where i: "asString (getProp obj ''id'') = Some i" "ID_PATTERN i"
    unfolding recordValid_def by (cases "asString (getProp obj ''id'')") simp_all
  from v obtain t where t: "asString (getProp obj ''topic'') = Some t"
    unfolding recordValid_def by blast
  from v obtain k where k: "asString (getProp obj ''key'') = Some k"
    unfolding recordValid_def by blast
  from v obtain pv where pv: "primitiveValue (getProp obj ''value'') = Some pv"
    unfolding recordValid_def by blast
  from v obtain st where st: "normalizeStatus (getProp obj ''status'') = Some st"
    unfolding recordValid_def by blast
  from v obtain src where src: "asString (getProp obj ''source'') = Some src" "isValidSource src"
    unfolding recordValid_def by (cases "asString (getProp obj ''source'')") simp_all
  from v obtain ets where "Option.bind (asString (getProp obj ''effective_from'')) parseIsoDay = Some ets"
    unfolding recordValid_def by blast
  then obtain ef where ef: "asString (getProp obj ''effective_from'') = Some ef" "parseIsoDay ef = Some ets"
    by (cases "asString (getProp obj ''effective_from'')") simp_all
  from v obtain xts where "Option.bind (asString (getProp obj ''expires'')) parseIsoDay = Some xts"
    unfolding recordValid_def by blast
  then obtain ex where ex: "asString (getProp obj ''expires'') = Some ex" "parseIsoDay ex = Some xts"
    by (cases "asString (getProp obj ''expires'')") simp_all
  from v have le: "ets \<le> xts"
    unfolding recordValid_def by (simp add: ef ex)
  define scopeRaw where
    "scopeRaw = (case getProp obj ''scope'' of None \<Rightarrow> Some [] | Some sv \<Rightarrow> asObject sv)"
  from v obtain e where e: "normalizeEnv (optProp scopeRaw ''env'') = Some e"
    unfolding recordValid_def scopeRaw_def by blast
  from v have upd: "case asString (orUndefined (getProp obj ''updated'')) of
      None \<Rightarrow> True | Some u \<Rightarrow> parseIsoDay u \<noteq> None"
    unfolding recordValid_def by blast
  define item where
    "item = \<lparr>item_id = i, topic = t, key = k, item_value = pv, status = st, source = src,
       effective_from = ef, expires = ex,
       scope = \<lparr>env = e, service = asString (orUndefined (optProp scopeRaw ''service'')),
                region = asString (orUndefined (optProp scopeRaw ''region''))\<rparr>,
       updated = asString (orUndefined (getProp obj ''updated'')),
       confidence = normalizeConfidence (getProp obj ''confidence''),
       next' = asString (orUndefined (getProp obj ''next''))\<rparr>"
  have 1: "recordItem obj = Some item"
    unfolding recordItem_def Let_def item_def scopeRaw_def [symmetric]
    by (simp add: i t k pv st src ef ex e)
  have opt: "optTrimmed (asString x)" for x
    by (cases "asString x") (simp_all add: optTrimmed_def asString_Some_trimmed)
  have 2: "wellFormedItem item"
    unfolding wellFormedItem_def item_def
    using i t k src ef ex le upd
    by (simp add: asString_Some_trimmed opt)
  from 1 2 show ?thesis by blast
qed


lemma getProp_itemProps:
  "getProp (itemProps item) ''id'' = Some (RStr (item_id item))"
  "getProp (itemProps item) ''topic'' = Some (RStr (topic item))"
  "getProp (itemProps item) ''key'' = Some (RStr (key item))"
  "getProp (itemProps item) ''value'' = Some (valueToRaw (item_value item))"
  "getProp (itemProps item) ''status'' = Some (RStr (statusName (status item)))"
  "getProp (itemProps item) ''source'' = Some (RStr (source item))"
  "getProp (itemProps item) ''effective_from'' = Some (RStr (effective_from item))"
  "getProp (itemProps item) ''expires'' = Some (RStr (expires item))"
  "getProp (itemProps item) ''scope'' = Some (RObj (scopeProps (scope item)))"
  "getProp (itemProps item) ''updated'' = map_option RStr (updated item)"
  "getProp (itemProps item) ''confidence'' =
     map_option (\<lambda>c. RStr (confidenceName c)) (confidence item)"
  "getProp (itemProps item) ''next'' = map_option RStr (next' item)"
  by (simp_all add: getProp_def itemProps_def optEntry_def split: option.splits)

lemma getProp_scopeProps:
  "getProp (scopeProps sc) ''env'' = Some (RStr (envName (env sc)))"
  "getProp (scopeProps sc) ''service'' = map_option RStr (service sc)"
  "getProp (scopeProps sc) ''region'' = map_option RStr (region sc)"
  by (simp_all add: getProp_def scopeProps_def optEntry_def split: option.splits)

lemma asString_optTrimmed:
  "optTrimmed v \<Longrightarrow> asString (orUndefined (map_option RStr v)) = v"
  by (cases v) (simp_all add: optTrimmed_def)

lemma recordItem_itemProps:
  assumes "wellFormedItem item"
  shows "recordItem (itemProps item) = Some item"
proof -
  have c: "normalizeConfidence (map_option (\<lambda>c. RStr (confidenceName c)) (confidence item)) =
      confidence item"
    by (cases "confidence item") simp_all
  show ?thesis
    using assms
    unfolding recordItem_def Let_def wellFormedItem_def
    by (simp add: getProp_itemProps getProp_scopeProps asObject_def optProp_def
        asString_optTrimmed c)
qed

lemma recordValid_itemProps:
  assumes "wellFormedItem item"
  shows "recordValid (itemProps item)"
proof -
  from assms obtain a b where
    ab: "parseIsoDay (effective_from item) = Some a" "parseIsoDay (expires item) = Some b" "a \<le> b"
    unfolding wellFormedItem_def by (auto split: option.splits)
  have u: "case asString (orUndefined (map_option RStr (updated item))) of None \<Rightarrow> True
      | Some u \<Rightarrow> parseIsoDay u \<noteq> None"
    using assms unfolding wellFormedItem_def by (simp add: asString_optTrimmed)
  from ab have nlt: "\<not> b < a" by simp
  show ?thesis
    using assms u nlt
    unfolding recordValid_def wellFormedItem_def
    by (simp add: getProp_itemProps getProp_scopeProps asObject_def optProp_def ab)
qed

lemma buildItem_itemToRaw:
  "wellFormedItem item \<Longrightarrow> buildItem (itemToRaw item) i = (Some item, [])"
  using recordIssues_Nil_iff [of "itemProps item" i]
  by (simp add: buildItem_def itemToRaw_def asObject_def recordValid_itemProps
      recordItem_itemProps)

lemma buildItem_Some:
  assumes "buildItem r i = (Some item, iss)"
  shows "iss = [] \<and> wellFormedItem item"
proof (cases "asObject r")
  case None
  with assms show ?thesis by (simp add: buildItem_def)
next
  case (Some obj)
  with assms have n: "recordIssues obj i = []" and it: "recordItem obj = Some item" and "iss = []"
    by (auto simp: buildItem_def Let_def split: if_splits)
  from n have "recordValid obj" by (simp add: recordIssues_Nil_iff)
  with it recordItem_valid [of obj] show ?thesis
    using \<open>iss = []\<close> by auto
qed

lemma buildItem_fst_index: "fst (buildItem r i) = fst (buildItem r j)"
  by (cases "asObject r") (simp_all add: buildItem_def Let_def recordIssues_Nil_iff)

lemma buildItem_None_iff: "fst (buildItem r i) = None \<longleftrightarrow> snd (buildItem r i) \<noteq> []"
proof (cases "asObject r")
  case None
  then show ?thesis by (simp add: buildItem_def)
next
  case (Some obj)
  show ?thesis
  proof (cases "recordIssues obj i = []")
    case True
    then have "recordValid obj" by (simp add: recordIssues_Nil_iff)
    with recordItem_valid [of obj] True Some show ?thesis
      by (auto simp: buildItem_def)
  next
    case False
    with Some show ?thesis by (simp add: buildItem_def)
  qed
qed

lemma buildItem_codes:
  "issue \<in> set (snd (buildItem r i)) \<Longrightarrow> code issue = Schema \<or> code issue = NoSource"
  by (cases "asObject r") (auto simp: buildItem_def Let_def dest: recordIssues_codes split: if_splits)

subsection \<open>Reading a list of records, and sorting\<close>

lemma readEntries_items:
  "fst (readEntries rs i) =
     concat (map (\<lambda>r. case fst (buildItem r 0) of Some item \<Rightarrow> [item] | None \<Rightarrow> []) rs)"
proof (induction rs arbitrary: i)
  case Nil
  show ?case by simp
next
  case (Cons r rs)
  have "fst (buildItem r i) = fst (buildItem r 0)" by (rule buildItem_fst_index)
  with Cons [of "i + 1"] show ?case
    by (simp add: split_beta)
qed

lemma readEntries_issues:
  "snd (readEntries rs i) =
     concat (map (\<lambda>(k, r). snd (buildItem r k)) (zip [i ..< i + length rs] rs))"
proof (induction rs arbitrary: i)
  case Nil
  show ?case by simp
next
  case (Cons r rs)
  have "[i ..< i + length (r # rs)] = i # [i + 1 ..< (i + 1) + length rs]"
    by (subst upt_rec) simp
  with Cons [of "i + 1"] show ?case
    by (simp add: split_beta)
qed

lemma readEntries_codes:
  "issue \<in> set (snd (readEntries rs i)) \<Longrightarrow> code issue = Schema \<or> code issue = NoSource"
proof (induction rs arbitrary: i)
  case Nil
  then show ?case by simp
next
  case (Cons r rs)
  then show ?case
    by (auto simp: split_beta dest: buildItem_codes)
qed

lemma readEntries_wellFormed: "list_all wellFormedItem (fst (readEntries rs i))"
proof (induction rs arbitrary: i)
  case Nil
  show ?case by simp
next
  case (Cons r rs)
  obtain it iss where b: "buildItem r i = (it, iss)" by (cases "buildItem r i")
  have "it = Some item \<Longrightarrow> wellFormedItem item" for item
    using b buildItem_Some by blast
  with Cons [of "i + 1"] b show ?case
    by (cases it) (simp_all add: split_beta)
qed

lemma readEntries_itemToRaw:
  "list_all wellFormedItem xs \<Longrightarrow> readEntries (map itemToRaw xs) i = (xs, [])"
  by (induction xs arbitrary: i) (simp_all add: buildItem_itemToRaw)

lemma readMemoryItems_wellFormed: "list_all wellFormedItem (fst (readMemoryItems path content))"
  by (auto simp: readMemoryItems_def readEntries_wellFormed
      split: option.splits fileContent.splits raw.splits)

lemma readMemoryItems_serialized:
  "list_all wellFormedItem xs \<Longrightarrow>
   readMemoryItems path (Some (Parsed (RArr (map itemToRaw xs)))) = (xs, [])"
  by (simp add: readMemoryItems_def readEntries_itemToRaw)

lemma localeCompare_le: "localeCompare a b \<le> 0 \<longleftrightarrow> a \<le> b"
  by (auto simp: localeCompare_def)

lemma compareItems_le: "compareItems a b \<le> 0 \<longleftrightarrow> itemKey a \<le> itemKey b"
  by (auto simp: compareItems_def itemKey_def localeCompare_le less_eq_prod_def less_prod_def)

lemma insertSorted_insort_key: "insertSorted compareItems x ys = insort_key itemKey x ys"
  by (induction ys) (simp_all add: compareItems_le)

lemma sortItems_sort_key: "sortItems xs = sort_key itemKey xs"
  by (induction xs) (simp_all add: sortItems_def toSorted_def insertSorted_insort_key)

lemma sortItems_idem [simp]: "sortItems (sortItems xs) = sortItems xs"
  by (simp add: sortItems_sort_key sort_key_id_if_sorted)

lemma set_sortItems [simp]: "set (sortItems xs) = set xs"
  by (simp add: sortItems_sort_key)

lemma length_sortItems [simp]: "length (sortItems xs) = length xs"
  by (simp add: sortItems_sort_key)

lemma list_all_sortItems [simp]: "list_all P (sortItems xs) = list_all P xs"
  by (simp add: list_all_iff)

lemma sortItems_Nil [simp]: "sortItems [] = []"
  by (simp add: sortItems_def toSorted_def)

subsection \<open>Independent validation of records\<close>

lemma wellFormed_exampleA: "wellFormedItem exampleA"
  by code_simp

lemma wellFormed_exampleB: "wellFormedItem exampleB"
  by code_simp

lemma buildItem_exampleBadSource:
  "buildItem exampleBadSource 0 =
     (None, [makeIssue NoSource
               (''Item MEM-2024-01-002 has invalid source '' @ quoted ''wiki/deploy'')
               [''MEM-2024-01-002'']])"
  by code_simp

lemma recordValid_split: "recordValid obj \<longleftrightarrow> fieldsValid obj \<and> sourceAllowed obj"
  unfolding recordValid_def fieldsValid_def sourceAllowed_def by blast

lemma filter_issueIf:
  "filter P (issueIf c x) = (if c \<and> P x then [x] else [])"
  by (cases c) (simp_all add: issueIf_def)

text \<open>The issues of an object with code \<^verbatim>\<open>no-source\<close>: the one issue of the source check.\<close>

lemma recordIssues_noSource:
  "filter (\<lambda>issue. code issue = NoSource) (recordIssues obj i) =
     (case asString (getProp obj ''source'') of
        None \<Rightarrow>
          [itemIssue NoSource (asString (getProp obj ''id'')) i ('' is missing '' @ quoted ''source'')]
      | Some src \<Rightarrow>
          issueIf (\<not> isValidSource src)
            (itemIssue NoSource (asString (getProp obj ''id'')) i
               ('' has invalid source '' @ quoted src)))"
  unfolding recordIssues_def Let_def filter_append filter_issueIf
  by (simp split: option.splits add: issueIf_def)

lemma recordIssues_noSource_iff:
  "(\<exists>issue \<in> set (recordIssues obj i). code issue = NoSource) \<longleftrightarrow> \<not> sourceAllowed obj"
proof -
  have "(\<exists>issue \<in> set (recordIssues obj i). code issue = NoSource) \<longleftrightarrow>
      filter (\<lambda>issue. code issue = NoSource) (recordIssues obj i) \<noteq> []"
    by (simp add: filter_empty_conv)
  then show ?thesis
    unfolding recordIssues_noSource sourceAllowed_def
    by (simp split: option.splits)
qed

lemma recordIssues_schema_iff:
  "(\<exists>issue \<in> set (recordIssues obj i). code issue = Schema) \<longleftrightarrow> \<not> fieldsValid obj"
proof -
  have "filter (\<lambda>issue. code issue = Schema) (recordIssues obj i) = [] \<longleftrightarrow> fieldsValid obj"
    unfolding recordIssues_def fieldsValid_def Let_def filter_append append_is_Nil_conv
      filter_issueIf
    by (simp split: option.splits add: bind_None_iff)
  then show ?thesis
    by (auto simp: filter_empty_conv)
qed

lemma snd_buildItem_object:
  "asObject r = Some obj \<Longrightarrow> snd (buildItem r i) = recordIssues obj i"
  by (simp add: buildItem_def Let_def)

lemma buildItem_notObject:
  "asObject r = None \<Longrightarrow> map code (snd (buildItem r i)) = [Schema]"
  by (simp add: buildItem_def)

lemma buildItem_issue_codes:
  "case asObject r of
     None \<Rightarrow> map code (snd (buildItem r i)) = [Schema]
   | Some obj \<Rightarrow>
       ((\<exists>issue \<in> set (snd (buildItem r i)). code issue = NoSource) \<longleftrightarrow> \<not> sourceAllowed obj) \<and>
       ((\<exists>issue \<in> set (snd (buildItem r i)). code issue = Schema) \<longleftrightarrow> \<not> fieldsValid obj) \<and>
       length (filter (\<lambda>issue. code issue = NoSource) (snd (buildItem r i))) \<le> 1"
proof (cases "asObject r")
  case None
  then show ?thesis by (simp add: buildItem_notObject)
next
  case (Some obj)
  have "length (filter (\<lambda>issue. code issue = NoSource) (recordIssues obj i)) \<le> 1"
    unfolding recordIssues_noSource by (simp add: issueIf_def split: option.splits)
  with Some show ?thesis
    by (simp add: snd_buildItem_object recordIssues_noSource_iff recordIssues_schema_iff)
qed

text \<open>
  C7, as the code has it. Reading a list of raw records never raises: the result is a
  pair of items and issues. The items are the items of the records taken one by one, in
  order, and the issues are the issues of the records taken one by one, each with its
  position; every issue has code \<^verbatim>\<open>schema\<close> or \<^verbatim>\<open>no-source\<close>; a record yields an
  item exactly when it yields no issue, and which item it yields does not depend on its
  position, so no record affects the item of another. A record that is not an object
  yields one issue, with code \<^verbatim>\<open>schema\<close>. An object yields an issue with code
  \<^verbatim>\<open>no-source\<close> exactly when its source is missing or not allow-listed, and then only
  one; it yields an issue with code \<^verbatim>\<open>schema\<close> exactly when one of its other field
  checks fails; it yields an item exactly when neither is the case.
\<close>

theorem readMemoryItems_records:
  "fst (readMemoryItems path (Some (Parsed (RArr parsed)))) =
     concat (map (\<lambda>r. case fst (buildItem r 0) of Some item \<Rightarrow> [item] | None \<Rightarrow> []) parsed) \<and>
   snd (readMemoryItems path (Some (Parsed (RArr parsed)))) =
     concat (map (\<lambda>(i, r). snd (buildItem r i)) (zip [0 ..< length parsed] parsed)) \<and>
   (\<forall>issue \<in> set (snd (readMemoryItems path (Some (Parsed (RArr parsed))))).
      code issue = Schema \<or> code issue = NoSource) \<and>
   (\<forall>r \<in> set parsed. \<forall>i j.
      (fst (buildItem r i) = None \<longleftrightarrow> snd (buildItem r i) \<noteq> []) \<and>
      fst (buildItem r i) = fst (buildItem r j)) \<and>
   (\<forall>r \<in> set parsed. \<forall>i.
      (case asObject r of
         None \<Rightarrow> map code (snd (buildItem r i)) = [Schema]
       | Some obj \<Rightarrow>
           ((\<exists>issue \<in> set (snd (buildItem r i)). code issue = NoSource) \<longleftrightarrow>
              \<not> sourceAllowed obj) \<and>
           ((\<exists>issue \<in> set (snd (buildItem r i)). code issue = Schema) \<longleftrightarrow>
              \<not> fieldsValid obj) \<and>
           length (filter (\<lambda>issue. code issue = NoSource) (snd (buildItem r i))) \<le> 1 \<and>
           (fst (buildItem r i) \<noteq> None \<longleftrightarrow> fieldsValid obj \<and> sourceAllowed obj)))"
proof -
  have 1: "fst (readMemoryItems path (Some (Parsed (RArr parsed)))) =
     concat (map (\<lambda>r. case fst (buildItem r 0) of Some item \<Rightarrow> [item] | None \<Rightarrow> []) parsed)"
    by (simp add: readMemoryItems_def readEntries_items)
  have 2: "snd (readMemoryItems path (Some (Parsed (RArr parsed)))) =
     concat (map (\<lambda>(i, r). snd (buildItem r i)) (zip [0 ..< length parsed] parsed))"
    using readEntries_issues [of parsed 0] by (simp add: readMemoryItems_def)
  have 3: "\<forall>issue \<in> set (snd (readMemoryItems path (Some (Parsed (RArr parsed))))).
      code issue = Schema \<or> code issue = NoSource"
    by (auto simp: readMemoryItems_def dest: readEntries_codes)
  have 4: "\<forall>r \<in> set parsed. \<forall>i j.
      (fst (buildItem r i) = None \<longleftrightarrow> snd (buildItem r i) \<noteq> []) \<and>
      fst (buildItem r i) = fst (buildItem r j)"
    using buildItem_None_iff buildItem_fst_index by blast
  have 5: "case asObject r of
         None \<Rightarrow> map code (snd (buildItem r i)) = [Schema]
       | Some obj \<Rightarrow>
           ((\<exists>issue \<in> set (snd (buildItem r i)). code issue = NoSource) \<longleftrightarrow>
              \<not> sourceAllowed obj) \<and>
           ((\<exists>issue \<in> set (snd (buildItem r i)). code issue = Schema) \<longleftrightarrow>
              \<not> fieldsValid obj) \<and>
           length (filter (\<lambda>issue. code issue = NoSource) (snd (buildItem r i))) \<le> 1 \<and>
           (fst (buildItem r i) \<noteq> None \<longleftrightarrow> fieldsValid obj \<and> sourceAllowed obj)" for r i
  proof (cases "asObject r")
    case None
    then show ?thesis by (simp add: buildItem_notObject)
  next
    case (Some obj)
    have "fst (buildItem r i) \<noteq> None \<longleftrightarrow> recordIssues obj i = []"
      using buildItem_None_iff [of r i] Some by (simp add: snd_buildItem_object)
    then have "fst (buildItem r i) \<noteq> None \<longleftrightarrow> fieldsValid obj \<and> sourceAllowed obj"
      by (simp add: recordIssues_Nil_iff recordValid_split)
    with buildItem_issue_codes [of r i] Some show ?thesis by simp
  qed
  from 1 2 3 4 5 show ?thesis by blast
qed

text \<open>
  A file with a record whose source is not allow-listed, followed by the valid record A:
  A is read, and the first record contributes its one issue.
\<close>

theorem readMemoryItems_records_witness:
  "readMemoryItems ''/m/MEMORY.yml'' (Some (Parsed (RArr [exampleBadSource, itemToRaw exampleA]))) =
     ([exampleA],
      [makeIssue NoSource (''Item MEM-2024-01-002 has invalid source '' @ quoted ''wiki/deploy'')
         [''MEM-2024-01-002'']])"
proof -
  note w = readMemoryItems_records [of "''/m/MEMORY.yml''" "[exampleBadSource, itemToRaw exampleA]"]
  from w have "fst (readMemoryItems ''/m/MEMORY.yml''
        (Some (Parsed (RArr [exampleBadSource, itemToRaw exampleA])))) =
      concat (map (\<lambda>r. case fst (buildItem r 0) of Some item \<Rightarrow> [item] | None \<Rightarrow> [])
        [exampleBadSource, itemToRaw exampleA])"
    by (rule conjunct1)
  moreover from w have "snd (readMemoryItems ''/m/MEMORY.yml''
        (Some (Parsed (RArr [exampleBadSource, itemToRaw exampleA])))) =
      concat (map (\<lambda>(i, r). snd (buildItem r i))
        (zip [0 ..< length [exampleBadSource, itemToRaw exampleA]]
          [exampleBadSource, itemToRaw exampleA]))"
    by (rule conjunct2 [THEN conjunct1])
  ultimately show ?thesis
    by (simp add: buildItem_exampleBadSource buildItem_itemToRaw wellFormed_exampleA prod_eq_iff)
qed

text \<open>
  C7 as stated fails: a record whose only field error is its source yields no item and
  no issue with code \<^verbatim>\<open>schema\<close>; its one issue has code \<^verbatim>\<open>no-source\<close>.
\<close>

theorem readMemoryItems_noSource_counterexample:
  "fst (readMemoryItems ''/m/MEMORY.yml'' (Some (Parsed (RArr [exampleBadSource])))) = [] \<and>
   map code (snd (readMemoryItems ''/m/MEMORY.yml'' (Some (Parsed (RArr [exampleBadSource]))))) =
     [NoSource]"
  by (simp add: readMemoryItems_def buildItem_exampleBadSource makeIssue_def)

subsection \<open>Loading and saving the buckets\<close>

lemma bucket_simps [simp]:
  "bucket B Active = active B" "bucket B Pending = pending B" "bucket B Deprecated = deprecated B"
  by (simp_all add: bucket_def)

lemma setBucket_simps [simp]:
  "setBucket B Active xs = B\<lparr>active := xs\<rparr>"
  "setBucket B Pending xs = B\<lparr>pending := xs\<rparr>"
  "setBucket B Deprecated xs = B\<lparr>deprecated := xs\<rparr>"
  by (simp_all add: setBucket_def)

lemma bucketFile_simps [simp]:
  "bucketFile fs Active = activeFile fs" "bucketFile fs Pending = pendingFile fs"
  "bucketFile fs Deprecated = deprecatedFile fs"
  by (simp_all add: bucketFile_def)

lemma pushItem_simps:
  "pushItem B Active x = B\<lparr>active := active B @ [x]\<rparr>"
  "pushItem B Pending x = B\<lparr>pending := pending B @ [x]\<rparr>"
  "pushItem B Deprecated x = B\<lparr>deprecated := deprecated B @ [x]\<rparr>"
  by (simp_all add: pushItem_def)

lemma foldl_pushItem:
  "foldl (\<lambda>bs item. pushItem bs st (f item)) B xs = setBucket B st (bucket B st @ map f xs)"
  by (induction xs arbitrary: B) (cases st; simp add: pushItem_def)+

text \<open>The items \<open>loadStatusBuckets\<close> puts into the bucket of a status.\<close>

lemma loadStatusBuckets_bucket:
  "bucket (loadStatusBuckets paths fs) st =
     (case bucketFile fs st of
        None \<Rightarrow> []
      | Some content \<Rightarrow>
          map (\<lambda>item. item\<lparr>status := st\<rparr>)
            (fst (readMemoryItems (bucketPath paths st) (Some content))))"
  by (cases st)
    (simp_all add: loadStatusBuckets_def STATUS_ORDER_def foldl_pushItem emptyBuckets_def
      split: option.splits)

lemma loadStatusBuckets_fields:
  "active (loadStatusBuckets paths fs) =
     (case activeFile fs of None \<Rightarrow> []
      | Some content \<Rightarrow>
          map (\<lambda>item. item\<lparr>status := Active\<rparr>)
            (fst (readMemoryItems (activePath paths) (Some content))))"
  "pending (loadStatusBuckets paths fs) =
     (case pendingFile fs of None \<Rightarrow> []
      | Some content \<Rightarrow>
          map (\<lambda>item. item\<lparr>status := Pending\<rparr>)
            (fst (readMemoryItems (pendingPath paths) (Some content))))"
  "deprecated (loadStatusBuckets paths fs) =
     (case deprecatedFile fs of None \<Rightarrow> []
      | Some content \<Rightarrow>
          map (\<lambda>item. item\<lparr>status := Deprecated\<rparr>)
            (fst (readMemoryItems (deprecatedPath paths) (Some content))))"
  using loadStatusBuckets_bucket [of paths fs Active] loadStatusBuckets_bucket [of paths fs Pending]
    loadStatusBuckets_bucket [of paths fs Deprecated]
  by (simp_all add: bucketPath_def split: option.splits)

lemma loadStatusBuckets_cong:
  assumes "activeFile a = activeFile b" "pendingFile a = pendingFile b"
    "deprecatedFile a = deprecatedFile b"
  shows "loadStatusBuckets paths a = loadStatusBuckets paths b"
  using assms by (simp add: loadStatusBuckets_def STATUS_ORDER_def)

lemma wellFormedItem_status [simp]: "wellFormedItem (item\<lparr>status := st\<rparr>) = wellFormedItem item"
  by (simp add: wellFormedItem_def)

lemma bucketsOk_load: "bucketsOk (loadStatusBuckets paths fs)"
proof -
  have "list_all (\<lambda>item. wellFormedItem item \<and> status item = st)
          (bucket (loadStatusBuckets paths fs) st)" for st
    using readMemoryItems_wellFormed
    by (auto simp: loadStatusBuckets_bucket list_all_iff split: option.splits)
  from this [of Active] this [of Pending] this [of Deprecated] show ?thesis
    by (simp add: bucketsOk_def)
qed

lemma saveStatusBuckets_eq:
  "saveStatusBuckets paths B fs =
     fs\<lparr>activeFile := Some (Parsed (RArr (map itemToRaw (sortItems (active B))))),
        pendingFile := Some (Parsed (RArr (map itemToRaw (sortItems (pending B))))),
        deprecatedFile := Some (Parsed (RArr (map itemToRaw (sortItems (deprecated B)))))\<rparr>"
  by (simp add: saveStatusBuckets_def writeBucketFile_def writeMemoryItems_def serializeItems_def)

lemma bucketsOk_sortBuckets [simp]: "bucketsOk (sortBuckets B) = bucketsOk B"
  by (simp add: bucketsOk_def sortBuckets_def)

lemma sortBuckets_idem [simp]: "sortBuckets (sortBuckets B) = sortBuckets B"
  by (simp add: sortBuckets_def)

lemma saveStatusBuckets_sortBuckets [simp]:
  "saveStatusBuckets paths (sortBuckets B) fs = saveStatusBuckets paths B fs"
  by (simp add: saveStatusBuckets_eq sortBuckets_def)

lemma map_status_id:
  "list_all (\<lambda>item. P item \<and> status item = st) xs \<Longrightarrow> map (\<lambda>item. item\<lparr>status := st\<rparr>) xs = xs"
  by (induction xs) simp_all

lemma loadStatusBuckets_save:
  assumes "bucketsOk B"
  shows "loadStatusBuckets paths (saveStatusBuckets paths B fs) = sortBuckets B"
proof -
  have wf: "list_all wellFormedItem (active B)" "list_all wellFormedItem (pending B)"
    "list_all wellFormedItem (deprecated B)"
    using assms by (simp_all add: bucketsOk_def list_all_iff)
  have st: "list_all (\<lambda>item. wellFormedItem item \<and> status item = Active) (sortItems (active B))"
    "list_all (\<lambda>item. wellFormedItem item \<and> status item = Pending) (sortItems (pending B))"
    "list_all (\<lambda>item. wellFormedItem item \<and> status item = Deprecated) (sortItems (deprecated B))"
    using assms by (simp_all add: bucketsOk_def)
  show ?thesis
    by (rule statusBuckets.equality)
      (simp_all add: loadStatusBuckets_fields saveStatusBuckets_eq readMemoryItems_serialized wf
        map_status_id [OF st(1)] map_status_id [OF st(2)] map_status_id [OF st(3)] sortBuckets_def)
qed

lemma seed_buckets:
  "foldl (\<lambda>bs item. pushItem bs (status item) item) B xs =
     \<lparr>active = active B @ filter (\<lambda>item. status item = Active) xs,
      pending = pending B @ filter (\<lambda>item. status item = Pending) xs,
      deprecated = deprecated B @ filter (\<lambda>item. status item = Deprecated) xs\<rparr>"
proof (induction xs arbitrary: B)
  case Nil
  show ?case by simp
next
  case (Cons x xs)
  show ?case
    by (cases "status x") (simp_all add: Cons pushItem_simps)
qed

text \<open>\<open>ensureStatusBuckets\<close> saves buckets that are well formed.\<close>

lemma ensureStatusBuckets_save:
  "\<exists>B. bucketsOk B \<and> ensureStatusBuckets paths fs = saveStatusBuckets paths B fs"
proof (cases "activeFile fs \<noteq> None \<or> pendingFile fs \<noteq> None \<or> deprecatedFile fs \<noteq> None")
  case True
  then have "ensureStatusBuckets paths fs =
      saveStatusBuckets paths (loadStatusBuckets paths fs) fs"
    by (simp add: ensureStatusBuckets_def)
  with bucketsOk_load show ?thesis by blast
next
  case False
  define xs where "xs = fst (readMemoryItems (memoryPath paths) (memoryFile fs))"
  define B where "B = foldl (\<lambda>bs item. pushItem bs (status item) item) emptyBuckets xs"
  have "list_all wellFormedItem xs"
    unfolding xs_def by (rule readMemoryItems_wellFormed)
  then have "bucketsOk B"
    by (simp add: B_def seed_buckets emptyBuckets_def bucketsOk_def list_all_iff)
  moreover from False have "ensureStatusBuckets paths fs = saveStatusBuckets paths B fs"
    by (simp add: ensureStatusBuckets_def B_def xs_def Let_def)
  ultimately show ?thesis by blast
qed

subsection \<open>Bucket membership decides the status\<close>

lemma recordItem_status:
  "recordItem obj = Some item \<Longrightarrow> normalizeStatus (getProp obj ''status'') = Some (status item)"
  unfolding recordItem_def Let_def
  by (auto split: option.splits)

lemma buildItem_status:
  assumes "fst (buildItem r i) = Some item"
  shows "\<exists>obj. asObject r = Some obj \<and> normalizeStatus (getProp obj ''status'') = Some (status item)"
proof (cases "asObject r")
  case None
  with assms show ?thesis by (simp add: buildItem_def)
next
  case (Some obj)
  with assms have "recordItem obj = Some item"
    by (simp add: buildItem_def Let_def split: if_splits)
  with Some show ?thesis by (simp add: recordItem_status)
qed

lemma buildItem_invalidStatus:
  assumes "normalizeStatus (getProp obj ''status'') = None"
  shows "fst (buildItem (RObj obj) i) = None"
proof -
  from assms have "\<not> recordValid obj" by (simp add: recordValid_def)
  then have "recordIssues obj i \<noteq> []" by (simp add: recordIssues_Nil_iff)
  then show ?thesis by (simp add: buildItem_def asObject_def)
qed

lemma bucketFile_writeBucketFile: "bucketFile (writeBucketFile st c fs) st = Some c"
  by (cases st) (simp_all add: writeBucketFile_def)

text \<open>
  C9, as the code has it. The bucket of a status, as \<open>loadStatusBuckets\<close> returns it,
  holds the items read from that status's file, each with its \<open>status\<close> replaced by the
  bucket's status; so every loaded item has the status of its bucket, and no issue is
  reported. The next save writes the items of the bucket, sorted, each with the bucket's
  status, into the file. The items read are those of the records that \<open>buildItem\<close>
  accepts, taken one by one. A record whose stored status is missing or is none of the
  three status names is not accepted: it is left out of the bucket, and so out of the
  file at the next save. A record that is accepted stores one of the three names, and
  which one does not matter: a file that holds well-formed items under any statuses is
  loaded as those items with the bucket's status.
\<close>

theorem loadStatusBuckets_status:
  "bucket (loadStatusBuckets paths fs) st =
     (case bucketFile fs st of
        None \<Rightarrow> []
      | Some content \<Rightarrow>
          map (\<lambda>item. item\<lparr>status := st\<rparr>)
            (fst (readMemoryItems (bucketPath paths st) (Some content)))) \<and>
   (\<forall>item \<in> set (bucket (loadStatusBuckets paths fs) st). status item = st) \<and>
   (\<exists>xs. bucketFile (saveStatusBuckets paths (loadStatusBuckets paths fs) fs') st =
            Some (Parsed (RArr (map itemToRaw xs))) \<and>
         set xs = set (bucket (loadStatusBuckets paths fs) st) \<and>
         (\<forall>item \<in> set xs. status item = st)) \<and>
   bucketFile (saveStatusBuckets paths (loadStatusBuckets paths fs) fs') st =
     Some (Parsed (RArr (map itemToRaw (sortItems (bucket (loadStatusBuckets paths fs) st))))) \<and>
   (bucketFile fs st = Some (Parsed (RArr rs)) \<longrightarrow>
      bucket (loadStatusBuckets paths fs) st =
        map (\<lambda>item. item\<lparr>status := st\<rparr>)
          (concat (map (\<lambda>r. case fst (buildItem r 0) of Some item \<Rightarrow> [item] | None \<Rightarrow> []) rs))) \<and>
   (normalizeStatus (getProp obj ''status'') = None \<longrightarrow> fst (buildItem (RObj obj) i) = None) \<and>
   (fst (buildItem r i) = Some read \<longrightarrow>
      (\<exists>robj. asObject r = Some robj \<and>
         normalizeStatus (getProp robj ''status'') = Some (status read))) \<and>
   (list_all wellFormedItem stored \<longrightarrow>
      bucket (loadStatusBuckets paths (writeBucketFile st (Parsed (RArr (map itemToRaw stored))) fs)) st =
        map (\<lambda>item. item\<lparr>status := st\<rparr>) stored)"
proof -
  have 1: "\<forall>item \<in> set (bucket (loadStatusBuckets paths fs) st). status item = st"
    by (auto simp: loadStatusBuckets_bucket split: option.splits)
  have 2: "bucketFile (saveStatusBuckets paths (loadStatusBuckets paths fs) fs') st =
      Some (Parsed (RArr (map itemToRaw (sortItems (bucket (loadStatusBuckets paths fs) st)))))"
    by (cases st) (simp_all add: saveStatusBuckets_eq)
  from 1 have 3: "\<forall>item \<in> set (sortItems (bucket (loadStatusBuckets paths fs) st)). status item = st"
    by simp
  have 4: "set (sortItems (bucket (loadStatusBuckets paths fs) st)) =
      set (bucket (loadStatusBuckets paths fs) st)"
    by simp
  from 2 3 4 have 5: "\<exists>xs. bucketFile (saveStatusBuckets paths (loadStatusBuckets paths fs) fs') st =
            Some (Parsed (RArr (map itemToRaw xs))) \<and>
         set xs = set (bucket (loadStatusBuckets paths fs) st) \<and>
         (\<forall>item \<in> set xs. status item = st)"
    by blast
  have 6: "bucketFile fs st = Some (Parsed (RArr rs)) \<longrightarrow>
      bucket (loadStatusBuckets paths fs) st =
        map (\<lambda>item. item\<lparr>status := st\<rparr>)
          (concat (map (\<lambda>r. case fst (buildItem r 0) of Some item \<Rightarrow> [item] | None \<Rightarrow> []) rs))"
    by (simp add: loadStatusBuckets_bucket readMemoryItems_def readEntries_items)
  have 7: "normalizeStatus (getProp obj ''status'') = None \<longrightarrow> fst (buildItem (RObj obj) i) = None"
    by (simp add: buildItem_invalidStatus)
  have 8: "fst (buildItem r i) = Some read \<longrightarrow>
      (\<exists>robj. asObject r = Some robj \<and>
         normalizeStatus (getProp robj ''status'') = Some (status read))"
    using buildItem_status by blast
  have 9: "list_all wellFormedItem stored \<longrightarrow>
      bucket (loadStatusBuckets paths (writeBucketFile st (Parsed (RArr (map itemToRaw stored))) fs)) st =
        map (\<lambda>item. item\<lparr>status := st\<rparr>) stored"
    by (simp add: loadStatusBuckets_bucket readMemoryItems_serialized bucketFile_writeBucketFile)
  from 1 2 5 6 7 8 9 loadStatusBuckets_bucket [of paths fs st] show ?thesis
    by (intro conjI)
qed

text \<open>
  The active bucket file holds A with the stored status \<^verbatim>\<open>pending\<close>: A is loaded as
  active, and the next save writes it as active. The same holds when the file stores A as
  \<^verbatim>\<open>deprecated\<close>.
\<close>

theorem loadStatusBuckets_status_witness:
  "bucket (loadStatusBuckets examplePaths mislabelledDisk) Active = [exampleA] \<and>
   status exampleA = Active \<and>
   bucketFile (saveStatusBuckets examplePaths (loadStatusBuckets examplePaths mislabelledDisk)
      mislabelledDisk) Active = Some (Parsed (RArr [itemToRaw exampleA])) \<and>
   bucket (loadStatusBuckets examplePaths
      (writeBucketFile Active (Parsed (RArr [itemToRaw (exampleA\<lparr>status := Deprecated\<rparr>)]))
         mislabelledDisk))
      Active = [exampleA]"
proof -
  have r: "fst (readMemoryItems p (Some (Parsed (RArr [itemToRaw (exampleA\<lparr>status := Pending\<rparr>)])))) 
      = [exampleA\<lparr>status := Pending\<rparr>]" for p
    using readMemoryItems_serialized [of "[exampleA\<lparr>status := Pending\<rparr>]" p]
    by (simp add: wellFormed_exampleA)
  have a: "exampleA\<lparr>status := Active\<rparr> = exampleA"
    by (simp add: exampleA_def)
  have s: "sortItems [exampleA] = [exampleA]"
    by (simp add: sortItems_def toSorted_def)
  note w = loadStatusBuckets_status
    [where paths = examplePaths and fs = mislabelledDisk and st = Active and fs' = mislabelledDisk
       and stored = "[exampleA\<lparr>status := Deprecated\<rparr>]"
       and rs = "[itemToRaw (exampleA\<lparr>status := Pending\<rparr>)]" and obj = "[]" and i = 0
       and r = "itemToRaw exampleA" and read = exampleA]
  from w have l: "bucket (loadStatusBuckets examplePaths mislabelledDisk) Active = [exampleA]"
    by (simp add: mislabelledDisk_def r a)
  from w have "list_all wellFormedItem [exampleA\<lparr>status := Deprecated\<rparr>] \<longrightarrow>
      bucket (loadStatusBuckets examplePaths
        (writeBucketFile Active (Parsed (RArr [itemToRaw (exampleA\<lparr>status := Deprecated\<rparr>)]))
         mislabelledDisk))
        Active = map (\<lambda>item. item\<lparr>status := Active\<rparr>) [exampleA\<lparr>status := Deprecated\<rparr>]"
    by (simp only: list.map) blast
  moreover have "list_all wellFormedItem [exampleA\<lparr>status := Deprecated\<rparr>]"
    by (simp add: wellFormed_exampleA)
  moreover have "exampleA\<lparr>status := Deprecated, status := Active\<rparr> = exampleA"
    by (simp add: exampleA_def)
  ultimately have d: "bucket (loadStatusBuckets examplePaths
        (writeBucketFile Active (Parsed (RArr [itemToRaw (exampleA\<lparr>status := Deprecated\<rparr>)]))
         mislabelledDisk))
        Active = [exampleA]"
    by simp
  from l have "active (loadStatusBuckets examplePaths mislabelledDisk) = [exampleA]"
    by simp
  moreover have "status exampleA = Active"
    by (simp add: exampleA_def)
  ultimately show ?thesis
    using l d by (simp add: saveStatusBuckets_eq s)
qed

lemma exampleArchived_status:
  "map_option (\<lambda>obj. getProp obj ''status'') (asObject exampleArchived) =
     Some (Some (RStr ''archived''))"
  by code_simp

lemma loadStatusBuckets_archivedDisk:
  "loadStatusBuckets examplePaths archivedDisk = \<lparr>active = [], pending = [], deprecated = []\<rparr>"
  by code_simp

lemma saveStatusBuckets_archivedDisk:
  "activeFile (saveStatusBuckets examplePaths (loadStatusBuckets examplePaths archivedDisk)
      archivedDisk) = Some (Parsed (RArr []))"
  by code_simp

text \<open>
  C9 as stated fails: the active bucket file holds the record of A with the stored
  status \<^verbatim>\<open>archived\<close>. The mismatching status is not ignored: the record is left out of
  the loaded buckets, and the next save writes an empty active file instead of rewriting
  the status.
\<close>

theorem loadStatusBuckets_invalidStatus_counterexample:
  "activeFile archivedDisk = Some (Parsed (RArr [exampleArchived])) \<and>
   map_option (\<lambda>obj. getProp obj ''status'') (asObject exampleArchived) =
     Some (Some (RStr ''archived'')) \<and>
   loadStatusBuckets examplePaths archivedDisk = \<lparr>active = [], pending = [], deprecated = []\<rparr> \<and>
   activeFile (saveStatusBuckets examplePaths (loadStatusBuckets examplePaths archivedDisk)
      archivedDisk) = Some (Parsed (RArr []))"
proof -
  have 1: "activeFile archivedDisk = Some (Parsed (RArr [exampleArchived]))"
    by (simp add: archivedDisk_def)
  from 1 exampleArchived_status loadStatusBuckets_archivedDisk saveStatusBuckets_archivedDisk
  show ?thesis by (intro conjI)
qed

subsection \<open>The lock around a task, and initialisation\<close>

text \<open>A task that raises no exception with code \<^verbatim>\<open>EEXIST\<close> runs at most once.\<close>

lemma withFileLock_acquired:
  assumes "opened ob = OpenOk"
    and "\<And>e s'. task s = (Inl e, s') \<Longrightarrow> errorCode e \<noteq> Some ''EEXIST''"
  shows "withFileLock params startedAt (ob # rest) task s =
     (case task s of
        (Inr v, s') \<Rightarrow> ([Released], Returned v, s')
      | (Inl e, s') \<Rightarrow> ([Released], Threw e, s'))"
  using assms
  by (auto simp: withFileLock_def tryAcquire_def split: prod.splits sum.splits)

lemma withFileLockLoop_Returned:
  assumes "\<And>s e s'. task s = (Inl e, s') \<Longrightarrow> errorCode e \<noteq> Some ''EEXIST''"
    and "withFileLockLoop params startedAt obs task s = (evs, Returned v, s')"
  shows "task s = (Inr v, s')"
  using assms(2)
proof (induction obs arbitrary: evs)
  case Nil
  then show ?case by simp
next
  case (Cons ob rest)
  show ?case
  proof (cases "tryAcquire ob task s")
    case (Finished evs0 out s0)
    with Cons.prems have "out = Returned v" "s0 = s'" by simp_all
    with Finished assms(1) [of s] show ?thesis
      by (auto simp: tryAcquire_def split: openResult.splits prod.splits sum.splits if_splits)
  next
    case (Collided evs0 s0)
    then have s0: "s0 = s"
      using assms(1) [of s]
      by (auto simp: tryAcquire_def split: openResult.splits prod.splits sum.splits if_splits)
    from Cons.prems Collided s0 obtain evs1 where
      "withFileLockLoop params startedAt rest task s = (evs1, Returned v, s')"
      by (auto split: collision.splits prod.splits)
    then show ?thesis by (rule Cons.IH)
  qed
qed

lemma withFileLockLoop_Threw:
  assumes "\<And>s e s'. task s = (Inl e, s') \<Longrightarrow> errorCode e \<noteq> Some ''EEXIST''"
    and "withFileLockLoop params startedAt obs task s = (evs, Threw e, s')"
  shows "task s = (Inl e, s') \<or> (s' = s \<and> (e = LockTimeout (lockPath params) \<or> (\<exists>c. e = FsError c)))"
  using assms(2)
proof (induction obs arbitrary: evs)
  case Nil
  then show ?case by simp
next
  case (Cons ob rest)
  show ?case
  proof (cases "tryAcquire ob task s")
    case (Finished evs0 out s0)
    with Cons.prems have "out = Threw e" "s0 = s'" by simp_all
    with Finished assms(1) [of s] show ?thesis
      by (auto simp: tryAcquire_def split: openResult.splits prod.splits sum.splits if_splits)
  next
    case (Collided evs0 s0)
    then have s0: "s0 = s"
      using assms(1) [of s]
      by (auto simp: tryAcquire_def split: openResult.splits prod.splits sum.splits if_splits)
    show ?thesis
    proof (cases "onCollision params startedAt ob")
      case TimedOut
      with Cons.prems Collided s0 show ?thesis by auto
    next
      case Reclaim
      with Cons.prems Collided s0 obtain evs1 where
        "withFileLockLoop params startedAt rest task s = (evs1, Threw e, s')"
        by (auto split: prod.splits)
      then show ?thesis by (rule Cons.IH)
    next
      case SleepRetry
      with Cons.prems Collided s0 obtain evs1 where
        "withFileLockLoop params startedAt rest task s = (evs1, Threw e, s')"
        by (auto split: prod.splits)
      then show ?thesis by (rule Cons.IH)
    qed
  qed
qed

lemma initializeTask_form:
  assumes "bucketsOk B" and "ensureStatusBuckets paths fs = saveStatusBuckets paths B fs"
  shows "initializeTask paths fs =
     (Inr (),
      (saveStatusBuckets paths B fs)
        \<lparr>memoryFile := Some (serializeItems (flattenBuckets (sortBuckets B))),
         runtimeProjection := Some (flattenBuckets (sortBuckets B))\<rparr>)"
proof -
  have l: "loadStatusBuckets paths (saveStatusBuckets paths B fs) = sortBuckets B"
    using assms(1) by (rule loadStatusBuckets_save)
  have s: "saveStatusBuckets paths B (saveStatusBuckets paths B fs) = saveStatusBuckets paths B fs"
    by (simp add: saveStatusBuckets_eq)
  show ?thesis
    by (simp add: initializeTask_def assms(2) l s rebuildUnifiedMemory_def
        renderRuntimeActiveMemory_def writeMemoryItems_def Let_def)
qed

lemma initializeTask_idempotent:
  "initializeTask paths (snd (initializeTask paths fs)) = initializeTask paths fs"
proof -
  obtain B where B: "bucketsOk B" "ensureStatusBuckets paths fs = saveStatusBuckets paths B fs"
    using ensureStatusBuckets_save by blast
  define fs4 where "fs4 = (saveStatusBuckets paths B fs)
        \<lparr>memoryFile := Some (serializeItems (flattenBuckets (sortBuckets B))),
         runtimeProjection := Some (flattenBuckets (sortBuckets B))\<rparr>"
  have 1: "initializeTask paths fs = (Inr (), fs4)"
    unfolding fs4_def using B by (rule initializeTask_form)
  have l: "loadStatusBuckets paths fs4 = sortBuckets B"
  proof -
    have "loadStatusBuckets paths fs4 = loadStatusBuckets paths (saveStatusBuckets paths B fs)"
      by (rule loadStatusBuckets_cong) (simp_all add: fs4_def)
    then show ?thesis using B(1) by (simp add: loadStatusBuckets_save)
  qed
  have any: "activeFile fs4 \<noteq> None"
    by (simp add: fs4_def saveStatusBuckets_eq)
  have e: "ensureStatusBuckets paths fs4 = saveStatusBuckets paths (sortBuckets B) fs4"
    using any by (simp add: ensureStatusBuckets_def l)
  have "initializeTask paths fs4 =
     (Inr (),
      (saveStatusBuckets paths (sortBuckets B) fs4)
        \<lparr>memoryFile := Some (serializeItems (flattenBuckets (sortBuckets (sortBuckets B)))),
         runtimeProjection := Some (flattenBuckets (sortBuckets (sortBuckets B)))\<rparr>)"
    using B(1) e by (intro initializeTask_form) simp_all
  also have "\<dots> = (Inr (), fs4)"
    by (simp add: fs4_def saveStatusBuckets_eq sortBuckets_def)
  finally show ?thesis by (simp add: 1)
qed

lemma initializeTask_noEEXIST:
  "initializeTask paths s = (Inl e, s') \<Longrightarrow> errorCode e \<noteq> Some ''EEXIST''"
  by (simp add: initializeTask_def Let_def)

lemma initializeStatusStore_Returned:
  assumes "initializeStatusStore paths startedAt obs fs = (evs, Returned r, fs')"
  shows "initializeTask paths fs = (Inr (), fs') \<and>
         r = \<lparr>initPaths = paths, initCounts = countsByStatus (loadStatusBuckets paths fs')\<rparr>"
proof -
  let ?p = "\<lparr>lockPath = statusLockPath paths, timeoutMs = None, retryMs = None, staleMs = None\<rparr>"
  obtain evs0 out0 fs0 where w: "withFileLock ?p startedAt obs (initializeTask paths) fs = (evs0, out0, fs0)"
    by (cases "withFileLock ?p startedAt obs (initializeTask paths) fs") auto
  with assms obtain u where out0: "out0 = Returned u" and fs0: "fs0 = fs'"
    and r: "r = \<lparr>initPaths = paths, initCounts = countsByStatus (loadStatusBuckets paths fs')\<rparr>"
    by (cases out0) (auto simp: initializeStatusStore_def Let_def)
  from w out0 fs0 have "withFileLockLoop ?p startedAt obs (initializeTask paths) fs = (evs0, Returned u, fs')"
    by (simp add: withFileLock_def)
  then have "initializeTask paths fs = (Inr u, fs')"
    by (rule withFileLockLoop_Returned [rotated]) (rule initializeTask_noEEXIST)
  with r show ?thesis by simp
qed

subsection \<open>Idempotence of initialisation\<close>

lemma initializeStatusStore_mislabelledDisk:
  "initializeStatusStore examplePaths 0 [freeAt 0] mislabelledDisk =
     ([Released],
      Returned \<lparr>initPaths = examplePaths,
                initCounts = \<lparr>activeCount = 1, pendingCount = 0, deprecatedCount = 0\<rparr>\<rparr>,
      initialisedDisk)"
  by code_simp

lemma initializeStatusStore_initialisedDisk:
  "initializeStatusStore examplePaths 5000 [freeAt 5000] initialisedDisk =
     ([Released],
      Returned \<lparr>initPaths = examplePaths,
                initCounts = \<lparr>activeCount = 1, pendingCount = 0, deprecatedCount = 0\<rparr>\<rparr>,
      initialisedDisk)"
  by code_simp

text \<open>
  C8. When \<^verbatim>\<open>init()\<close> returns and a second call on the store it left returns as
  well, the second call leaves the three bucket files (and the
  canonical file and the runtime projection) exactly as the first call left them, and
  returns the same counts.
\<close>

theorem initializeStatusStore_idempotent:
  assumes "initializeStatusStore paths t1 obs1 fs = (evs1, Returned r1, fs1)"
    and "initializeStatusStore paths t2 obs2 fs1 = (evs2, Returned r2, fs2)"
  shows "activeFile fs2 = activeFile fs1 \<and> pendingFile fs2 = pendingFile fs1 \<and>
         deprecatedFile fs2 = deprecatedFile fs1 \<and> initCounts r2 = initCounts r1 \<and> fs2 = fs1"
proof -
  from assms(1) have 1: "initializeTask paths fs = (Inr (), fs1)"
    and r1: "r1 = \<lparr>initPaths = paths, initCounts = countsByStatus (loadStatusBuckets paths fs1)\<rparr>"
    using initializeStatusStore_Returned by blast+
  from assms(2) have 2: "initializeTask paths fs1 = (Inr (), fs2)"
    and r2: "r2 = \<lparr>initPaths = paths, initCounts = countsByStatus (loadStatusBuckets paths fs2)\<rparr>"
    using initializeStatusStore_Returned by blast+
  from initializeTask_idempotent [of paths fs] 1 2 have "fs2 = fs1" by simp
  with r1 r2 show ?thesis by simp
qed

text \<open>
  Two calls on a store whose active bucket file holds A under a wrong stored status: the
  first call normalises the store, the second changes nothing.
\<close>

theorem initializeStatusStore_idempotent_witness:
  "initializeStatusStore examplePaths 0 [freeAt 0] mislabelledDisk =
     ([Released],
      Returned \<lparr>initPaths = examplePaths,
                initCounts = \<lparr>activeCount = 1, pendingCount = 0, deprecatedCount = 0\<rparr>\<rparr>,
      initialisedDisk) \<and>
   initializeStatusStore examplePaths 5000 [freeAt 5000] initialisedDisk =
     ([Released],
      Returned \<lparr>initPaths = examplePaths,
                initCounts = \<lparr>activeCount = 1, pendingCount = 0, deprecatedCount = 0\<rparr>\<rparr>,
      initialisedDisk) \<and>
   activeFile initialisedDisk = Some (Parsed (RArr [itemToRaw exampleA]))"
  using initializeStatusStore_idempotent [OF initializeStatusStore_mislabelledDisk
      initializeStatusStore_initialisedDisk]
    initializeStatusStore_mislabelledDisk initializeStatusStore_initialisedDisk
  by (simp add: initialisedDisk_def)

subsection \<open>Commit or rollback, and the status change task\<close>

lemma cloneItem_id [simp]: "cloneItem item = item"
  by (simp add: cloneItem_def)

lemma cloneBuckets_id [simp]: "cloneBuckets B = B"
proof -
  have "map cloneItem xs = xs" for xs
    by (induction xs) simp_all
  then show ?thesis by (simp add: cloneBuckets_def)
qed

lemma memoryFile_commit_stage:
  "memoryFile (rebuildUnifiedMemory paths cur (saveStatusBuckets paths cur fs)) =
     Some (serializeItems (flattenBuckets cur))"
  by (simp add: rebuildUnifiedMemory_def writeMemoryItems_def)

text \<open>The store after a rollback to \<open>prev\<close>, and after a commit of \<open>cur\<close>.\<close>

lemma commitBuckets_severe:
  assumes "auditExitCode (summaryIssues (auditMemory (memoryPath paths)
             (Some (serializeItems (flattenBuckets cur))) day)) = 2"
  shows "commitBuckets mk paths day cur prev fs =
     (Inl (mk (map message (summaryIssues (auditMemory (memoryPath paths)
             (Some (serializeItems (flattenBuckets cur))) day)))),
      (saveStatusBuckets paths prev fs)
        \<lparr>memoryFile := Some (serializeItems (flattenBuckets prev)),
         runtimeProjection := Some (flattenBuckets prev)\<rparr>)"
  using assms
  by (simp add: commitBuckets_def Let_def memoryFile_commit_stage)
    (simp add: saveStatusBuckets_eq rebuildUnifiedMemory_def renderRuntimeActiveMemory_def
      writeMemoryItems_def)

lemma commitBuckets_passed:
  assumes "auditExitCode (summaryIssues (auditMemory (memoryPath paths)
             (Some (serializeItems (flattenBuckets cur))) day)) \<noteq> 2"
  shows "commitBuckets mk paths day cur prev fs =
     (Inr (),
      (saveStatusBuckets paths cur fs)
        \<lparr>memoryFile := Some (serializeItems (flattenBuckets cur)),
         runtimeProjection := Some (flattenBuckets cur)\<rparr>)"
  using assms
  by (simp add: commitBuckets_def Let_def memoryFile_commit_stage)
    (simp add: saveStatusBuckets_eq rebuildUnifiedMemory_def renderRuntimeActiveMemory_def
      writeMemoryItems_def)

lemma commitBuckets_Inl:
  assumes "commitBuckets mk paths day cur prev fs = (Inl e, fs')"
  shows "auditExitCode (summaryIssues (auditMemory (memoryPath paths)
             (Some (serializeItems (flattenBuckets cur))) day)) = 2 \<and>
         e = mk (map message (summaryIssues (auditMemory (memoryPath paths)
             (Some (serializeItems (flattenBuckets cur))) day))) \<and>
         fs' = (saveStatusBuckets paths prev fs)
                 \<lparr>memoryFile := Some (serializeItems (flattenBuckets prev)),
                  runtimeProjection := Some (flattenBuckets prev)\<rparr>"
proof (cases "auditExitCode (summaryIssues (auditMemory (memoryPath paths)
             (Some (serializeItems (flattenBuckets cur))) day)) = 2")
  case True
  from commitBuckets_severe [OF True, of mk prev fs] assms True show ?thesis by simp
next
  case False
  from commitBuckets_passed [OF False, of mk prev fs] assms show ?thesis by simp
qed

text \<open>The task of \<open>applyStatusChange\<close>, on the buckets that \<open>ensureStatusBuckets\<close> saved.\<close>

lemma applyStatusChangeTask_form:
  assumes "bucketsOk B" and "ensureStatusBuckets (scPaths params) fs = saveStatusBuckets (scPaths params) B fs"
  shows "applyStatusChangeTask params utcToday fs =
     (let day = (case scToday params of Some d \<Rightarrow> d | None \<Rightarrow> utcToday);
          fs1 = saveStatusBuckets (scPaths params) B fs;
          current = sortBuckets B
      in case findItemStatus current (scId params) of
           None \<Rightarrow> (Inl (ItemNotFound (scId params)), fs1)
         | Some loc \<Rightarrow>
             (let current' =
                    (if locStatus loc \<noteq> scTo params
                     then pushItem (spliceOut current (locStatus loc) (locIndex loc)) (scTo params)
                            ((locItem loc)\<lparr>status := scTo params, updated := Some day\<rparr>)
                     else current)
              in case commitBuckets AuditFailedAfterStatusChange (scPaths params) day current'
                        current fs1 of
                   (Inl e, fs2) \<Rightarrow> (Inl e, fs2)
                 | (Inr u, fs2) \<Rightarrow>
                     (case findItemStatus current' (scId params) of
                        None \<Rightarrow> (Inl (ItemMissingAfterUpdate (scId params)), fs2)
                      | Some upd \<Rightarrow>
                          (Inr \<lparr>resFrom = locStatus loc, resTo = scTo params,
                                resItem = locItem upd, resCounts = countsByStatus current'\<rparr>,
                           fs2))))"
  by (simp add: applyStatusChangeTask_def assms(2) loadStatusBuckets_save [OF assms(1)])

lemma sameBucketFiles_restored:
  "sameBucketFiles
     ((saveStatusBuckets paths (sortBuckets B) fs1)
        \<lparr>memoryFile := m, runtimeProjection := r\<rparr>)
     (saveStatusBuckets paths B fs)"
  by (simp add: sameBucketFiles_def saveStatusBuckets_eq sortBuckets_def)

lemma applyStatusChangeTask_auditFailed:
  assumes "applyStatusChangeTask params utcToday fs = (Inl (AuditFailedAfterStatusChange msgs), fs')"
  shows "sameBucketFiles fs' (ensureStatusBuckets (scPaths params) fs) \<and>
         loadStatusBuckets (scPaths params) fs' =
           loadStatusBuckets (scPaths params) (ensureStatusBuckets (scPaths params) fs) \<and>
         memoryFile fs' = Some (serializeItems (flattenBuckets
           (loadStatusBuckets (scPaths params) (ensureStatusBuckets (scPaths params) fs)))) \<and>
         runtimeProjection fs' = Some (flattenBuckets
           (loadStatusBuckets (scPaths params) (ensureStatusBuckets (scPaths params) fs)))"
proof -
  obtain B where B: "bucketsOk B"
      "ensureStatusBuckets (scPaths params) fs = saveStatusBuckets (scPaths params) B fs"
    using ensureStatusBuckets_save by blast
  define day where "day = (case scToday params of Some d \<Rightarrow> d | None \<Rightarrow> utcToday)"
  define fs1 where "fs1 = saveStatusBuckets (scPaths params) B fs"
  have l: "loadStatusBuckets (scPaths params) fs1 = sortBuckets B"
    unfolding fs1_def using B(1) by (rule loadStatusBuckets_save)
  from assms obtain cur' where
    c: "commitBuckets AuditFailedAfterStatusChange (scPaths params) day cur' (sortBuckets B) fs1 =
          (Inl (AuditFailedAfterStatusChange msgs), fs')"
    unfolding applyStatusChangeTask_form [OF B] Let_def day_def [symmetric] fs1_def [symmetric]
    by (auto split: option.splits prod.splits sum.splits)
  from commitBuckets_Inl [OF c] have fs': "fs' = (saveStatusBuckets (scPaths params) (sortBuckets B) fs1)
        \<lparr>memoryFile := Some (serializeItems (flattenBuckets (sortBuckets B))),
         runtimeProjection := Some (flattenBuckets (sortBuckets B))\<rparr>"
    by simp
  have same: "sameBucketFiles fs' fs1"
    unfolding fs' fs1_def by (rule sameBucketFiles_restored)
  then have "loadStatusBuckets (scPaths params) fs' = loadStatusBuckets (scPaths params) fs1"
    by (intro loadStatusBuckets_cong) (simp_all add: sameBucketFiles_def)
  with same l show ?thesis
    by (simp add: B(2) fs1_def [symmetric] fs')
qed

lemma applyStatusChangeTask_errorCode:
  assumes "applyStatusChangeTask params utcToday s = (Inl e, s')"
  shows "errorCode e \<noteq> Some ''EEXIST''"
proof -
  have "e = ItemNotFound (scId params) \<or> e = ItemMissingAfterUpdate (scId params) \<or>
        (\<exists>msgs. e = AuditFailedAfterStatusChange msgs)"
    using assms
    by (auto simp: applyStatusChangeTask_def Let_def
        split: option.splits prod.splits sum.splits dest: commitBuckets_Inl)
  then show ?thesis by (auto simp: errorCode_def)
qed

subsection \<open>Locating and removing an item\<close>

lemma findIndex_less: "findIndex P xs = Some n \<Longrightarrow> n < length xs"
  by (induction xs arbitrary: n) (auto split: if_splits)

lemma findIndex_find: "map_option (\<lambda>n. xs ! n) (findIndex P xs) = List.find P xs"
  by (induction xs) (auto simp: option.map_comp comp_def)

lemma findIndex_None_iff: "findIndex P xs = None \<longleftrightarrow> List.find P xs = None"
  by (induction xs) auto

lemma findIndex_Some_nth: "findIndex P xs = Some n \<Longrightarrow> List.find P xs = Some (xs ! n)"
  using findIndex_find [of xs P] by simp

lemma find_remove_nth:
  "k < length xs \<Longrightarrow> \<not> P (xs ! k) \<Longrightarrow> List.find P (take k xs @ drop (Suc k) xs) = List.find P xs"
proof (induction xs arbitrary: k)
  case Nil
  then show ?case by simp
next
  case (Cons x xs)
  then show ?case by (cases k) auto
qed

lemma findItemStatusIn_first:
  "map_option (\<lambda>loc. (locStatus loc, locItem loc)) (findItemStatusIn sts B i) = firstWithId sts B i"
proof (induction sts)
  case Nil
  show ?case by simp
next
  case (Cons st sts)
  show ?case
  proof (cases "findIndex (\<lambda>item. item_id item = i) (bucket B st)")
    case None
    moreover from None have "List.find (\<lambda>item. item_id item = i) (bucket B st) = None"
      by (simp add: findIndex_None_iff)
    ultimately show ?thesis using Cons by simp
  next
    case (Some n)
    then show ?thesis
      using findIndex_less [OF Some] findIndex_Some_nth [OF Some] by simp
  qed
qed

lemma findItemStatusIn_sound:
  "findItemStatusIn sts B i = Some loc \<Longrightarrow>
     locIndex loc < length (bucket B (locStatus loc)) \<and>
     locItem loc = bucket B (locStatus loc) ! locIndex loc \<and> item_id (locItem loc) = i"
proof (induction sts)
  case Nil
  then show ?case by simp
next
  case (Cons st sts)
  show ?case
  proof (cases "findIndex (\<lambda>item. item_id item = i) (bucket B st)")
    case None
    with Cons.prems have "findItemStatusIn sts B i = Some loc" by simp
    then show ?thesis by (rule Cons.IH)
  next
    case (Some n)
    from findIndex_Some_nth [OF Some] have "item_id (bucket B st ! n) = i"
      by (auto dest: find_Some_iff [THEN iffD1])
    with Cons.prems Some findIndex_less [OF Some] show ?thesis by auto
  qed
qed

lemma bucket_spliceOut:
  "bucket (spliceOut B st k) s =
     (if s = st then take k (bucket B st) @ drop (Suc k) (bucket B st) else bucket B s)"
  by (cases st; cases s) (simp_all add: spliceOut_def)

lemma firstWithId_spliceOut:
  assumes "k < length (bucket B st)" and "item_id (bucket B st ! k) \<noteq> i"
  shows "firstWithId sts (spliceOut B st k) i = firstWithId sts B i"
  using assms
  by (induction sts) (auto simp: bucket_spliceOut find_remove_nth split: option.splits)

lemma findItemStatus_spliceOut:
  assumes "findItemStatus B i = Some loc" and "k < length (bucket B st)"
    and "item_id (bucket B st ! k) \<noteq> i"
  shows "\<exists>loc'. findItemStatus (spliceOut B st k) i = Some loc' \<and> locItem loc' = locItem loc \<and>
           locStatus loc' = locStatus loc"
proof -
  have "map_option (\<lambda>loc. (locStatus loc, locItem loc)) (findItemStatus (spliceOut B st k) i) =
        map_option (\<lambda>loc. (locStatus loc, locItem loc)) (findItemStatus B i)"
    unfolding findItemStatus_def findItemStatusIn_first
    using assms(2,3) by (rule firstWithId_spliceOut)
  with assms(1) show ?thesis by auto
qed

lemma removeItemById_found:
  assumes "findItemStatus B i = Some loc"
  shows "removeItemById B i = Inr (locItem loc, spliceOut B (locStatus loc) (locIndex loc))"
proof -
  from assms have s: "locIndex loc < length (bucket B (locStatus loc))"
    "locItem loc = bucket B (locStatus loc) ! locIndex loc"
    using findItemStatusIn_sound unfolding findItemStatus_def by blast+
  then have "drop (locIndex loc) (bucket B (locStatus loc)) =
      locItem loc # drop (Suc (locIndex loc)) (bucket B (locStatus loc))"
    by (simp add: Cons_nth_drop_Suc)
  with assms show ?thesis by (simp add: removeItemById_def)
qed

subsection \<open>The conflict merge task\<close>

lemma applyConflictMergeTask_notFound:
  assumes "findItemStatus (loadStatusBuckets (cmPaths params) (ensureStatusBuckets (cmPaths params) fs))
             (cmLeftId params) = None \<or>
           findItemStatus (loadStatusBuckets (cmPaths params) (ensureStatusBuckets (cmPaths params) fs))
             (cmRightId params) = None"
  shows "applyConflictMergeTask params utcToday fs =
     (Inl (ConflictItemsNotFound (cmLeftId params) (cmRightId params)),
      ensureStatusBuckets (cmPaths params) fs)"
  using assms
  unfolding applyConflictMergeTask_def Let_def
  by (auto split: option.splits)

lemma applyConflictMergeTask_rejected:
  assumes "findItemStatus (loadStatusBuckets (cmPaths params) (ensureStatusBuckets (cmPaths params) fs))
             (cmLeftId params) = Some leftLocated"
    and "findItemStatus (loadStatusBuckets (cmPaths params) (ensureStatusBuckets (cmPaths params) fs))
             (cmRightId params) = Some rightLocated"
  shows "cmLeftId params = cmRightId params \<Longrightarrow>
           applyConflictMergeTask params utcToday fs =
             (Inl DistinctIdsRequired, ensureStatusBuckets (cmPaths params) fs)"
    and "cmLeftId params \<noteq> cmRightId params \<Longrightarrow>
         \<not> isUnresolvedConflictPair (locItem leftLocated) (locItem rightLocated) \<Longrightarrow>
           applyConflictMergeTask params utcToday fs =
             (Inl (NotUnresolvedConflictPair (cmLeftId params) (cmRightId params)),
              ensureStatusBuckets (cmPaths params) fs)"
    and "cmLeftId params \<noteq> cmRightId params \<Longrightarrow>
         isUnresolvedConflictPair (locItem leftLocated) (locItem rightLocated) \<Longrightarrow>
         cmKeepId params = Some k \<Longrightarrow> k \<noteq> cmLeftId params \<Longrightarrow> k \<noteq> cmRightId params \<Longrightarrow>
           applyConflictMergeTask params utcToday fs =
             (Inl (InvalidKeepId k), ensureStatusBuckets (cmPaths params) fs)"
  using assms
  unfolding applyConflictMergeTask_def Let_def
  by simp_all

text \<open>The merge proper: both items are found, removed, rewritten and pushed.\<close>

lemma applyConflictMergeTask_staged:
  fixes params utcToday fs
  defines "paths \<equiv> cmPaths params"
  defines "fs1 \<equiv> ensureStatusBuckets paths fs"
  defines "cur \<equiv> loadStatusBuckets paths fs1"
  defines "day \<equiv> (case cmToday params of Some d \<Rightarrow> d | None \<Rightarrow> utcToday)"
  defines "keepId \<equiv> (case cmKeepId params of Some k \<Rightarrow> k | None \<Rightarrow> cmLeftId params)"
  defines "pid \<equiv> conflictPairId (cmLeftId params) (cmRightId params)"
  assumes left: "findItemStatus cur (cmLeftId params) = Some leftLocated"
    and right: "findItemStatus cur (cmRightId params) = Some rightLocated"
    and distinct: "cmLeftId params \<noteq> cmRightId params"
    and pair: "isUnresolvedConflictPair (locItem leftLocated) (locItem rightLocated)"
    and keep: "keepId = cmLeftId params \<or> keepId = cmRightId params"
  defines "keepLoc \<equiv> (if keepId = cmLeftId params then leftLocated else rightLocated)"
  defines "otherLoc \<equiv> (if keepId = cmLeftId params then rightLocated else leftLocated)"
  defines "merged \<equiv> (locItem keepLoc)
      \<lparr>status := Active, item_value := cmMergedValue params, updated := Some day,
       next' := Some (''Merged conflict '' @ pid @ ''; resolved by keeping '' @
                     item_id (locItem keepLoc) @ ''.'')\<rparr>"
  defines "deprecatedOther \<equiv> (locItem otherLoc)
      \<lparr>status := Deprecated, updated := Some day,
       next' := Some (''Deprecated after conflict merge '' @ pid @ '' into '' @
                     item_id (locItem keepLoc) @ ''.'')\<rparr>"
  shows "\<exists>cur2.
     applyConflictMergeTask params utcToday fs =
       (case commitBuckets AuditFailedAfterConflictMerge paths day
               (pushItem (pushItem cur2 Active merged) Deprecated deprecatedOther) cur fs1 of
          (Inl e, fs2) \<Rightarrow> (Inl e, fs2)
        | (Inr u, fs2) \<Rightarrow>
            (Inr \<lparr>mergedId = item_id (locItem keepLoc),
                  deprecatedId = item_id (locItem otherLoc),
                  mergeCounts =
                    countsByStatus (pushItem (pushItem cur2 Active merged) Deprecated deprecatedOther),
                  pairId = pid\<rparr>,
             fs2))"
proof -
  have ids: "item_id (locItem leftLocated) = cmLeftId params"
    "item_id (locItem rightLocated) = cmRightId params"
    using left right findItemStatusIn_sound unfolding findItemStatus_def by blast+
  have kf: "findItemStatus cur (item_id (locItem keepLoc)) = Some keepLoc"
    using left right ids by (simp add: keepLoc_def)
  have "findItemStatus cur (item_id (locItem otherLoc)) = Some otherLoc"
    using left right ids by (simp add: otherLoc_def)
  moreover have "locIndex keepLoc < length (bucket cur (locStatus keepLoc))"
    "locItem keepLoc = bucket cur (locStatus keepLoc) ! locIndex keepLoc"
    using kf findItemStatusIn_sound unfolding findItemStatus_def by blast+
  moreover have "item_id (locItem keepLoc) \<noteq> item_id (locItem otherLoc)"
    using ids distinct by (simp add: keepLoc_def otherLoc_def)
  ultimately obtain loc' where loc':
    "findItemStatus (spliceOut cur (locStatus keepLoc) (locIndex keepLoc))
        (item_id (locItem otherLoc)) = Some loc'"
    "locItem loc' = locItem otherLoc"
    using findItemStatus_spliceOut
      [of cur "item_id (locItem otherLoc)" otherLoc "locIndex keepLoc" "locStatus keepLoc"]
    by auto
  define cur1 where "cur1 = spliceOut cur (locStatus keepLoc) (locIndex keepLoc)"
  define cur2 where "cur2 = spliceOut cur1 (locStatus loc') (locIndex loc')"
  have r1: "removeItemById cur (item_id (locItem keepLoc)) = Inr (locItem keepLoc, cur1)"
    unfolding cur1_def using kf by (rule removeItemById_found)
  have r2: "removeItemById cur1 (item_id (locItem otherLoc)) = Inr (locItem otherLoc, cur2)"
    using removeItemById_found [OF loc'(1)] by (simp add: cur1_def cur2_def loc'(2))
  have "applyConflictMergeTask params utcToday fs =
       (case commitBuckets AuditFailedAfterConflictMerge paths day
               (pushItem (pushItem cur2 Active merged) Deprecated deprecatedOther) cur fs1 of
          (Inl e, fs2) \<Rightarrow> (Inl e, fs2)
        | (Inr u, fs2) \<Rightarrow>
            (Inr \<lparr>mergedId = item_id (locItem keepLoc),
                  deprecatedId = item_id (locItem otherLoc),
                  mergeCounts =
                    countsByStatus (pushItem (pushItem cur2 Active merged) Deprecated deprecatedOther),
                  pairId = pid\<rparr>,
             fs2))"
  proof (cases "keepId = cmLeftId params")
    case True
    then have kl: "keepLoc = leftLocated" "otherLoc = rightLocated"
      by (simp_all add: keepLoc_def otherLoc_def)
    show ?thesis
      unfolding applyConflictMergeTask_def Let_def cloneBuckets_id
        paths_def [symmetric] fs1_def [symmetric] cur_def [symmetric] day_def [symmetric]
        keepId_def [symmetric] pid_def [symmetric]
      using left right distinct pair True r1 [unfolded kl] r2 [unfolded kl]
      by (simp add: kl merged_def deprecatedOther_def split: prod.splits sum.splits)
  next
    case False
    with keep have kr: "keepId = cmRightId params" by blast
    from False have kl: "keepLoc = rightLocated" "otherLoc = leftLocated"
      by (simp_all add: keepLoc_def otherLoc_def)
    show ?thesis
      unfolding applyConflictMergeTask_def Let_def cloneBuckets_id
        paths_def [symmetric] fs1_def [symmetric] cur_def [symmetric] day_def [symmetric]
        keepId_def [symmetric] pid_def [symmetric]
      using left right distinct pair False kr r1 [unfolded kl] r2 [unfolded kl]
      by (simp add: kl merged_def deprecatedOther_def split: prod.splits sum.splits)
  qed
  then show ?thesis by blast
qed

subsection \<open>Audit failure in the two operations\<close>

lemma applyConflictMergeTask_staged_commit:
  assumes "findItemStatus (loadStatusBuckets (cmPaths params) (ensureStatusBuckets (cmPaths params) fs))
             (cmLeftId params) = Some leftLocated"
    and "findItemStatus (loadStatusBuckets (cmPaths params) (ensureStatusBuckets (cmPaths params) fs))
             (cmRightId params) = Some rightLocated"
    and "cmLeftId params \<noteq> cmRightId params"
    and "isUnresolvedConflictPair (locItem leftLocated) (locItem rightLocated)"
    and "(case cmKeepId params of Some k \<Rightarrow> k | None \<Rightarrow> cmLeftId params) = cmLeftId params \<or>
         (case cmKeepId params of Some k \<Rightarrow> k | None \<Rightarrow> cmLeftId params) = cmRightId params"
  shows "\<exists>cur3 day r.
     applyConflictMergeTask params utcToday fs =
       (case commitBuckets AuditFailedAfterConflictMerge (cmPaths params) day cur3
               (loadStatusBuckets (cmPaths params) (ensureStatusBuckets (cmPaths params) fs))
               (ensureStatusBuckets (cmPaths params) fs) of
          (Inl e, fs2) \<Rightarrow> (Inl e, fs2)
        | (Inr u, fs2) \<Rightarrow> (Inr r, fs2))"
  using applyConflictMergeTask_staged [OF assms, of utcToday]
  by (elim exE) (intro exI, assumption)

lemma applyConflictMergeTask_auditFailed:
  assumes "applyConflictMergeTask params utcToday fs = (Inl (AuditFailedAfterConflictMerge msgs), fs')"
  shows "sameBucketFiles fs' (ensureStatusBuckets (cmPaths params) fs) \<and>
         loadStatusBuckets (cmPaths params) fs' =
           loadStatusBuckets (cmPaths params) (ensureStatusBuckets (cmPaths params) fs) \<and>
         memoryFile fs' = Some (serializeItems (flattenBuckets
           (loadStatusBuckets (cmPaths params) (ensureStatusBuckets (cmPaths params) fs)))) \<and>
         runtimeProjection fs' = Some (flattenBuckets
           (loadStatusBuckets (cmPaths params) (ensureStatusBuckets (cmPaths params) fs)))"
proof -
  let ?paths = "cmPaths params"
  let ?fs1 = "ensureStatusBuckets ?paths fs"
  let ?cur = "loadStatusBuckets ?paths ?fs1"
  obtain B where B: "bucketsOk B" "?fs1 = saveStatusBuckets ?paths B fs"
    using ensureStatusBuckets_save by blast
  have l: "?cur = sortBuckets B"
    by (simp add: B(2) loadStatusBuckets_save [OF B(1)])
  have "\<exists>cur' day. commitBuckets AuditFailedAfterConflictMerge ?paths day cur' ?cur ?fs1 =
          (Inl (AuditFailedAfterConflictMerge msgs), fs')"
  proof (cases "findItemStatus ?cur (cmLeftId params)")
    case None
    with applyConflictMergeTask_notFound [of params fs utcToday] assms show ?thesis by simp
  next
    case left: (Some leftLocated)
    show ?thesis
    proof (cases "findItemStatus ?cur (cmRightId params)")
      case None
      with applyConflictMergeTask_notFound [of params fs utcToday] assms show ?thesis by simp
    next
      case right: (Some rightLocated)
      note rej = applyConflictMergeTask_rejected [OF left right, where utcToday = utcToday]
      show ?thesis
      proof (cases "cmLeftId params = cmRightId params")
        case True
        with rej(1) assms show ?thesis by simp
      next
        case distinct: False
        show ?thesis
        proof (cases "isUnresolvedConflictPair (locItem leftLocated) (locItem rightLocated)")
          case False
          with rej(2) distinct assms show ?thesis by simp
        next
          case pair: True
          define keepId where
            "keepId = (case cmKeepId params of Some k \<Rightarrow> k | None \<Rightarrow> cmLeftId params)"
          show ?thesis
          proof (cases "keepId = cmLeftId params \<or> keepId = cmRightId params")
            case False
            then obtain k where "cmKeepId params = Some k" "k \<noteq> cmLeftId params"
                "k \<noteq> cmRightId params"
              by (cases "cmKeepId params") (simp_all add: keepId_def)
            with rej(3) distinct pair assms show ?thesis by simp
          next
            case True
            from applyConflictMergeTask_staged_commit
              [OF left right distinct pair True [unfolded keepId_def], of utcToday]
            obtain cur3 day r where t: "applyConflictMergeTask params utcToday fs =
                (case commitBuckets AuditFailedAfterConflictMerge ?paths day cur3 ?cur ?fs1 of
                   (Inl e, fs2) \<Rightarrow> (Inl e, fs2)
                 | (Inr u, fs2) \<Rightarrow> (Inr r, fs2))"
              by blast
            obtain res fs2 where c: "commitBuckets AuditFailedAfterConflictMerge ?paths day cur3
                ?cur ?fs1 = (res, fs2)"
              by (cases "commitBuckets AuditFailedAfterConflictMerge ?paths day cur3 ?cur ?fs1")
            with t assms have "res = Inl (AuditFailedAfterConflictMerge msgs)" "fs2 = fs'"
              by (cases res; simp)+
            with c show ?thesis by blast
          qed
        qed
      qed
    qed
  qed
  then obtain cur' day where
    c: "commitBuckets AuditFailedAfterConflictMerge ?paths day cur' ?cur ?fs1 =
          (Inl (AuditFailedAfterConflictMerge msgs), fs')"
    by blast
  from commitBuckets_Inl [OF c] have fs': "fs' = (saveStatusBuckets ?paths (sortBuckets B) ?fs1)
        \<lparr>memoryFile := Some (serializeItems (flattenBuckets (sortBuckets B))),
         runtimeProjection := Some (flattenBuckets (sortBuckets B))\<rparr>"
    by (simp add: l)
  have same: "sameBucketFiles fs' ?fs1"
    unfolding fs' by (subst (2) B(2)) (rule sameBucketFiles_restored)
  then have "loadStatusBuckets ?paths fs' = ?cur"
    by (intro loadStatusBuckets_cong) (simp_all add: sameBucketFiles_def)
  with same l show ?thesis
    by (simp add: fs')
qed

lemma applyConflictMergeTask_errorCode:
  assumes "applyConflictMergeTask params utcToday s = (Inl e, s')"
  shows "errorCode e \<noteq> Some ''EEXIST''"
proof -
  let ?paths = "cmPaths params"
  let ?cur = "loadStatusBuckets ?paths (ensureStatusBuckets ?paths s)"
  have "\<forall>c. e \<noteq> FsError c"
  proof (cases "findItemStatus ?cur (cmLeftId params)")
    case None
    with applyConflictMergeTask_notFound [of params s utcToday] assms show ?thesis by auto
  next
    case left: (Some leftLocated)
    show ?thesis
    proof (cases "findItemStatus ?cur (cmRightId params)")
      case None
      with applyConflictMergeTask_notFound [of params s utcToday] assms show ?thesis by auto
    next
      case right: (Some rightLocated)
      note rej = applyConflictMergeTask_rejected [OF left right, where utcToday = utcToday]
      show ?thesis
      proof (cases "cmLeftId params = cmRightId params")
        case True
        with rej(1) assms show ?thesis by auto
      next
        case distinct: False
        show ?thesis
        proof (cases "isUnresolvedConflictPair (locItem leftLocated) (locItem rightLocated)")
          case False
          with rej(2) distinct assms show ?thesis by auto
        next
          case pair: True
          define keepId where
            "keepId = (case cmKeepId params of Some k \<Rightarrow> k | None \<Rightarrow> cmLeftId params)"
          show ?thesis
          proof (cases "keepId = cmLeftId params \<or> keepId = cmRightId params")
            case False
            then obtain k where "cmKeepId params = Some k" "k \<noteq> cmLeftId params"
                "k \<noteq> cmRightId params"
              by (cases "cmKeepId params") (simp_all add: keepId_def)
            with rej(3) distinct pair assms show ?thesis by auto
          next
            case True
            from applyConflictMergeTask_staged_commit
              [OF left right distinct pair True [unfolded keepId_def], of utcToday]
            obtain cur3 day r where t: "applyConflictMergeTask params utcToday s =
                (case commitBuckets AuditFailedAfterConflictMerge ?paths day cur3 ?cur
                        (ensureStatusBuckets ?paths s) of
                   (Inl e, fs2) \<Rightarrow> (Inl e, fs2)
                 | (Inr u, fs2) \<Rightarrow> (Inr r, fs2))"
              by blast
            obtain res fs2 where c: "commitBuckets AuditFailedAfterConflictMerge ?paths day cur3
                ?cur (ensureStatusBuckets ?paths s) = (res, fs2)"
              by (cases "commitBuckets AuditFailedAfterConflictMerge ?paths day cur3 ?cur
                    (ensureStatusBuckets ?paths s)")
            with t assms have "res = Inl e" "fs2 = s'"
              by (cases res; simp)+
            with c commitBuckets_Inl show ?thesis by blast
          qed
        qed
      qed
    qed
  qed
  then show ?thesis by (cases e) (simp_all add: errorCode_def)
qed

text \<open>An exception that leaves \<open>withFileLock\<close> and is not the lock's own left the task.\<close>

lemma applyStatusChange_Threw:
  assumes "applyStatusChange params utcToday startedAt obs fs =
             (evs, Threw (AuditFailedAfterStatusChange msgs), fs')"
  shows "applyStatusChangeTask params utcToday fs = (Inl (AuditFailedAfterStatusChange msgs), fs')"
  using withFileLockLoop_Threw [OF applyStatusChangeTask_errorCode
      assms [unfolded applyStatusChange_def withFileLock_def]]
  by auto

lemma applyConflictMerge_Threw:
  assumes "applyConflictMerge params utcToday startedAt obs fs =
             (evs, Threw (AuditFailedAfterConflictMerge msgs), fs')"
  shows "applyConflictMergeTask params utcToday fs = (Inl (AuditFailedAfterConflictMerge msgs), fs')"
  using withFileLockLoop_Threw [OF applyConflictMergeTask_errorCode
      assms [unfolded applyConflictMerge_def withFileLock_def]]
  by auto

subsection \<open>The call under the lock\<close>

text \<open>
  The event \<open>Released\<close> marks the pass that created the lock file and ran the task: a
  call whose trace has it ends as the task ends, whatever the waiting before.
\<close>

lemma tryAcquire_cases:
  assumes "\<And>e s'. task s = (Inl e, s') \<Longrightarrow> errorCode e \<noteq> Some ''EEXIST''"
  shows "tryAcquire ob task s =
     (case opened ob of
        OpenOk \<Rightarrow>
          (case task s of
             (Inr v, s') \<Rightarrow> Finished [Released] (Returned v) s'
           | (Inl e, s') \<Rightarrow> Finished [Released] (Threw e) s')
      | OpenErr c \<Rightarrow>
          if c \<noteq> Some ''EEXIST'' then Finished [] (Threw (FsError c)) s else Collided [] s)"
  using assms
  by (auto simp: tryAcquire_def split: openResult.splits prod.splits sum.splits)

lemma withFileLockLoop_Released:
  assumes noE: "\<And>s e s'. task s = (Inl e, s') \<Longrightarrow> errorCode e \<noteq> Some ''EEXIST''"
    and run: "withFileLockLoop params startedAt obs task s = (evs, out, s')"
    and rel: "Released \<in> set evs"
  shows "(out, s') = (case task s of (Inr v, s1) \<Rightarrow> (Returned v, s1) | (Inl e, s1) \<Rightarrow> (Threw e, s1))"
  using run rel
proof (induction obs arbitrary: evs)
  case Nil
  then show ?case by simp
next
  case (Cons ob rest)
  note t = tryAcquire_cases [of task s ob, OF noE]
  show ?case
  proof (cases "opened ob")
    case OpenOk
    with Cons.prems(1) t show ?thesis
      by (auto split: prod.splits sum.splits)
  next
    case (OpenErr c)
    show ?thesis
    proof (cases "c = Some ''EEXIST''")
      case False
      with OpenErr Cons.prems t show ?thesis by auto
    next
      case True
      with OpenErr t have c: "tryAcquire ob task s = Collided [] s" by simp
      show ?thesis
      proof (cases "onCollision params startedAt ob")
        case TimedOut
        with Cons.prems c show ?thesis by auto
      next
        case Reclaim
        with Cons.prems c obtain evs1 where
          "withFileLockLoop params startedAt rest task s = (evs1, out, s')" "Released \<in> set evs1"
          by (auto split: prod.splits)
        then show ?thesis by (rule Cons.IH)
      next
        case SleepRetry
        with Cons.prems c obtain evs1 where
          "withFileLockLoop params startedAt rest task s = (evs1, out, s')" "Released \<in> set evs1"
          by (auto split: prod.splits)
        then show ?thesis by (rule Cons.IH)
      qed
    qed
  qed
qed

lemma applyStatusChange_Released:
  assumes "applyStatusChange params utcToday startedAt obs fs = (evs, out, fs')"
    and "Released \<in> set evs"
  shows "(out, fs') =
     (case applyStatusChangeTask params utcToday fs of
        (Inr v, s1) \<Rightarrow> (Returned v, s1) | (Inl e, s1) \<Rightarrow> (Threw e, s1))"
  using assms(1) [unfolded applyStatusChange_def withFileLock_def] assms(2)
  by (rule withFileLockLoop_Released [rotated]) (rule applyStatusChangeTask_errorCode)

lemma applyConflictMerge_Released:
  assumes "applyConflictMerge params utcToday startedAt obs fs = (evs, out, fs')"
    and "Released \<in> set evs"
  shows "(out, fs') =
     (case applyConflictMergeTask params utcToday fs of
        (Inr v, s1) \<Rightarrow> (Returned v, s1) | (Inl e, s1) \<Rightarrow> (Threw e, s1))"
  using assms(1) [unfolded applyConflictMerge_def withFileLock_def] assms(2)
  by (rule withFileLockLoop_Released [rotated]) (rule applyConflictMergeTask_errorCode)

text \<open>
  The trace \<open>waitingOnce\<close> under the store's lock: one sleep of 200 ms, then the call
  as it runs when the lock file is created at the first pass.
\<close>

lemma withFileLock_waitingOnce:
  "withFileLock \<lparr>lockPath = p, timeoutMs = None, retryMs = None, staleMs = None\<rparr>
     1000000 waitingOnce task s =
   (case withFileLock \<lparr>lockPath = p, timeoutMs = None, retryMs = None, staleMs = None\<rparr>
           0 [freeAt 0] task s of
      (evs, out, s') \<Rightarrow> (Slept 200 # evs, out, s'))"
  by (simp add: withFileLock_def waitingOnce_def collisionAt_def freeAt_def tryAcquire_def
      onCollision_def readLockAgeMs_def lockStaleMs_def lockTimeoutMs_def lockRetryMs_def
      DEFAULT_LOCK_STALE_MS_def DEFAULT_LOCK_TIMEOUT_MS_def DEFAULT_LOCK_RETRY_MS_def
      split: prod.splits sum.splits)

lemma applyStatusChange_waitingOnce:
  "applyStatusChange params t 1000000 waitingOnce fs =
   (case applyStatusChange params t 0 [freeAt 0] fs of
      (evs, out, s') \<Rightarrow> (Slept 200 # evs, out, s'))"
  unfolding applyStatusChange_def by (rule withFileLock_waitingOnce)

lemma applyConflictMerge_waitingOnce:
  "applyConflictMerge params t 1000000 waitingOnce fs =
   (case applyConflictMerge params t 0 [freeAt 0] fs of
      (evs, out, s') \<Rightarrow> (Slept 200 # evs, out, s'))"
  unfolding applyConflictMerge_def by (rule withFileLock_waitingOnce)

lemma applyStatusChange_freeAt_trace:
  "fst (applyStatusChange params t startedAt (freeAt n # rest) fs) = [Released]"
proof -
  have "opened (freeAt n) = OpenOk" by (simp add: freeAt_def)
  then have "applyStatusChange params t startedAt (freeAt n # rest) fs =
     (case applyStatusChangeTask params t fs of
        (Inr v, s') \<Rightarrow> ([Released], Returned v, s')
      | (Inl e, s') \<Rightarrow> ([Released], Threw e, s'))"
    unfolding applyStatusChange_def
    by (rule withFileLock_acquired) (rule applyStatusChangeTask_errorCode)
  then show ?thesis by (simp split: prod.splits sum.splits)
qed

lemma applyConflictMerge_freeAt_trace:
  "fst (applyConflictMerge params t startedAt (freeAt n # rest) fs) = [Released]"
proof -
  have "opened (freeAt n) = OpenOk" by (simp add: freeAt_def)
  then have "applyConflictMerge params t startedAt (freeAt n # rest) fs =
     (case applyConflictMergeTask params t fs of
        (Inr v, s') \<Rightarrow> ([Released], Returned v, s')
      | (Inl e, s') \<Rightarrow> ([Released], Threw e, s'))"
    unfolding applyConflictMerge_def
    by (rule withFileLock_acquired) (rule applyConflictMergeTask_errorCode)
  then show ?thesis by (simp split: prod.splits sum.splits)
qed

text \<open>The task of \<open>applyStatusChange\<close> once the item is found: stage, then commit or roll back.\<close>

lemma applyStatusChangeTask_staged:
  assumes cur: "cur = loadStatusBuckets (scPaths params) (ensureStatusBuckets (scPaths params) fs)"
    and day: "day = (case scToday params of Some d \<Rightarrow> d | None \<Rightarrow> utcToday)"
    and found: "findItemStatus cur (scId params) = Some loc"
    and staged: "staged =
      (if locStatus loc \<noteq> scTo params
       then pushItem (spliceOut cur (locStatus loc) (locIndex loc)) (scTo params)
              ((locItem loc)\<lparr>status := scTo params, updated := Some day\<rparr>)
       else cur)"
    and audit: "audit = auditMemory (memoryPath (scPaths params))
        (Some (serializeItems (flattenBuckets staged))) day"
  shows "applyStatusChangeTask params utcToday fs =
     (if auditExitCode (summaryIssues audit) = 2
      then (Inl (AuditFailedAfterStatusChange (map message (summaryIssues audit))),
            (saveStatusBuckets (scPaths params) cur (ensureStatusBuckets (scPaths params) fs))
              \<lparr>memoryFile := Some (serializeItems (flattenBuckets cur)),
               runtimeProjection := Some (flattenBuckets cur)\<rparr>)
      else ((case findItemStatus staged (scId params) of
               None \<Rightarrow> Inl (ItemMissingAfterUpdate (scId params))
             | Some upd \<Rightarrow>
                 Inr \<lparr>resFrom = locStatus loc, resTo = scTo params, resItem = locItem upd,
                      resCounts = countsByStatus staged\<rparr>),
            (saveStatusBuckets (scPaths params) staged (ensureStatusBuckets (scPaths params) fs))
              \<lparr>memoryFile := Some (serializeItems (flattenBuckets staged)),
               runtimeProjection := Some (flattenBuckets staged)\<rparr>))"
proof -
  let ?fs1 = "ensureStatusBuckets (scPaths params) fs"
  have t: "applyStatusChangeTask params utcToday fs =
     (case commitBuckets AuditFailedAfterStatusChange (scPaths params) day staged cur ?fs1 of
        (Inl e, fs2) \<Rightarrow> (Inl e, fs2)
      | (Inr u, fs2) \<Rightarrow>
          (case findItemStatus staged (scId params) of
             None \<Rightarrow> (Inl (ItemMissingAfterUpdate (scId params)), fs2)
           | Some upd \<Rightarrow>
               (Inr \<lparr>resFrom = locStatus loc, resTo = scTo params,
                     resItem = locItem upd, resCounts = countsByStatus staged\<rparr>,
                fs2)))"
    unfolding applyStatusChangeTask_def Let_def cloneBuckets_id cur [symmetric] day [symmetric]
    using found by (auto simp: staged split: prod.splits sum.splits option.splits)
  show ?thesis
  proof (cases "auditExitCode (summaryIssues audit) = 2")
    case True
    from commitBuckets_severe [OF True [unfolded audit], of AuditFailedAfterStatusChange cur ?fs1]
    show ?thesis unfolding t using True by (simp add: audit)
  next
    case False
    from commitBuckets_passed [OF False [unfolded audit], of AuditFailedAfterStatusChange cur ?fs1]
    show ?thesis unfolding t using False by (simp add: audit split: option.splits)
  qed
qed

text \<open>
  The merge proper, with the staged buckets spelled out: the kept item is spliced out of
  the loaded buckets, the other item is located again and spliced out, and the two
  rewritten items are pushed.
\<close>

lemma applyConflictMergeTask_removed:
  fixes params utcToday fs
  defines "paths \<equiv> cmPaths params"
  defines "fs1 \<equiv> ensureStatusBuckets paths fs"
  defines "cur \<equiv> loadStatusBuckets paths fs1"
  defines "day \<equiv> (case cmToday params of Some d \<Rightarrow> d | None \<Rightarrow> utcToday)"
  defines "keepId \<equiv> (case cmKeepId params of Some k \<Rightarrow> k | None \<Rightarrow> cmLeftId params)"
  defines "pid \<equiv> conflictPairId (cmLeftId params) (cmRightId params)"
  assumes left: "findItemStatus cur (cmLeftId params) = Some leftLocated"
    and right: "findItemStatus cur (cmRightId params) = Some rightLocated"
    and distinct: "cmLeftId params \<noteq> cmRightId params"
    and pair: "isUnresolvedConflictPair (locItem leftLocated) (locItem rightLocated)"
    and keep: "keepId = cmLeftId params \<or> keepId = cmRightId params"
  defines "keepLoc \<equiv> (if keepId = cmLeftId params then leftLocated else rightLocated)"
  defines "otherLoc \<equiv> (if keepId = cmLeftId params then rightLocated else leftLocated)"
  defines "merged \<equiv> (locItem keepLoc)
      \<lparr>status := Active, item_value := cmMergedValue params, updated := Some day,
       next' := Some (''Merged conflict '' @ pid @ ''; resolved by keeping '' @
                     item_id (locItem keepLoc) @ ''.'')\<rparr>"
  defines "deprecatedOther \<equiv> (locItem otherLoc)
      \<lparr>status := Deprecated, updated := Some day,
       next' := Some (''Deprecated after conflict merge '' @ pid @ '' into '' @
                     item_id (locItem keepLoc) @ ''.'')\<rparr>"
  shows "\<exists>again.
     findItemStatus (spliceOut cur (locStatus keepLoc) (locIndex keepLoc))
       (item_id (locItem otherLoc)) = Some again \<and>
     locItem again = locItem otherLoc \<and> locStatus again = locStatus otherLoc \<and>
     applyConflictMergeTask params utcToday fs =
       (case commitBuckets AuditFailedAfterConflictMerge paths day
               (pushItem
                  (pushItem
                     (spliceOut (spliceOut cur (locStatus keepLoc) (locIndex keepLoc))
                        (locStatus again) (locIndex again))
                     Active merged)
                  Deprecated deprecatedOther) cur fs1 of
          (Inl e, fs2) \<Rightarrow> (Inl e, fs2)
        | (Inr u, fs2) \<Rightarrow>
            (Inr \<lparr>mergedId = item_id (locItem keepLoc),
                  deprecatedId = item_id (locItem otherLoc),
                  mergeCounts =
                    countsByStatus
                      (pushItem
                         (pushItem
                            (spliceOut (spliceOut cur (locStatus keepLoc) (locIndex keepLoc))
                               (locStatus again) (locIndex again))
                            Active merged)
                         Deprecated deprecatedOther),
                  pairId = pid\<rparr>,
             fs2))"
proof -
  have ids: "item_id (locItem leftLocated) = cmLeftId params"
    "item_id (locItem rightLocated) = cmRightId params"
    using left right findItemStatusIn_sound unfolding findItemStatus_def by blast+
  have kf: "findItemStatus cur (item_id (locItem keepLoc)) = Some keepLoc"
    using left right ids by (simp add: keepLoc_def)
  have "findItemStatus cur (item_id (locItem otherLoc)) = Some otherLoc"
    using left right ids by (simp add: otherLoc_def)
  moreover have "locIndex keepLoc < length (bucket cur (locStatus keepLoc))"
    "locItem keepLoc = bucket cur (locStatus keepLoc) ! locIndex keepLoc"
    using kf findItemStatusIn_sound unfolding findItemStatus_def by blast+
  moreover have "item_id (locItem keepLoc) \<noteq> item_id (locItem otherLoc)"
    using ids distinct by (simp add: keepLoc_def otherLoc_def)
  ultimately obtain loc' where loc':
    "findItemStatus (spliceOut cur (locStatus keepLoc) (locIndex keepLoc))
        (item_id (locItem otherLoc)) = Some loc'"
    "locItem loc' = locItem otherLoc" "locStatus loc' = locStatus otherLoc"
    using findItemStatus_spliceOut
      [of cur "item_id (locItem otherLoc)" otherLoc "locIndex keepLoc" "locStatus keepLoc"]
    by auto
  define cur1 where "cur1 = spliceOut cur (locStatus keepLoc) (locIndex keepLoc)"
  define cur2 where "cur2 = spliceOut cur1 (locStatus loc') (locIndex loc')"
  have r1: "removeItemById cur (item_id (locItem keepLoc)) = Inr (locItem keepLoc, cur1)"
    unfolding cur1_def using kf by (rule removeItemById_found)
  have r2: "removeItemById cur1 (item_id (locItem otherLoc)) = Inr (locItem otherLoc, cur2)"
    using removeItemById_found [OF loc'(1)] by (simp add: cur1_def cur2_def loc'(2))
  have "applyConflictMergeTask params utcToday fs =
       (case commitBuckets AuditFailedAfterConflictMerge paths day
               (pushItem (pushItem cur2 Active merged) Deprecated deprecatedOther) cur fs1 of
          (Inl e, fs2) \<Rightarrow> (Inl e, fs2)
        | (Inr u, fs2) \<Rightarrow>
            (Inr \<lparr>mergedId = item_id (locItem keepLoc),
                  deprecatedId = item_id (locItem otherLoc),
                  mergeCounts =
                    countsByStatus (pushItem (pushItem cur2 Active merged) Deprecated deprecatedOther),
                  pairId = pid\<rparr>,
             fs2))"
  proof (cases "keepId = cmLeftId params")
    case True
    then have kl: "keepLoc = leftLocated" "otherLoc = rightLocated"
      by (simp_all add: keepLoc_def otherLoc_def)
    show ?thesis
      unfolding applyConflictMergeTask_def Let_def cloneBuckets_id
        paths_def [symmetric] fs1_def [symmetric] cur_def [symmetric] day_def [symmetric]
        keepId_def [symmetric] pid_def [symmetric]
      using left right distinct pair True r1 [unfolded kl] r2 [unfolded kl]
      by (simp add: kl merged_def deprecatedOther_def split: prod.splits sum.splits)
  next
    case False
    with keep have kr: "keepId = cmRightId params" by blast
    from False have kl: "keepLoc = rightLocated" "otherLoc = leftLocated"
      by (simp_all add: keepLoc_def otherLoc_def)
    show ?thesis
      unfolding applyConflictMergeTask_def Let_def cloneBuckets_id
        paths_def [symmetric] fs1_def [symmetric] cur_def [symmetric] day_def [symmetric]
        keepId_def [symmetric] pid_def [symmetric]
      using left right distinct pair False kr r1 [unfolded kl] r2 [unfolded kl]
      by (simp add: kl merged_def deprecatedOther_def split: prod.splits sum.splits)
  qed
  with loc' show ?thesis unfolding cur2_def cur1_def by blast
qed

lemma applyStatusChangeTask_same_status:
  assumes found: "findItemStatus (loadStatusBuckets (scPaths params)
        (ensureStatusBuckets (scPaths params) fs)) (scId params) = Some loc"
    and same: "locStatus loc = scTo params"
  shows "\<exists>fs'. applyStatusChangeTask params utcToday fs =
      ((let audit = auditMemory (memoryPath (scPaths params))
            (Some (serializeItems (flattenBuckets (loadStatusBuckets (scPaths params)
               (ensureStatusBuckets (scPaths params) fs)))))
            (case scToday params of Some d \<Rightarrow> d | None \<Rightarrow> utcToday)
        in if auditExitCode (summaryIssues audit) = 2
           then Inl (AuditFailedAfterStatusChange (map message (summaryIssues audit)))
           else Inr \<lparr>resFrom = scTo params, resTo = scTo params, resItem = locItem loc,
              resCounts = countsByStatus (loadStatusBuckets (scPaths params)
                (ensureStatusBuckets (scPaths params) fs))\<rparr>), fs') \<and>
    sameBucketFiles fs' (ensureStatusBuckets (scPaths params) fs) \<and>
    loadStatusBuckets (scPaths params) fs' =
      loadStatusBuckets (scPaths params) (ensureStatusBuckets (scPaths params) fs)"
proof -
  let ?paths = "scPaths params"
  obtain B where B: "bucketsOk B" "ensureStatusBuckets ?paths fs = saveStatusBuckets ?paths B fs"
    using ensureStatusBuckets_save by blast
  have l: "loadStatusBuckets ?paths (saveStatusBuckets ?paths B fs) = sortBuckets B"
    using B(1) by (rule loadStatusBuckets_save)
  define day where "day = (case scToday params of Some d \<Rightarrow> d | None \<Rightarrow> utcToday)"
  define fs' where "fs' = (saveStatusBuckets ?paths (sortBuckets B) (saveStatusBuckets ?paths B fs))
        \<lparr>memoryFile := Some (serializeItems (flattenBuckets (sortBuckets B))),
         runtimeProjection := Some (flattenBuckets (sortBuckets B))\<rparr>"
  define audit where "audit = auditMemory (memoryPath ?paths)
        (Some (serializeItems (flattenBuckets (sortBuckets B)))) day"
  from found have f: "findItemStatus (sortBuckets B) (scId params) = Some loc"
    by (simp add: B(2) l)
  have t: "applyStatusChangeTask params utcToday fs =
      ((if auditExitCode (summaryIssues audit) = 2
        then Inl (AuditFailedAfterStatusChange (map message (summaryIssues audit)))
        else Inr \<lparr>resFrom = scTo params, resTo = scTo params, resItem = locItem loc,
            resCounts = countsByStatus (sortBuckets B)\<rparr>), fs')"
  proof (cases "auditExitCode (summaryIssues audit) = 2")
    case True
    have "commitBuckets AuditFailedAfterStatusChange ?paths day (sortBuckets B) (sortBuckets B)
             (saveStatusBuckets ?paths B fs) =
          (Inl (AuditFailedAfterStatusChange (map message (summaryIssues audit))), fs')"
      unfolding fs'_def audit_def
      by (rule commitBuckets_severe [OF True [unfolded audit_def]])
    then show ?thesis
      unfolding applyStatusChangeTask_form [OF B] Let_def day_def [symmetric]
      by (simp add: f same True)
  next
    case False
    have "commitBuckets AuditFailedAfterStatusChange ?paths day (sortBuckets B) (sortBuckets B)
             (saveStatusBuckets ?paths B fs) = (Inr (), fs')"
      unfolding fs'_def by (rule commitBuckets_passed [OF False [unfolded audit_def]])
    then show ?thesis
      unfolding applyStatusChangeTask_form [OF B] Let_def day_def [symmetric]
      by (simp add: f same False)
  qed
  have s: "sameBucketFiles fs' (saveStatusBuckets ?paths B fs)"
    unfolding fs'_def by (rule sameBucketFiles_restored)
  then have "loadStatusBuckets ?paths fs' = loadStatusBuckets ?paths (saveStatusBuckets ?paths B fs)"
    by (intro loadStatusBuckets_cong) (simp_all add: sameBucketFiles_def)
  with t s show ?thesis
    unfolding B(2) l Let_def day_def [symmetric] audit_def [symmetric] by simp
qed

lemma sameBucketFiles_committed:
  "sameBucketFiles
     ((saveStatusBuckets paths B fs1)\<lparr>memoryFile := m, runtimeProjection := r\<rparr>)
     (saveStatusBuckets paths B fs)"
  by (simp add: sameBucketFiles_def saveStatusBuckets_eq)

lemma applyConflictMerge_staged_outcome:
  assumes run0: "applyConflictMerge params utcToday startedAt obs fs = (evs, out, fs')"
    and rel: "Released \<in> set evs"
    and cur: "cur = loadStatusBuckets (cmPaths params) (ensureStatusBuckets (cmPaths params) fs)"
    and day: "day = (case cmToday params of Some d \<Rightarrow> d | None \<Rightarrow> utcToday)"
    and keepId: "keepId = (case cmKeepId params of Some k \<Rightarrow> k | None \<Rightarrow> cmLeftId params)"
    and pid: "pid = conflictPairId (cmLeftId params) (cmRightId params)"
    and left: "findItemStatus cur (cmLeftId params) = Some l"
    and right: "findItemStatus cur (cmRightId params) = Some r"
    and merge: "cmLeftId params \<noteq> cmRightId params"
      "isUnresolvedConflictPair (locItem l) (locItem r)"
      "keepId = cmLeftId params \<or> keepId = cmRightId params"
    and keep_def: "keep = (if keepId = cmLeftId params then l else r)"
    and other_def: "other = (if keepId = cmLeftId params then r else l)"
    and merged_def: "merged = (locItem keep)
                 \<lparr>status := Active, item_value := cmMergedValue params, updated := Some day,
                  next' := Some (''Merged conflict '' @ pid @ ''; resolved by keeping '' @
                                keepId @ ''.'')\<rparr>"
    and deprecatedOther_def: "deprecatedOther = (locItem other)
                 \<lparr>status := Deprecated, updated := Some day,
                  next' := Some (''Deprecated after conflict merge '' @ pid @ '' into '' @
                                keepId @ ''.'')\<rparr>"
    and withoutKept_def: "withoutKept = spliceOut cur (locStatus keep) (locIndex keep)"
  shows "item_id (locItem keep) = keepId \<and>
              (\<exists>again.
                 findItemStatus withoutKept (item_id (locItem other)) = Some again \<and>
                 locItem again = locItem other \<and> locStatus again = locStatus other \<and>
                 (let buckets =
                        pushItem
                          (pushItem (spliceOut withoutKept (locStatus again) (locIndex again))
                             Active merged)
                          Deprecated deprecatedOther;
                      audit = auditMemory (memoryPath (cmPaths params))
                        (Some (serializeItems (flattenBuckets buckets))) day
                  in merged \<in> set (active buckets) \<and>
                     deprecatedOther \<in> set (deprecated buckets) \<and>
                     (if auditExitCode (summaryIssues audit) = 2
                      then out = Threw (AuditFailedAfterConflictMerge
                                         (map message (summaryIssues audit))) \<and>
                           sameBucketFiles fs' (ensureStatusBuckets (cmPaths params) fs) \<and>
                           loadStatusBuckets (cmPaths params) fs' = cur
                      else out = Returned
                             \<lparr>mergedId = keepId, deprecatedId = item_id (locItem other),
                              mergeCounts = countsByStatus buckets, pairId = pid\<rparr> \<and>
                           sameBucketFiles fs' (saveStatusBuckets (cmPaths params) buckets fs) \<and>
                           memoryFile fs' = Some (serializeItems (flattenBuckets buckets)) \<and>
                           runtimeProjection fs' = Some (flattenBuckets buckets))))"
proof -
  let ?paths = "cmPaths params"
  let ?fs1 = "ensureStatusBuckets ?paths fs"
  note run = applyConflictMerge_Released [OF run0 rel]
  note assms = run0 rel cur day keepId pid
  have ids: "item_id (locItem l) = cmLeftId params" "item_id (locItem r) = cmRightId params"
    using left right findItemStatusIn_sound unfolding findItemStatus_def by blast+
  with merge(3) have kid: "item_id (locItem keep) = keepId"
    by (auto simp: keep_def)
  from applyConflictMergeTask_removed
    [OF left [unfolded assms(3)] right [unfolded assms(3)] merge(1,2)
        merge(3) [unfolded assms(5)], where utcToday = utcToday]
  obtain again where again:
      "findItemStatus withoutKept (item_id (locItem other)) = Some again"
      "locItem again = locItem other" "locStatus again = locStatus other"
    and t: "applyConflictMergeTask params utcToday fs =
      (case commitBuckets AuditFailedAfterConflictMerge ?paths day
              (pushItem
                 (pushItem (spliceOut withoutKept (locStatus again) (locIndex again))
                    Active merged)
                 Deprecated deprecatedOther) cur ?fs1 of
         (Inl e, fs2) \<Rightarrow> (Inl e, fs2)
       | (Inr u, fs2) \<Rightarrow>
           (Inr \<lparr>mergedId = keepId, deprecatedId = item_id (locItem other),
                 mergeCounts = countsByStatus
                   (pushItem
                      (pushItem (spliceOut withoutKept (locStatus again) (locIndex again))
                         Active merged)
                      Deprecated deprecatedOther),
                 pairId = pid\<rparr>, fs2))"
    unfolding assms(3-6) [symmetric] keep_def [symmetric] other_def [symmetric] kid
      merged_def [symmetric] deprecatedOther_def [symmetric] withoutKept_def [symmetric]
    by blast
  define buckets where
    "buckets = pushItem
       (pushItem (spliceOut withoutKept (locStatus again) (locIndex again)) Active merged)
       Deprecated deprecatedOther"
  have mem: "merged \<in> set (active buckets)" "deprecatedOther \<in> set (deprecated buckets)"
    by (simp_all add: buckets_def pushItem_simps)
  define audit where "audit = auditMemory (memoryPath ?paths)
      (Some (serializeItems (flattenBuckets buckets))) day"
  have fin: "if auditExitCode (summaryIssues audit) = 2
       then out = Threw (AuditFailedAfterConflictMerge (map message (summaryIssues audit))) \<and>
            sameBucketFiles fs' ?fs1 \<and> loadStatusBuckets ?paths fs' = cur
       else out = Returned
              \<lparr>mergedId = keepId, deprecatedId = item_id (locItem other),
               mergeCounts = countsByStatus buckets, pairId = pid\<rparr> \<and>
            sameBucketFiles fs' (saveStatusBuckets ?paths buckets fs) \<and>
            memoryFile fs' = Some (serializeItems (flattenBuckets buckets)) \<and>
            runtimeProjection fs' = Some (flattenBuckets buckets)"
  proof (cases "auditExitCode (summaryIssues audit) = 2")
    case True
    from commitBuckets_severe [OF True [unfolded audit_def], of AuditFailedAfterConflictMerge cur ?fs1]
    have "\<exists>fs2. applyConflictMergeTask params utcToday fs =
        (Inl (AuditFailedAfterConflictMerge (map message (summaryIssues audit))), fs2)"
      unfolding t buckets_def [symmetric] audit_def [symmetric] by simp
    then obtain fs2 where t2: "applyConflictMergeTask params utcToday fs =
        (Inl (AuditFailedAfterConflictMerge (map message (summaryIssues audit))), fs2)"
      by blast
    from applyConflictMergeTask_auditFailed [OF t2] run t2 True show ?thesis
      by (simp add: assms(3))
  next
    case False
    define fs2 where "fs2 = (saveStatusBuckets ?paths buckets ?fs1)
           \<lparr>memoryFile := Some (serializeItems (flattenBuckets buckets)),
            runtimeProjection := Some (flattenBuckets buckets)\<rparr>"
    from commitBuckets_passed [OF False [unfolded audit_def], of AuditFailedAfterConflictMerge cur ?fs1]
    have "applyConflictMergeTask params utcToday fs =
        (Inr \<lparr>mergedId = keepId, deprecatedId = item_id (locItem other),
                 mergeCounts = countsByStatus buckets, pairId = pid\<rparr>, fs2)"
      unfolding t buckets_def [symmetric] fs2_def by simp
    with run have o: "out = Returned \<lparr>mergedId = keepId, deprecatedId = item_id (locItem other),
                 mergeCounts = countsByStatus buckets, pairId = pid\<rparr>" "fs' = fs2"
      by simp_all
    have "sameBucketFiles fs2 (saveStatusBuckets ?paths buckets fs)"
      unfolding fs2_def by (rule sameBucketFiles_committed)
    moreover have "memoryFile fs2 = Some (serializeItems (flattenBuckets buckets))"
      "runtimeProjection fs2 = Some (flattenBuckets buckets)"
      by (simp_all add: fs2_def)
    ultimately show ?thesis using False o by simp
  qed
  from kid again mem fin [unfolded audit_def buckets_def]
  show ?thesis
    unfolding Let_def buckets_def by blast
qed

lemma applyStatusChange_staged_outcome:
  assumes run0: "applyStatusChange params utcToday startedAt obs fs = (evs, out, fs')"
    and rel: "Released \<in> set evs"
    and cur: "cur = loadStatusBuckets (scPaths params) (ensureStatusBuckets (scPaths params) fs)"
    and day: "day = (case scToday params of Some d \<Rightarrow> d | None \<Rightarrow> utcToday)"
    and found: "findItemStatus cur (scId params) = Some loc"
    and staged: "staged =
      (if locStatus loc \<noteq> scTo params
       then pushItem (spliceOut cur (locStatus loc) (locIndex loc)) (scTo params)
              ((locItem loc)\<lparr>status := scTo params, updated := Some day\<rparr>)
       else cur)"
    and audit: "audit = auditMemory (memoryPath (scPaths params))
        (Some (serializeItems (flattenBuckets staged))) day"
  shows "if auditExitCode (summaryIssues audit) = 2
     then out = Threw (AuditFailedAfterStatusChange (map message (summaryIssues audit))) \<and>
          sameBucketFiles fs' (ensureStatusBuckets (scPaths params) fs) \<and>
          loadStatusBuckets (scPaths params) fs' = cur
     else (\<forall>m. out \<noteq> Threw (AuditFailedAfterStatusChange m)) \<and>
          sameBucketFiles fs' (saveStatusBuckets (scPaths params) staged fs)"
proof -
  note run = applyStatusChange_Released [OF run0 rel]
  note t = applyStatusChangeTask_staged [OF cur day found staged audit]
  show ?thesis
  proof (cases "auditExitCode (summaryIssues audit) = 2")
    case True
    with t obtain fs2 where t2: "applyStatusChangeTask params utcToday fs =
        (Inl (AuditFailedAfterStatusChange (map message (summaryIssues audit))), fs2)"
      by simp
    from applyStatusChangeTask_auditFailed [OF t2] run t2 True show ?thesis
      by (simp add: cur)
  next
    case False
    define fs2 where "fs2 =
        (saveStatusBuckets (scPaths params) staged (ensureStatusBuckets (scPaths params) fs))
          \<lparr>memoryFile := Some (serializeItems (flattenBuckets staged)),
           runtimeProjection := Some (flattenBuckets staged)\<rparr>"
    from t False run have "(\<forall>m. out \<noteq> Threw (AuditFailedAfterStatusChange m)) \<and> fs' = fs2"
      unfolding fs2_def by (auto split: option.splits)
    moreover have "sameBucketFiles fs2 (saveStatusBuckets (scPaths params) staged fs)"
      unfolding fs2_def by (rule sameBucketFiles_committed)
    ultimately show ?thesis using False by simp
  qed
qed

subsection \<open>Example runs\<close>

lemma applyStatusChange_pendingConflictDisk:
  "applyStatusChange activateB ''2024-04-01'' 0 [freeAt 0] pendingConflictDisk =
     ([Released],
      Threw (AuditFailedAfterStatusChange [conflictMessage ''MEM-2024-01-001'' ''MEM-2024-01-002'']),
      pendingConflictDisk
        \<lparr>memoryFile :=
           Some (Parsed (RArr [itemToRaw exampleA, itemToRaw (exampleB\<lparr>status := Pending\<rparr>)])),
         runtimeProjection := Some [exampleA, exampleB\<lparr>status := Pending\<rparr>]\<rparr>)"
  by code_simp

lemma applyStatusChange_mislabelledPendingDisk:
  "applyStatusChange activateB ''2024-04-01'' 0 [freeAt 0] mislabelledPendingDisk =
     ([Released],
      Threw (AuditFailedAfterStatusChange [conflictMessage ''MEM-2024-01-001'' ''MEM-2024-01-002'']),
      pendingConflictDisk
        \<lparr>memoryFile :=
           Some (Parsed (RArr [itemToRaw exampleA, itemToRaw (exampleB\<lparr>status := Pending\<rparr>)])),
         runtimeProjection := Some [exampleA, exampleB\<lparr>status := Pending\<rparr>]\<rparr>)"
  by code_simp

lemma applyConflictMerge_threeWayDisk:
  "applyConflictMerge mergeAB ''2024-04-01'' 0 [freeAt 0] threeWayDisk =
     ([Released],
      Threw (AuditFailedAfterConflictMerge [conflictMessage ''MEM-2024-01-001'' ''MEM-2024-01-003'']),
      threeWayDisk
        \<lparr>memoryFile :=
           Some (Parsed (RArr [itemToRaw exampleA, itemToRaw (exampleB\<lparr>status := Pending\<rparr>),
                               itemToRaw exampleC])),
         runtimeProjection := Some [exampleA, exampleB\<lparr>status := Pending\<rparr>, exampleC]\<rparr>)"
  by code_simp

lemma ensureStatusBuckets_pendingConflictDisk:
  "sameBucketFiles (ensureStatusBuckets examplePaths pendingConflictDisk) pendingConflictDisk"
  by code_simp

lemma ensureStatusBuckets_threeWayDisk:
  "sameBucketFiles (ensureStatusBuckets examplePaths threeWayDisk) threeWayDisk"
  by code_simp

lemma audit_bucketsMoved:
  "summaryIssues (auditMemory (memoryPath examplePaths)
     (Some (serializeItems (flattenBuckets bucketsMoved))) ''2024-04-01'') =
   [makeIssue Conflict (conflictMessage ''MEM-2024-01-001'' ''MEM-2024-01-002'')
      [''MEM-2024-01-001'', ''MEM-2024-01-002'']]"
  by code_simp

lemma audit_bucketsBefore:
  "summaryIssues (auditMemory (memoryPath examplePaths)
     (Some (serializeItems (flattenBuckets bucketsBefore))) ''2024-04-01'') = []"
  by code_simp

lemma loadStatusBuckets_pendingConflictDisk:
  "loadStatusBuckets examplePaths (ensureStatusBuckets examplePaths pendingConflictDisk) =
     bucketsBefore"
  by code_simp

lemma findItemStatus_bucketsBefore_B:
  "findItemStatus bucketsBefore ''MEM-2024-01-002'' =
     Some \<lparr>locStatus = Pending, locIndex = 0, locItem = exampleB\<lparr>status := Pending\<rparr>\<rparr>"
  by code_simp

lemma findItemStatus_activeConflictDisk:
  "map_option locStatus (findItemStatus
     (loadStatusBuckets examplePaths (ensureStatusBuckets examplePaths activeConflictDisk))
     ''MEM-2024-01-001'') = Some Active"
  by code_simp

lemma applyStatusChange_activeConflictDisk:
  "fst (snd (applyStatusChange keepAActive ''2024-04-01'' 0 [freeAt 0] activeConflictDisk)) =
     Threw (AuditFailedAfterStatusChange [conflictMessage ''MEM-2024-01-001'' ''MEM-2024-01-002''])"
  by code_simp

lemma findItemStatus_bucketsBefore_A:
  "findItemStatus bucketsBefore ''MEM-2024-01-001'' =
     Some \<lparr>locStatus = Active, locIndex = 0, locItem = exampleA\<rparr>"
  by code_simp

lemma isUnresolvedConflictPair_examples:
  "isUnresolvedConflictPair exampleA (exampleB\<lparr>status := Pending\<rparr>)"
  by code_simp

lemma conflictPairId_examples:
  "conflictPairId ''MEM-2024-01-001'' ''MEM-2024-01-002'' = ''MEM-2024-01-001__MEM-2024-01-002''"
  by code_simp

lemma applyConflictMerge_pendingConflictDisk:
  "fst (snd (applyConflictMerge mergeAB ''2024-04-01'' 0 [freeAt 0] pendingConflictDisk)) =
     Returned \<lparr>mergedId = ''MEM-2024-01-001'', deprecatedId = ''MEM-2024-01-002'',
       mergeCounts = \<lparr>activeCount = 1, pendingCount = 0, deprecatedCount = 1\<rparr>,
       pairId = ''MEM-2024-01-001__MEM-2024-01-002''\<rparr>"
  by code_simp

lemma findItemStatus_threeWayDisk:
  "map_option locItem (findItemStatus
     (loadStatusBuckets examplePaths (ensureStatusBuckets examplePaths threeWayDisk))
     ''MEM-2024-01-001'') = Some exampleA"
  "map_option locItem (findItemStatus
     (loadStatusBuckets examplePaths (ensureStatusBuckets examplePaths threeWayDisk))
     ''MEM-2024-01-002'') = Some (exampleB\<lparr>status := Pending\<rparr>)"
  by code_simp+

lemma loadStatusBuckets_threeWayDisk:
  "loadStatusBuckets examplePaths (ensureStatusBuckets examplePaths threeWayDisk) =
     \<lparr>active = [exampleA, exampleC], pending = [exampleB\<lparr>status := Pending\<rparr>],
      deprecated = []\<rparr>"
  by code_simp

lemma findItemStatus_threeWay:
  "findItemStatus
     \<lparr>active = [exampleA, exampleC], pending = [exampleB\<lparr>status := Pending\<rparr>], deprecated = []\<rparr>
     ''MEM-2024-01-001'' = Some \<lparr>locStatus = Active, locIndex = 0, locItem = exampleA\<rparr>"
  "findItemStatus
     \<lparr>active = [exampleA, exampleC], pending = [exampleB\<lparr>status := Pending\<rparr>], deprecated = []\<rparr>
     ''MEM-2024-01-002'' =
   Some \<lparr>locStatus = Pending, locIndex = 0, locItem = exampleB\<lparr>status := Pending\<rparr>\<rparr>"
  by code_simp+

lemma findItemStatus_withoutA:
  "findItemStatus (spliceOut bucketsBefore Active 0) ''MEM-2024-01-002'' =
     Some \<lparr>locStatus = Pending, locIndex = 0, locItem = exampleB\<lparr>status := Pending\<rparr>\<rparr>"
  by code_simp

lemma applyConflictMerge_mergeAB_waitingOnce:
  "fst (applyConflictMerge mergeAB ''2024-04-01'' 1000000 waitingOnce pendingConflictDisk) =
     [Slept 200, Released]"
  "fst (snd (applyConflictMerge mergeAB ''2024-04-01'' 1000000 waitingOnce pendingConflictDisk)) =
     Returned \<lparr>mergedId = ''MEM-2024-01-001'', deprecatedId = ''MEM-2024-01-002'',
       mergeCounts = \<lparr>activeCount = 1, pendingCount = 0, deprecatedCount = 1\<rparr>,
       pairId = ''MEM-2024-01-001__MEM-2024-01-002''\<rparr>"
  using applyConflictMerge_freeAt_trace [of mergeAB "''2024-04-01''" 0 0 "[]" pendingConflictDisk]
    applyConflictMerge_pendingConflictDisk
  by (simp_all add: applyConflictMerge_waitingOnce split_beta)

lemma applyStatusChange_keepBPending_trace:
  "fst (applyStatusChange keepBPending ''2024-04-01'' 1000000 waitingOnce pendingConflictDisk) =
     [Slept 200, Released]"
  using applyStatusChange_freeAt_trace [of keepBPending "''2024-04-01''" 0 0 "[]" pendingConflictDisk]
  by (simp add: applyStatusChange_waitingOnce split_beta)

subsection \<open>Rollback\<close>

text \<open>
  C1, as the code has it. A call has taken the lock and run its task when its trace has
  the event \<open>Released\<close>, whatever the waiting before. Such a \<^verbatim>\<open>changeStatus\<close> call that
  finds its item, and such a \<^verbatim>\<open>mergeConflict\<close> call that passes its four checks, stages
  its buckets and audits the canonical file rebuilt from them: when the verdict is severe
  the call raises the audit error, the three bucket files hold what
  \<open>ensureStatusBuckets\<close> wrote at the start of the call and the buckets loaded from them
  are the snapshot \<open>previous\<close>; when the verdict is not severe the call does not raise
  the audit error and the bucket files are those of the staged buckets. Whenever either
  call raises the audit error, the bucket files hold what \<open>ensureStatusBuckets\<close> wrote,
  the canonical file and the runtime projection are rebuilt from the same buckets, and
  the bucket files equal their contents before the call whenever \<open>ensureStatusBuckets\<close>
  had left them as they were. What \<open>ensureStatusBuckets\<close> writes is the store as it
  loads: the records that pass validation, each with the status of its bucket, sorted.
  The commit block itself returns the error and leaves the bucket files of \<open>previous\<close>
  exactly when the audit of the rebuilt canonical file is severe.
\<close>

theorem rollback_restores_snapshot:
  "(applyStatusChange params utcToday startedAt obs fs =
      (evs, Threw (AuditFailedAfterStatusChange msgs), fs') \<longrightarrow>
      sameBucketFiles fs' (ensureStatusBuckets (scPaths params) fs) \<and>
      (sameBucketFiles (ensureStatusBuckets (scPaths params) fs) fs \<longrightarrow> sameBucketFiles fs' fs) \<and>
      memoryFile fs' =
        Some (serializeItems (flattenBuckets (loadStatusBuckets (scPaths params) fs'))) \<and>
      runtimeProjection fs' = Some (flattenBuckets (loadStatusBuckets (scPaths params) fs'))) \<and>
   (applyConflictMerge mparams utcToday startedAt obs fs =
      (mevs, Threw (AuditFailedAfterConflictMerge mmsgs), mfs') \<longrightarrow>
      sameBucketFiles mfs' (ensureStatusBuckets (cmPaths mparams) fs) \<and>
      (sameBucketFiles (ensureStatusBuckets (cmPaths mparams) fs) fs \<longrightarrow> sameBucketFiles mfs' fs) \<and>
      memoryFile mfs' =
        Some (serializeItems (flattenBuckets (loadStatusBuckets (cmPaths mparams) mfs'))) \<and>
      runtimeProjection mfs' = Some (flattenBuckets (loadStatusBuckets (cmPaths mparams) mfs'))) \<and>
   (let cur = loadStatusBuckets (scPaths params) (ensureStatusBuckets (scPaths params) fs);
        today = (case scToday params of Some d \<Rightarrow> d | None \<Rightarrow> utcToday);
        staged =
          (if locStatus loc \<noteq> scTo params
           then pushItem (spliceOut cur (locStatus loc) (locIndex loc)) (scTo params)
                  ((locItem loc)\<lparr>status := scTo params, updated := Some today\<rparr>)
           else cur);
        audit = auditMemory (memoryPath (scPaths params))
          (Some (serializeItems (flattenBuckets staged))) today
    in applyStatusChange params utcToday startedAt obs fs = (evs, out, fs') \<and>
       Released \<in> set evs \<and> findItemStatus cur (scId params) = Some loc \<longrightarrow>
       (if auditExitCode (summaryIssues audit) = 2
        then out = Threw (AuditFailedAfterStatusChange (map message (summaryIssues audit))) \<and>
             sameBucketFiles fs' (ensureStatusBuckets (scPaths params) fs) \<and>
             loadStatusBuckets (scPaths params) fs' = cur
        else (\<forall>m. out \<noteq> Threw (AuditFailedAfterStatusChange m)) \<and>
             sameBucketFiles fs' (saveStatusBuckets (scPaths params) staged fs))) \<and>
   (let cur = loadStatusBuckets (cmPaths mparams) (ensureStatusBuckets (cmPaths mparams) fs);
        today = (case cmToday mparams of Some d \<Rightarrow> d | None \<Rightarrow> utcToday);
        keepId = (case cmKeepId mparams of Some k \<Rightarrow> k | None \<Rightarrow> cmLeftId mparams);
        pid = conflictPairId (cmLeftId mparams) (cmRightId mparams);
        keep = (if keepId = cmLeftId mparams then l else r);
        other = (if keepId = cmLeftId mparams then r else l);
        merged = (locItem keep)
          \<lparr>status := Active, item_value := cmMergedValue mparams, updated := Some today,
           next' := Some (''Merged conflict '' @ pid @ ''; resolved by keeping '' @
                         keepId @ ''.'')\<rparr>;
        deprecatedOther = (locItem other)
          \<lparr>status := Deprecated, updated := Some today,
           next' := Some (''Deprecated after conflict merge '' @ pid @ '' into '' @
                         keepId @ ''.'')\<rparr>;
        withoutKept = spliceOut cur (locStatus keep) (locIndex keep)
    in applyConflictMerge mparams utcToday startedAt obs fs = (mevs, mout, mfs') \<and>
       Released \<in> set mevs \<and>
       findItemStatus cur (cmLeftId mparams) = Some l \<and>
       findItemStatus cur (cmRightId mparams) = Some r \<and>
       cmLeftId mparams \<noteq> cmRightId mparams \<and>
       isUnresolvedConflictPair (locItem l) (locItem r) \<and>
       (keepId = cmLeftId mparams \<or> keepId = cmRightId mparams) \<longrightarrow>
       (\<exists>again.
          findItemStatus withoutKept (item_id (locItem other)) = Some again \<and>
          (let buckets =
                 pushItem
                   (pushItem (spliceOut withoutKept (locStatus again) (locIndex again))
                      Active merged)
                   Deprecated deprecatedOther;
               audit = auditMemory (memoryPath (cmPaths mparams))
                 (Some (serializeItems (flattenBuckets buckets))) today
           in if auditExitCode (summaryIssues audit) = 2
              then mout = Threw (AuditFailedAfterConflictMerge
                                  (map message (summaryIssues audit))) \<and>
                   sameBucketFiles mfs' (ensureStatusBuckets (cmPaths mparams) fs) \<and>
                   loadStatusBuckets (cmPaths mparams) mfs' = cur
              else (\<forall>m. mout \<noteq> Threw (AuditFailedAfterConflictMerge m)) \<and>
                   sameBucketFiles mfs' (saveStatusBuckets (cmPaths mparams) buckets fs)))) \<and>
   (auditExitCode (summaryIssues (auditMemory (memoryPath paths)
        (Some (serializeItems (flattenBuckets current))) day)) = 2 \<longrightarrow>
      fst (commitBuckets mkError paths day current previous fs0) =
        Inl (mkError (map message (summaryIssues (auditMemory (memoryPath paths)
               (Some (serializeItems (flattenBuckets current))) day)))) \<and>
      sameBucketFiles (snd (commitBuckets mkError paths day current previous fs0))
        (saveStatusBuckets paths previous fs0)) \<and>
   (auditExitCode (summaryIssues (auditMemory (memoryPath paths)
        (Some (serializeItems (flattenBuckets current))) day)) \<noteq> 2 \<longrightarrow>
      fst (commitBuckets mkError paths day current previous fs0) = Inr ())"
proof -
  have A: "applyStatusChange params utcToday startedAt obs fs =
      (evs, Threw (AuditFailedAfterStatusChange msgs), fs') \<longrightarrow>
      sameBucketFiles fs' (ensureStatusBuckets (scPaths params) fs) \<and>
      (sameBucketFiles (ensureStatusBuckets (scPaths params) fs) fs \<longrightarrow> sameBucketFiles fs' fs) \<and>
      memoryFile fs' =
        Some (serializeItems (flattenBuckets (loadStatusBuckets (scPaths params) fs'))) \<and>
      runtimeProjection fs' = Some (flattenBuckets (loadStatusBuckets (scPaths params) fs'))"
  proof (intro impI)
    assume a: "applyStatusChange params utcToday startedAt obs fs =
      (evs, Threw (AuditFailedAfterStatusChange msgs), fs')"
    note r = applyStatusChangeTask_auditFailed [OF applyStatusChange_Threw [OF a]]
    then show "sameBucketFiles fs' (ensureStatusBuckets (scPaths params) fs) \<and>
      (sameBucketFiles (ensureStatusBuckets (scPaths params) fs) fs \<longrightarrow> sameBucketFiles fs' fs) \<and>
      memoryFile fs' =
        Some (serializeItems (flattenBuckets (loadStatusBuckets (scPaths params) fs'))) \<and>
      runtimeProjection fs' = Some (flattenBuckets (loadStatusBuckets (scPaths params) fs'))"
      by (simp add: sameBucketFiles_def)
  qed
  have B: "applyConflictMerge mparams utcToday startedAt obs fs =
      (mevs, Threw (AuditFailedAfterConflictMerge mmsgs), mfs') \<longrightarrow>
      sameBucketFiles mfs' (ensureStatusBuckets (cmPaths mparams) fs) \<and>
      (sameBucketFiles (ensureStatusBuckets (cmPaths mparams) fs) fs \<longrightarrow> sameBucketFiles mfs' fs) \<and>
      memoryFile mfs' =
        Some (serializeItems (flattenBuckets (loadStatusBuckets (cmPaths mparams) mfs'))) \<and>
      runtimeProjection mfs' = Some (flattenBuckets (loadStatusBuckets (cmPaths mparams) mfs'))"
  proof (intro impI)
    assume a: "applyConflictMerge mparams utcToday startedAt obs fs =
      (mevs, Threw (AuditFailedAfterConflictMerge mmsgs), mfs')"
    note r = applyConflictMergeTask_auditFailed [OF applyConflictMerge_Threw [OF a]]
    then show "sameBucketFiles mfs' (ensureStatusBuckets (cmPaths mparams) fs) \<and>
      (sameBucketFiles (ensureStatusBuckets (cmPaths mparams) fs) fs \<longrightarrow> sameBucketFiles mfs' fs) \<and>
      memoryFile mfs' =
        Some (serializeItems (flattenBuckets (loadStatusBuckets (cmPaths mparams) mfs'))) \<and>
      runtimeProjection mfs' = Some (flattenBuckets (loadStatusBuckets (cmPaths mparams) mfs'))"
      by (simp add: sameBucketFiles_def)
  qed
  have C: "let cur = loadStatusBuckets (scPaths params) (ensureStatusBuckets (scPaths params) fs);
        today = (case scToday params of Some d \<Rightarrow> d | None \<Rightarrow> utcToday);
        staged =
          (if locStatus loc \<noteq> scTo params
           then pushItem (spliceOut cur (locStatus loc) (locIndex loc)) (scTo params)
                  ((locItem loc)\<lparr>status := scTo params, updated := Some today\<rparr>)
           else cur);
        audit = auditMemory (memoryPath (scPaths params))
          (Some (serializeItems (flattenBuckets staged))) today
    in applyStatusChange params utcToday startedAt obs fs = (evs, out, fs') \<and>
       Released \<in> set evs \<and> findItemStatus cur (scId params) = Some loc \<longrightarrow>
       (if auditExitCode (summaryIssues audit) = 2
        then out = Threw (AuditFailedAfterStatusChange (map message (summaryIssues audit))) \<and>
             sameBucketFiles fs' (ensureStatusBuckets (scPaths params) fs) \<and>
             loadStatusBuckets (scPaths params) fs' = cur
        else (\<forall>m. out \<noteq> Threw (AuditFailedAfterStatusChange m)) \<and>
             sameBucketFiles fs' (saveStatusBuckets (scPaths params) staged fs))"
    unfolding Let_def
  proof (intro impI, elim conjE)
    assume a: "applyStatusChange params utcToday startedAt obs fs = (evs, out, fs')"
      "Released \<in> set evs"
      "findItemStatus (loadStatusBuckets (scPaths params)
         (ensureStatusBuckets (scPaths params) fs)) (scId params) = Some loc"
    from applyStatusChange_staged_outcome [OF a(1,2) refl refl a(3) refl refl]
    show "if auditExitCode (summaryIssues (auditMemory (memoryPath (scPaths params))
          (Some (serializeItems (flattenBuckets
            (if locStatus loc \<noteq> scTo params
             then pushItem (spliceOut (loadStatusBuckets (scPaths params)
                      (ensureStatusBuckets (scPaths params) fs)) (locStatus loc) (locIndex loc))
                    (scTo params)
                    ((locItem loc)\<lparr>status := scTo params,
                       updated := Some (case scToday params of Some d \<Rightarrow> d | None \<Rightarrow> utcToday)\<rparr>)
             else loadStatusBuckets (scPaths params)
                    (ensureStatusBuckets (scPaths params) fs)))))
          (case scToday params of Some d \<Rightarrow> d | None \<Rightarrow> utcToday))) = 2
        then out = Threw (AuditFailedAfterStatusChange (map message (summaryIssues
            (auditMemory (memoryPath (scPaths params))
          (Some (serializeItems (flattenBuckets
            (if locStatus loc \<noteq> scTo params
             then pushItem (spliceOut (loadStatusBuckets (scPaths params)
                      (ensureStatusBuckets (scPaths params) fs)) (locStatus loc) (locIndex loc))
                    (scTo params)
                    ((locItem loc)\<lparr>status := scTo params,
                       updated := Some (case scToday params of Some d \<Rightarrow> d | None \<Rightarrow> utcToday)\<rparr>)
             else loadStatusBuckets (scPaths params)
                    (ensureStatusBuckets (scPaths params) fs)))))
          (case scToday params of Some d \<Rightarrow> d | None \<Rightarrow> utcToday))))) \<and>
             sameBucketFiles fs' (ensureStatusBuckets (scPaths params) fs) \<and>
             loadStatusBuckets (scPaths params) fs' =
               loadStatusBuckets (scPaths params) (ensureStatusBuckets (scPaths params) fs)
        else (\<forall>m. out \<noteq> Threw (AuditFailedAfterStatusChange m)) \<and>
             sameBucketFiles fs' (saveStatusBuckets (scPaths params)
            (if locStatus loc \<noteq> scTo params
             then pushItem (spliceOut (loadStatusBuckets (scPaths params)
                      (ensureStatusBuckets (scPaths params) fs)) (locStatus loc) (locIndex loc))
                    (scTo params)
                    ((locItem loc)\<lparr>status := scTo params,
                       updated := Some (case scToday params of Some d \<Rightarrow> d | None \<Rightarrow> utcToday)\<rparr>)
             else loadStatusBuckets (scPaths params)
                    (ensureStatusBuckets (scPaths params) fs)) fs)" .
  qed
  have D: "let cur = loadStatusBuckets (cmPaths mparams) (ensureStatusBuckets (cmPaths mparams) fs);
        today = (case cmToday mparams of Some d \<Rightarrow> d | None \<Rightarrow> utcToday);
        keepId = (case cmKeepId mparams of Some k \<Rightarrow> k | None \<Rightarrow> cmLeftId mparams);
        pid = conflictPairId (cmLeftId mparams) (cmRightId mparams);
        keep = (if keepId = cmLeftId mparams then l else r);
        other = (if keepId = cmLeftId mparams then r else l);
        merged = (locItem keep)
          \<lparr>status := Active, item_value := cmMergedValue mparams, updated := Some today,
           next' := Some (''Merged conflict '' @ pid @ ''; resolved by keeping '' @
                         keepId @ ''.'')\<rparr>;
        deprecatedOther = (locItem other)
          \<lparr>status := Deprecated, updated := Some today,
           next' := Some (''Deprecated after conflict merge '' @ pid @ '' into '' @
                         keepId @ ''.'')\<rparr>;
        withoutKept = spliceOut cur (locStatus keep) (locIndex keep)
    in applyConflictMerge mparams utcToday startedAt obs fs = (mevs, mout, mfs') \<and>
       Released \<in> set mevs \<and>
       findItemStatus cur (cmLeftId mparams) = Some l \<and>
       findItemStatus cur (cmRightId mparams) = Some r \<and>
       cmLeftId mparams \<noteq> cmRightId mparams \<and>
       isUnresolvedConflictPair (locItem l) (locItem r) \<and>
       (keepId = cmLeftId mparams \<or> keepId = cmRightId mparams) \<longrightarrow>
       (\<exists>again.
          findItemStatus withoutKept (item_id (locItem other)) = Some again \<and>
          (let buckets =
                 pushItem
                   (pushItem (spliceOut withoutKept (locStatus again) (locIndex again))
                      Active merged)
                   Deprecated deprecatedOther;
               audit = auditMemory (memoryPath (cmPaths mparams))
                 (Some (serializeItems (flattenBuckets buckets))) today
           in if auditExitCode (summaryIssues audit) = 2
              then mout = Threw (AuditFailedAfterConflictMerge
                                  (map message (summaryIssues audit))) \<and>
                   sameBucketFiles mfs' (ensureStatusBuckets (cmPaths mparams) fs) \<and>
                   loadStatusBuckets (cmPaths mparams) mfs' = cur
              else (\<forall>m. mout \<noteq> Threw (AuditFailedAfterConflictMerge m)) \<and>
                   sameBucketFiles mfs' (saveStatusBuckets (cmPaths mparams) buckets fs)))"
  proof -
    define cur where "cur = loadStatusBuckets (cmPaths mparams) (ensureStatusBuckets (cmPaths mparams) fs)"
    define today where "today = (case cmToday mparams of Some d \<Rightarrow> d | None \<Rightarrow> utcToday)"
    define keepId where "keepId = (case cmKeepId mparams of Some k \<Rightarrow> k | None \<Rightarrow> cmLeftId mparams)"
    define pid where "pid = conflictPairId (cmLeftId mparams) (cmRightId mparams)"
    define keep where "keep = (if keepId = cmLeftId mparams then l else r)"
    define other where "other = (if keepId = cmLeftId mparams then r else l)"
    define merged where "merged = (locItem keep)
          \<lparr>status := Active, item_value := cmMergedValue mparams, updated := Some today,
           next' := Some (''Merged conflict '' @ pid @ ''; resolved by keeping '' @
                         keepId @ ''.'')\<rparr>"
    define deprecatedOther where "deprecatedOther = (locItem other)
          \<lparr>status := Deprecated, updated := Some today,
           next' := Some (''Deprecated after conflict merge '' @ pid @ '' into '' @
                         keepId @ ''.'')\<rparr>"
    define withoutKept where "withoutKept = spliceOut cur (locStatus keep) (locIndex keep)"
    have "\<exists>again.
          findItemStatus withoutKept (item_id (locItem other)) = Some again \<and>
          (let buckets =
                 pushItem
                   (pushItem (spliceOut withoutKept (locStatus again) (locIndex again))
                      Active merged)
                   Deprecated deprecatedOther;
               audit = auditMemory (memoryPath (cmPaths mparams))
                 (Some (serializeItems (flattenBuckets buckets))) today
           in if auditExitCode (summaryIssues audit) = 2
              then mout = Threw (AuditFailedAfterConflictMerge
                                  (map message (summaryIssues audit))) \<and>
                   sameBucketFiles mfs' (ensureStatusBuckets (cmPaths mparams) fs) \<and>
                   loadStatusBuckets (cmPaths mparams) mfs' = cur
              else (\<forall>m. mout \<noteq> Threw (AuditFailedAfterConflictMerge m)) \<and>
                   sameBucketFiles mfs' (saveStatusBuckets (cmPaths mparams) buckets fs))"
      if a: "applyConflictMerge mparams utcToday startedAt obs fs = (mevs, mout, mfs')"
        "Released \<in> set mevs"
        "findItemStatus cur (cmLeftId mparams) = Some l"
        "findItemStatus cur (cmRightId mparams) = Some r"
        "cmLeftId mparams \<noteq> cmRightId mparams"
        "isUnresolvedConflictPair (locItem l) (locItem r)"
        "keepId = cmLeftId mparams \<or> keepId = cmRightId mparams"
    proof -
      from applyConflictMerge_staged_outcome
        [OF a(1,2) cur_def today_def keepId_def pid_def a(3-7) keep_def other_def merged_def
          deprecatedOther_def withoutKept_def]
      obtain again where g: "findItemStatus withoutKept (item_id (locItem other)) = Some again"
        and f: "let buckets =
                 pushItem
                   (pushItem (spliceOut withoutKept (locStatus again) (locIndex again))
                      Active merged)
                   Deprecated deprecatedOther;
               audit = auditMemory (memoryPath (cmPaths mparams))
                 (Some (serializeItems (flattenBuckets buckets))) today
           in merged \<in> set (active buckets) \<and>
              deprecatedOther \<in> set (deprecated buckets) \<and>
              (if auditExitCode (summaryIssues audit) = 2
               then mout = Threw (AuditFailedAfterConflictMerge
                                  (map message (summaryIssues audit))) \<and>
                    sameBucketFiles mfs' (ensureStatusBuckets (cmPaths mparams) fs) \<and>
                    loadStatusBuckets (cmPaths mparams) mfs' = cur
               else mout = Returned
                      \<lparr>mergedId = keepId, deprecatedId = item_id (locItem other),
                       mergeCounts = countsByStatus buckets, pairId = pid\<rparr> \<and>
                    sameBucketFiles mfs' (saveStatusBuckets (cmPaths mparams) buckets fs) \<and>
                    memoryFile mfs' = Some (serializeItems (flattenBuckets buckets)) \<and>
                    runtimeProjection mfs' = Some (flattenBuckets buckets))"
        by blast
      from f have "let buckets =
                 pushItem
                   (pushItem (spliceOut withoutKept (locStatus again) (locIndex again))
                      Active merged)
                   Deprecated deprecatedOther;
               audit = auditMemory (memoryPath (cmPaths mparams))
                 (Some (serializeItems (flattenBuckets buckets))) today
           in if auditExitCode (summaryIssues audit) = 2
              then mout = Threw (AuditFailedAfterConflictMerge
                                  (map message (summaryIssues audit))) \<and>
                   sameBucketFiles mfs' (ensureStatusBuckets (cmPaths mparams) fs) \<and>
                   loadStatusBuckets (cmPaths mparams) mfs' = cur
              else (\<forall>m. mout \<noteq> Threw (AuditFailedAfterConflictMerge m)) \<and>
                   sameBucketFiles mfs' (saveStatusBuckets (cmPaths mparams) buckets fs)"
        unfolding Let_def by (auto split: if_splits)
      with g show ?thesis by blast
    qed
    then show ?thesis
      unfolding Let_def cur_def today_def keepId_def pid_def keep_def other_def merged_def
        deprecatedOther_def withoutKept_def
      by blast
  qed
  have E: "auditExitCode (summaryIssues (auditMemory (memoryPath paths)
        (Some (serializeItems (flattenBuckets current))) day)) = 2 \<longrightarrow>
      fst (commitBuckets mkError paths day current previous fs0) =
        Inl (mkError (map message (summaryIssues (auditMemory (memoryPath paths)
               (Some (serializeItems (flattenBuckets current))) day)))) \<and>
      sameBucketFiles (snd (commitBuckets mkError paths day current previous fs0))
        (saveStatusBuckets paths previous fs0)"
  proof
    assume s: "auditExitCode (summaryIssues (auditMemory (memoryPath paths)
        (Some (serializeItems (flattenBuckets current))) day)) = 2"
    from commitBuckets_severe [OF s, of mkError previous fs0]
    show "fst (commitBuckets mkError paths day current previous fs0) =
        Inl (mkError (map message (summaryIssues (auditMemory (memoryPath paths)
               (Some (serializeItems (flattenBuckets current))) day)))) \<and>
      sameBucketFiles (snd (commitBuckets mkError paths day current previous fs0))
        (saveStatusBuckets paths previous fs0)"
      by (simp add: sameBucketFiles_def)
  qed
  have F: "auditExitCode (summaryIssues (auditMemory (memoryPath paths)
        (Some (serializeItems (flattenBuckets current))) day)) \<noteq> 2 \<longrightarrow>
      fst (commitBuckets mkError paths day current previous fs0) = Inr ()"
  proof
    assume s: "auditExitCode (summaryIssues (auditMemory (memoryPath paths)
        (Some (serializeItems (flattenBuckets current))) day)) \<noteq> 2"
    from commitBuckets_passed [OF s, of mkError previous fs0]
    show "fst (commitBuckets mkError paths day current previous fs0) = Inr ()"
      by simp
  qed
  from A B C D E F show ?thesis by (intro conjI)
qed

text \<open>
  Activating B next to the active A, and merging A with B next to the active C, both fail
  the audit, at the first pass of the lock and after one sleep; the stores were in saved
  form, so the bucket files are what they were and the buckets loaded after the call are
  those loaded before. The commit block on the buckets of the first call returns the
  audit error; on the buckets before the call it returns normally.
\<close>

theorem rollback_restores_snapshot_witness:
  "fst (snd (applyStatusChange activateB ''2024-04-01'' 0 [freeAt 0] pendingConflictDisk)) =
     Threw (AuditFailedAfterStatusChange [conflictMessage ''MEM-2024-01-001'' ''MEM-2024-01-002'']) \<and>
   sameBucketFiles
     (snd (snd (applyStatusChange activateB ''2024-04-01'' 0 [freeAt 0] pendingConflictDisk)))
     pendingConflictDisk \<and>
   fst (snd (applyConflictMerge mergeAB ''2024-04-01'' 0 [freeAt 0] threeWayDisk)) =
     Threw (AuditFailedAfterConflictMerge [conflictMessage ''MEM-2024-01-001'' ''MEM-2024-01-003'']) \<and>
   sameBucketFiles
     (snd (snd (applyConflictMerge mergeAB ''2024-04-01'' 0 [freeAt 0] threeWayDisk)))
     threeWayDisk \<and>
   fst (commitBuckets AuditFailedAfterStatusChange examplePaths ''2024-04-01'' bucketsMoved
          bucketsBefore pendingConflictDisk) =
     Inl (AuditFailedAfterStatusChange [conflictMessage ''MEM-2024-01-001'' ''MEM-2024-01-002'']) \<and>
   fst (commitBuckets AuditFailedAfterStatusChange examplePaths ''2024-04-01'' bucketsBefore
          bucketsBefore pendingConflictDisk) = Inr () \<and>
   fst (applyStatusChange activateB ''2024-04-01'' 1000000 waitingOnce pendingConflictDisk) =
     [Slept 200, Released] \<and>
   fst (snd (applyStatusChange activateB ''2024-04-01'' 1000000 waitingOnce pendingConflictDisk)) =
     Threw (AuditFailedAfterStatusChange [conflictMessage ''MEM-2024-01-001'' ''MEM-2024-01-002'']) \<and>
   loadStatusBuckets examplePaths
     (snd (snd (applyStatusChange activateB ''2024-04-01'' 1000000 waitingOnce
        pendingConflictDisk))) = bucketsBefore \<and>
   fst (snd (applyConflictMerge mergeAB ''2024-04-01'' 1000000 waitingOnce threeWayDisk)) =
     Threw (AuditFailedAfterConflictMerge [conflictMessage ''MEM-2024-01-001'' ''MEM-2024-01-003'']) \<and>
   loadStatusBuckets examplePaths
     (snd (snd (applyConflictMerge mergeAB ''2024-04-01'' 1000000 waitingOnce threeWayDisk))) =
     \<lparr>active = [exampleA, exampleC], pending = [exampleB\<lparr>status := Pending\<rparr>],
      deprecated = []\<rparr>"
proof -
  let ?sc = "applyStatusChange activateB ''2024-04-01'' 0 [freeAt 0] pendingConflictDisk"
  let ?cm = "applyConflictMerge mergeAB ''2024-04-01'' 0 [freeAt 0] threeWayDisk"
  let ?scw = "applyStatusChange activateB ''2024-04-01'' 1000000 waitingOnce pendingConflictDisk"
  let ?cmw = "applyConflictMerge mergeAB ''2024-04-01'' 1000000 waitingOnce threeWayDisk"
  have p: "scPaths activateB = examplePaths" "cmPaths mergeAB = examplePaths"
    "scId activateB = ''MEM-2024-01-002''" "cmLeftId mergeAB = ''MEM-2024-01-001''"
    "cmRightId mergeAB = ''MEM-2024-01-002''" "cmKeepId mergeAB = None"
    by (simp_all add: activateB_def mergeAB_def)
  have sc: "?sc = ([Released],
      Threw (AuditFailedAfterStatusChange [conflictMessage ''MEM-2024-01-001'' ''MEM-2024-01-002'']),
      snd (snd ?sc))"
    by (simp add: applyStatusChange_pendingConflictDisk)
  have cm: "?cm = ([Released],
      Threw (AuditFailedAfterConflictMerge [conflictMessage ''MEM-2024-01-001'' ''MEM-2024-01-003'']),
      snd (snd ?cm))"
    by (simp add: applyConflictMerge_threeWayDisk)
  have scw: "?scw = ([Slept 200, Released],
      Threw (AuditFailedAfterStatusChange [conflictMessage ''MEM-2024-01-001'' ''MEM-2024-01-002'']),
      snd (snd ?scw))"
    by (simp add: applyStatusChange_waitingOnce applyStatusChange_pendingConflictDisk)
  have cmw: "?cmw = ([Slept 200, Released],
      Threw (AuditFailedAfterConflictMerge [conflictMessage ''MEM-2024-01-001'' ''MEM-2024-01-003'']),
      snd (snd ?cmw))"
    by (simp add: applyConflictMerge_waitingOnce applyConflictMerge_threeWayDisk)
  note A = rollback_restores_snapshot
    [where params = activateB and utcToday = "''2024-04-01''" and startedAt = 0
      and obs = "[freeAt 0]" and fs = pendingConflictDisk, THEN conjunct1, THEN mp, OF sc]
  note B = rollback_restores_snapshot
    [where mparams = mergeAB and utcToday = "''2024-04-01''" and startedAt = 0
      and obs = "[freeAt 0]" and fs = threeWayDisk, THEN conjunct2, THEN conjunct1, THEN mp, OF cm]
  note C = rollback_restores_snapshot
    [where params = activateB and utcToday = "''2024-04-01''" and startedAt = 1000000
      and obs = waitingOnce and fs = pendingConflictDisk
      and loc = "\<lparr>locStatus = Pending, locIndex = 0, locItem = exampleB\<lparr>status := Pending\<rparr>\<rparr>"
      and evs = "[Slept 200, Released]"
      and out = "Threw (AuditFailedAfterStatusChange
                   [conflictMessage ''MEM-2024-01-001'' ''MEM-2024-01-002''])"
      and fs' = "snd (snd ?scw)",
     THEN conjunct2, THEN conjunct2, THEN conjunct1, unfolded Let_def]
  note D = rollback_restores_snapshot
    [where mparams = mergeAB and utcToday = "''2024-04-01''" and startedAt = 1000000
      and obs = waitingOnce and fs = threeWayDisk
      and l = "\<lparr>locStatus = Active, locIndex = 0, locItem = exampleA\<rparr>"
      and r = "\<lparr>locStatus = Pending, locIndex = 0, locItem = exampleB\<lparr>status := Pending\<rparr>\<rparr>"
      and mevs = "[Slept 200, Released]"
      and mout = "Threw (AuditFailedAfterConflictMerge
                   [conflictMessage ''MEM-2024-01-001'' ''MEM-2024-01-003''])"
      and mfs' = "snd (snd ?cmw)",
     THEN conjunct2, THEN conjunct2, THEN conjunct2, THEN conjunct1, unfolded Let_def]
  note E = rollback_restores_snapshot
    [where paths = examplePaths and current = bucketsMoved and previous = bucketsBefore
      and day = "''2024-04-01''" and mkError = AuditFailedAfterStatusChange
      and ?fs0.0 = pendingConflictDisk,
     THEN conjunct2, THEN conjunct2, THEN conjunct2, THEN conjunct2, THEN conjunct1]
  note F = rollback_restores_snapshot
    [where paths = examplePaths and current = bucketsBefore and previous = bucketsBefore
      and day = "''2024-04-01''" and mkError = AuditFailedAfterStatusChange
      and ?fs0.0 = pendingConflictDisk,
     THEN conjunct2, THEN conjunct2, THEN conjunct2, THEN conjunct2, THEN conjunct2]
  from A have 1: "sameBucketFiles (snd (snd ?sc)) pendingConflictDisk"
    using ensureStatusBuckets_pendingConflictDisk by (simp add: p)
  from B have 2: "sameBucketFiles (snd (snd ?cm)) threeWayDisk"
    using ensureStatusBuckets_threeWayDisk by (simp add: p)
  from E have 3: "fst (commitBuckets AuditFailedAfterStatusChange examplePaths ''2024-04-01''
          bucketsMoved bucketsBefore pendingConflictDisk) =
     Inl (AuditFailedAfterStatusChange [conflictMessage ''MEM-2024-01-001'' ''MEM-2024-01-002''])"
    by (simp add: audit_bucketsMoved auditExitCode_def isSevere_def makeIssue_def)
  from F have 4: "fst (commitBuckets AuditFailedAfterStatusChange examplePaths ''2024-04-01''
          bucketsBefore bucketsBefore pendingConflictDisk) = Inr ()"
    by (simp add: audit_bucketsBefore auditExitCode_def)
  have f: "findItemStatus (loadStatusBuckets (scPaths activateB)
        (ensureStatusBuckets (scPaths activateB) pendingConflictDisk)) (scId activateB) =
      Some \<lparr>locStatus = Pending, locIndex = 0, locItem = exampleB\<lparr>status := Pending\<rparr>\<rparr>"
    by (simp add: p loadStatusBuckets_pendingConflictDisk findItemStatus_bucketsBefore_B)
  have rel: "Released \<in> set [Slept 200, Released]" by simp
  from C [THEN mp, OF conjI [OF scw conjI [OF rel f]]]
  have 5: "loadStatusBuckets examplePaths (snd (snd ?scw)) = bucketsBefore"
    by (auto simp: p loadStatusBuckets_pendingConflictDisk split: if_splits)
  have g: "findItemStatus (loadStatusBuckets (cmPaths mergeAB)
        (ensureStatusBuckets (cmPaths mergeAB) threeWayDisk)) (cmLeftId mergeAB) =
      Some \<lparr>locStatus = Active, locIndex = 0, locItem = exampleA\<rparr>"
    "findItemStatus (loadStatusBuckets (cmPaths mergeAB)
        (ensureStatusBuckets (cmPaths mergeAB) threeWayDisk)) (cmRightId mergeAB) =
      Some \<lparr>locStatus = Pending, locIndex = 0, locItem = exampleB\<lparr>status := Pending\<rparr>\<rparr>"
    by (simp_all add: p loadStatusBuckets_threeWayDisk findItemStatus_threeWay)
  have d: "cmLeftId mergeAB \<noteq> cmRightId mergeAB"
    by (simp add: p)
  have pr: "isUnresolvedConflictPair
      (locItem \<lparr>locStatus = Active, locIndex = 0, locItem = exampleA\<rparr>)
      (locItem \<lparr>locStatus = Pending, locIndex = 0, locItem = exampleB\<lparr>status := Pending\<rparr>\<rparr>)"
    using isUnresolvedConflictPair_examples by simp
  have k: "(case cmKeepId mergeAB of Some k \<Rightarrow> k | None \<Rightarrow> cmLeftId mergeAB) = cmLeftId mergeAB \<or>
      (case cmKeepId mergeAB of Some k \<Rightarrow> k | None \<Rightarrow> cmLeftId mergeAB) = cmRightId mergeAB"
    by (simp add: p)
  from D [THEN mp, OF conjI [OF cmw conjI [OF rel conjI [OF g(1) conjI [OF g(2)
      conjI [OF d conjI [OF pr k]]]]]]]
  have 6: "loadStatusBuckets examplePaths (snd (snd ?cmw)) =
     \<lparr>active = [exampleA, exampleC], pending = [exampleB\<lparr>status := Pending\<rparr>],
      deprecated = []\<rparr>"
    by (auto simp only: p loadStatusBuckets_threeWayDisk outcome.inject error.inject simp_thms
        split: if_splits)
  have 7: "fst ?scw = [Slept 200, Released]"
    "fst (snd ?scw) = Threw (AuditFailedAfterStatusChange
        [conflictMessage ''MEM-2024-01-001'' ''MEM-2024-01-002''])"
    "fst (snd ?cmw) = Threw (AuditFailedAfterConflictMerge
        [conflictMessage ''MEM-2024-01-001'' ''MEM-2024-01-003''])"
    using scw cmw by (simp_all add: prod_eq_iff)
  have 8: "fst (snd ?sc) = Threw (AuditFailedAfterStatusChange
        [conflictMessage ''MEM-2024-01-001'' ''MEM-2024-01-002''])"
    "fst (snd ?cm) = Threw (AuditFailedAfterConflictMerge
        [conflictMessage ''MEM-2024-01-001'' ''MEM-2024-01-003''])"
    by (simp_all add: applyStatusChange_pendingConflictDisk applyConflictMerge_threeWayDisk)
  from 1 2 3 4 5 6 7 8 show ?thesis by (intro conjI)
qed

text \<open>
  C1 as stated fails: the pending bucket file holds B with the stored status
  \<^verbatim>\<open>active\<close>; activating B fails the audit, and after the rollback the pending bucket
  file holds B with the status \<^verbatim>\<open>pending\<close>, which is not what the file held before the
  call.
\<close>

theorem rollback_rewrites_bucket_counterexample:
  "fst (snd (applyStatusChange activateB ''2024-04-01'' 0 [freeAt 0] mislabelledPendingDisk)) =
     Threw (AuditFailedAfterStatusChange [conflictMessage ''MEM-2024-01-001'' ''MEM-2024-01-002'']) \<and>
   pendingFile (snd (snd (applyStatusChange activateB ''2024-04-01'' 0 [freeAt 0]
     mislabelledPendingDisk))) =
     Some (Parsed (RArr [itemToRaw (exampleB\<lparr>status := Pending\<rparr>)])) \<and>
   pendingFile mislabelledPendingDisk = Some (Parsed (RArr [itemToRaw exampleB])) \<and>
   itemToRaw (exampleB\<lparr>status := Pending\<rparr>) \<noteq> itemToRaw exampleB"
proof -
  have 1: "fst (snd (applyStatusChange activateB ''2024-04-01'' 0 [freeAt 0]
      mislabelledPendingDisk)) =
     Threw (AuditFailedAfterStatusChange [conflictMessage ''MEM-2024-01-001'' ''MEM-2024-01-002''])"
    by (simp add: applyStatusChange_mislabelledPendingDisk)
  have 2: "pendingFile (snd (snd (applyStatusChange activateB ''2024-04-01'' 0 [freeAt 0]
     mislabelledPendingDisk))) =
     Some (Parsed (RArr [itemToRaw (exampleB\<lparr>status := Pending\<rparr>)]))"
    by (simp add: applyStatusChange_mislabelledPendingDisk pendingConflictDisk_def)
  have 3: "pendingFile mislabelledPendingDisk = Some (Parsed (RArr [itemToRaw exampleB]))"
    by (simp add: mislabelledPendingDisk_def)
  have 4: "itemToRaw (exampleB\<lparr>status := Pending\<rparr>) \<noteq> itemToRaw exampleB"
    by (simp add: itemToRaw_def itemProps_def statusName_def exampleB_def)
  from 1 2 3 4 show ?thesis by (intro conjI)
qed

subsection \<open>A status change to the current status\<close>

text \<open>
  C6, as the code has it. A \<^verbatim>\<open>changeStatus\<close> call that takes the lock (its trace has
  the event \<open>Released\<close>, whatever the waiting before), whose id is found in the bucket of
  the target status, moves and rewrites nothing: the bucket files are what
  \<open>ensureStatusBuckets\<close> wrote at the start of the call (the files before the call, when
  these were in saved form), the buckets loaded after the call are the buckets loaded
  before the move, and the item is found as it was (its \<^verbatim>\<open>updated\<close> field included).
  The call still runs the audit of the rebuilt canonical file: when the verdict is not
  severe it returns \<^verbatim>\<open>from\<close> = \<^verbatim>\<open>to\<close> and the located item; when the verdict is
  severe it raises the audit error.
\<close>

theorem applyStatusChange_same_status:
  assumes "applyStatusChange params utcToday startedAt obs fs = (evs, out, fs')"
    and "Released \<in> set evs"
    and "findItemStatus (loadStatusBuckets (scPaths params)
        (ensureStatusBuckets (scPaths params) fs)) (scId params) = Some loc"
    and "locStatus loc = scTo params"
    and "audit = auditMemory (memoryPath (scPaths params))
        (Some (serializeItems (flattenBuckets (loadStatusBuckets (scPaths params)
           (ensureStatusBuckets (scPaths params) fs)))))
        (case scToday params of Some d \<Rightarrow> d | None \<Rightarrow> utcToday)"
  shows "out =
      (if auditExitCode (summaryIssues audit) = 2
       then Threw (AuditFailedAfterStatusChange (map message (summaryIssues audit)))
       else Returned \<lparr>resFrom = scTo params, resTo = scTo params, resItem = locItem loc,
            resCounts = countsByStatus (loadStatusBuckets (scPaths params)
              (ensureStatusBuckets (scPaths params) fs))\<rparr>) \<and>
    sameBucketFiles fs' (ensureStatusBuckets (scPaths params) fs) \<and>
    (sameBucketFiles (ensureStatusBuckets (scPaths params) fs) fs \<longrightarrow> sameBucketFiles fs' fs) \<and>
    loadStatusBuckets (scPaths params) fs' =
      loadStatusBuckets (scPaths params) (ensureStatusBuckets (scPaths params) fs) \<and>
    findItemStatus (loadStatusBuckets (scPaths params) fs') (scId params) = Some loc"
proof -
  from applyStatusChangeTask_same_status [OF assms(3,4), of utcToday] obtain fs2 where
    t: "applyStatusChangeTask params utcToday fs =
      ((if auditExitCode (summaryIssues audit) = 2
        then Inl (AuditFailedAfterStatusChange (map message (summaryIssues audit)))
        else Inr \<lparr>resFrom = scTo params, resTo = scTo params, resItem = locItem loc,
            resCounts = countsByStatus (loadStatusBuckets (scPaths params)
              (ensureStatusBuckets (scPaths params) fs))\<rparr>), fs2)"
    and s: "sameBucketFiles fs2 (ensureStatusBuckets (scPaths params) fs)"
    and l: "loadStatusBuckets (scPaths params) fs2 =
      loadStatusBuckets (scPaths params) (ensureStatusBuckets (scPaths params) fs)"
    unfolding Let_def assms(5) [symmetric] by blast
  from applyStatusChange_Released [OF assms(1,2)]
  have "out = (if auditExitCode (summaryIssues audit) = 2
        then Threw (AuditFailedAfterStatusChange (map message (summaryIssues audit)))
        else Returned \<lparr>resFrom = scTo params, resTo = scTo params, resItem = locItem loc,
            resCounts = countsByStatus (loadStatusBuckets (scPaths params)
              (ensureStatusBuckets (scPaths params) fs))\<rparr>)" "fs' = fs2"
    by (auto simp: t split: if_splits)
  with s l assms(3) show ?thesis by (simp add: sameBucketFiles_def)
qed

text \<open>
  Asking for the status \<^verbatim>\<open>pending\<close> of B, which is pending next to the active A, by a
  caller that sleeps once before it takes the lock: the call returns, the bucket files
  and the buckets are unchanged, and B is still without an \<^verbatim>\<open>updated\<close> date.
\<close>

theorem applyStatusChange_same_status_witness:
  "fst (applyStatusChange keepBPending ''2024-04-01'' 1000000 waitingOnce pendingConflictDisk) =
     [Slept 200, Released] \<and>
   fst (snd (applyStatusChange keepBPending ''2024-04-01'' 1000000 waitingOnce
      pendingConflictDisk)) =
     Returned \<lparr>resFrom = Pending, resTo = Pending, resItem = exampleB\<lparr>status := Pending\<rparr>,
       resCounts = \<lparr>activeCount = 1, pendingCount = 1, deprecatedCount = 0\<rparr>\<rparr> \<and>
   sameBucketFiles
     (snd (snd (applyStatusChange keepBPending ''2024-04-01'' 1000000 waitingOnce
        pendingConflictDisk)))
     pendingConflictDisk \<and>
   loadStatusBuckets examplePaths
     (snd (snd (applyStatusChange keepBPending ''2024-04-01'' 1000000 waitingOnce
        pendingConflictDisk))) =
     bucketsBefore \<and>
   updated (exampleB\<lparr>status := Pending\<rparr>) = None"
proof -
  let ?call = "applyStatusChange keepBPending ''2024-04-01'' 1000000 waitingOnce pendingConflictDisk"
  have p: "scPaths keepBPending = examplePaths" "scId keepBPending = ''MEM-2024-01-002''"
    "scTo keepBPending = Pending" "scToday keepBPending = Some ''2024-04-01''"
    by (simp_all add: keepBPending_def)
  have h1: "?call = (fst ?call, fst (snd ?call), snd (snd ?call))"
    by simp
  have h2: "Released \<in> set (fst ?call)"
    by (simp add: applyStatusChange_keepBPending_trace)
  have h3: "findItemStatus (loadStatusBuckets (scPaths keepBPending)
        (ensureStatusBuckets (scPaths keepBPending) pendingConflictDisk)) (scId keepBPending) =
      Some \<lparr>locStatus = Pending, locIndex = 0, locItem = exampleB\<lparr>status := Pending\<rparr>\<rparr>"
    by (simp add: p loadStatusBuckets_pendingConflictDisk findItemStatus_bucketsBefore_B)
  have h4: "locStatus \<lparr>locStatus = Pending, locIndex = 0, locItem = exampleB\<lparr>status := Pending\<rparr>\<rparr> =
      scTo keepBPending"
    by (simp add: p)
  note w = applyStatusChange_same_status [OF h1 h2 h3 h4 refl]
  have c: "countsByStatus bucketsBefore =
      \<lparr>activeCount = 1, pendingCount = 1, deprecatedCount = 0\<rparr>"
    by (simp add: countsByStatus_def bucketsBefore_def)
  have u: "updated (exampleB\<lparr>status := Pending\<rparr>) = None"
    by (simp add: exampleB_def)
  from w ensureStatusBuckets_pendingConflictDisk u show ?thesis
    by (simp add: p loadStatusBuckets_pendingConflictDisk audit_bucketsBefore auditExitCode_def c
        sameBucketFiles_def applyStatusChange_keepBPending_trace)
qed

text \<open>
  C6 as stated fails: A and B are both active and in conflict; asking for the status
  \<^verbatim>\<open>active\<close> of A, which is found in the active bucket, does not succeed but raises the
  audit error.
\<close>

theorem applyStatusChange_same_status_counterexample:
  "scId keepAActive = ''MEM-2024-01-001'' \<and> scTo keepAActive = Active \<and>
   map_option locStatus (findItemStatus
     (loadStatusBuckets examplePaths (ensureStatusBuckets examplePaths activeConflictDisk))
     ''MEM-2024-01-001'') = Some Active \<and>
   fst (snd (applyStatusChange keepAActive ''2024-04-01'' 0 [freeAt 0] activeConflictDisk)) =
     Threw (AuditFailedAfterStatusChange [conflictMessage ''MEM-2024-01-001'' ''MEM-2024-01-002''])"
proof -
  have 1: "scId keepAActive = ''MEM-2024-01-001''" "scTo keepAActive = Active"
    by (simp_all add: keepAActive_def)
  from 1 findItemStatus_activeConflictDisk applyStatusChange_activeConflictDisk
  show ?thesis by (intro conjI)
qed

subsection \<open>The contract of the conflict merge\<close>

text \<open>
  C4, as the code has it. A \<^verbatim>\<open>mergeConflict\<close> call that takes the lock (its trace has
  the event \<open>Released\<close>, whatever the waiting before) fails, leaving the store as
  \<open>ensureStatusBuckets\<close> wrote it, when either id is not found in the buckets, when the
  two ids are equal, when the located items are not an unresolved (active or pending)
  conflict pair, and when \<^verbatim>\<open>keepId\<close> (by default \<^verbatim>\<open>leftId\<close>) is neither id. Otherwise
  the staged buckets are the loaded buckets with the kept item spliced out, the other item
  located again and spliced out, the kept item pushed to the active bucket with the
  merged value, today's date and a note naming the pair id, and the other item pushed to
  the deprecated bucket with today's date and a note naming the kept id. What happens next
  depends on the audit of the canonical file rebuilt from these buckets: with a verdict
  that is not severe the call returns \<^verbatim>\<open>{mergedId, deprecatedId, counts, pairId}\<close> and
  the bucket files, the canonical file and the runtime projection are those of the staged
  buckets; with a severe verdict it raises the audit error, the bucket files are those
  written at the start of the call and the buckets loaded from them are the loaded ones.
\<close>

theorem applyConflictMerge_contract:
  assumes "applyConflictMerge params utcToday startedAt obs fs = (evs, out, fs')"
    and "Released \<in> set evs"
    and "cur = loadStatusBuckets (cmPaths params) (ensureStatusBuckets (cmPaths params) fs)"
    and "day = (case cmToday params of Some d \<Rightarrow> d | None \<Rightarrow> utcToday)"
    and "keepId = (case cmKeepId params of Some k \<Rightarrow> k | None \<Rightarrow> cmLeftId params)"
    and "pid = conflictPairId (cmLeftId params) (cmRightId params)"
  shows "case (findItemStatus cur (cmLeftId params), findItemStatus cur (cmRightId params)) of
      (Some l, Some r) \<Rightarrow>
        if cmLeftId params = cmRightId params
        then out = Threw DistinctIdsRequired \<and> fs' = ensureStatusBuckets (cmPaths params) fs
        else if \<not> isUnresolvedConflictPair (locItem l) (locItem r)
        then out = Threw (NotUnresolvedConflictPair (cmLeftId params) (cmRightId params)) \<and>
             fs' = ensureStatusBuckets (cmPaths params) fs
        else if keepId \<noteq> cmLeftId params \<and> keepId \<noteq> cmRightId params
        then out = Threw (InvalidKeepId keepId) \<and> fs' = ensureStatusBuckets (cmPaths params) fs
        else
          (let keep = (if keepId = cmLeftId params then l else r);
               other = (if keepId = cmLeftId params then r else l);
               merged = (locItem keep)
                 \<lparr>status := Active, item_value := cmMergedValue params, updated := Some day,
                  next' := Some (''Merged conflict '' @ pid @ ''; resolved by keeping '' @
                                keepId @ ''.'')\<rparr>;
               deprecatedOther = (locItem other)
                 \<lparr>status := Deprecated, updated := Some day,
                  next' := Some (''Deprecated after conflict merge '' @ pid @ '' into '' @
                                keepId @ ''.'')\<rparr>;
               withoutKept = spliceOut cur (locStatus keep) (locIndex keep)
           in item_id (locItem keep) = keepId \<and>
              (\<exists>again.
                 findItemStatus withoutKept (item_id (locItem other)) = Some again \<and>
                 locItem again = locItem other \<and> locStatus again = locStatus other \<and>
                 (let buckets =
                        pushItem
                          (pushItem (spliceOut withoutKept (locStatus again) (locIndex again))
                             Active merged)
                          Deprecated deprecatedOther;
                      audit = auditMemory (memoryPath (cmPaths params))
                        (Some (serializeItems (flattenBuckets buckets))) day
                  in merged \<in> set (active buckets) \<and>
                     deprecatedOther \<in> set (deprecated buckets) \<and>
                     (if auditExitCode (summaryIssues audit) = 2
                      then out = Threw (AuditFailedAfterConflictMerge
                                         (map message (summaryIssues audit))) \<and>
                           sameBucketFiles fs' (ensureStatusBuckets (cmPaths params) fs) \<and>
                           loadStatusBuckets (cmPaths params) fs' = cur
                      else out = Returned
                             \<lparr>mergedId = keepId, deprecatedId = item_id (locItem other),
                              mergeCounts = countsByStatus buckets, pairId = pid\<rparr> \<and>
                           sameBucketFiles fs' (saveStatusBuckets (cmPaths params) buckets fs) \<and>
                           memoryFile fs' = Some (serializeItems (flattenBuckets buckets)) \<and>
                           runtimeProjection fs' = Some (flattenBuckets buckets)))))
    | _ \<Rightarrow>
        out = Threw (ConflictItemsNotFound (cmLeftId params) (cmRightId params)) \<and>
        fs' = ensureStatusBuckets (cmPaths params) fs"
proof -
  let ?paths = "cmPaths params"
  let ?fs1 = "ensureStatusBuckets ?paths fs"
  note run = applyConflictMerge_Released [OF assms(1,2)]
  show ?thesis
  proof (cases "findItemStatus cur (cmLeftId params)")
    case None
    then have "applyConflictMergeTask params utcToday fs =
        (Inl (ConflictItemsNotFound (cmLeftId params) (cmRightId params)), ?fs1)"
      unfolding assms(3) by (intro applyConflictMergeTask_notFound) simp
    with run None show ?thesis by simp
  next
    case (Some l)
    note left = Some
    show ?thesis
    proof (cases "findItemStatus cur (cmRightId params)")
      case None
      then have "applyConflictMergeTask params utcToday fs =
          (Inl (ConflictItemsNotFound (cmLeftId params) (cmRightId params)), ?fs1)"
        unfolding assms(3) by (intro applyConflictMergeTask_notFound) simp
      with run left None show ?thesis by simp
    next
      case (Some r)
      note right = Some
      note rej = applyConflictMergeTask_rejected
        [OF left [unfolded assms(3)] right [unfolded assms(3)], where utcToday = utcToday]
      consider (same) "cmLeftId params = cmRightId params"
        | (nopair) "cmLeftId params \<noteq> cmRightId params"
            "\<not> isUnresolvedConflictPair (locItem l) (locItem r)"
        | (badkeep) "cmLeftId params \<noteq> cmRightId params"
            "isUnresolvedConflictPair (locItem l) (locItem r)"
            "keepId \<noteq> cmLeftId params" "keepId \<noteq> cmRightId params"
        | (merge) "cmLeftId params \<noteq> cmRightId params"
            "isUnresolvedConflictPair (locItem l) (locItem r)"
            "keepId = cmLeftId params \<or> keepId = cmRightId params"
        by blast
      then show ?thesis
      proof cases
        case same
        from rej(1) [OF same] run left right same show ?thesis by simp
      next
        case nopair
        from rej(2) [OF nopair] run left right nopair show ?thesis by simp
      next
        case badkeep
        from badkeep(3) have k: "cmKeepId params = Some keepId"
          unfolding assms(5) by (cases "cmKeepId params") simp_all
        from rej(3) [OF badkeep(1,2) k badkeep(3,4)] run left right badkeep show ?thesis by simp
      next
        case merge
        from applyConflictMerge_staged_outcome
          [OF assms(1-6) left right merge refl refl refl refl refl]
        have body: "(let keep = (if keepId = cmLeftId params then l else r);
               other = (if keepId = cmLeftId params then r else l);
               merged = (locItem keep)
                 \<lparr>status := Active, item_value := cmMergedValue params, updated := Some day,
                  next' := Some (''Merged conflict '' @ pid @ ''; resolved by keeping '' @
                                keepId @ ''.'')\<rparr>;
               deprecatedOther = (locItem other)
                 \<lparr>status := Deprecated, updated := Some day,
                  next' := Some (''Deprecated after conflict merge '' @ pid @ '' into '' @
                                keepId @ ''.'')\<rparr>;
               withoutKept = spliceOut cur (locStatus keep) (locIndex keep)
           in item_id (locItem keep) = keepId \<and>
              (\<exists>again.
                 findItemStatus withoutKept (item_id (locItem other)) = Some again \<and>
                 locItem again = locItem other \<and> locStatus again = locStatus other \<and>
                 (let buckets =
                        pushItem
                          (pushItem (spliceOut withoutKept (locStatus again) (locIndex again))
                             Active merged)
                          Deprecated deprecatedOther;
                      audit = auditMemory (memoryPath (cmPaths params))
                        (Some (serializeItems (flattenBuckets buckets))) day
                  in merged \<in> set (active buckets) \<and>
                     deprecatedOther \<in> set (deprecated buckets) \<and>
                     (if auditExitCode (summaryIssues audit) = 2
                      then out = Threw (AuditFailedAfterConflictMerge
                                         (map message (summaryIssues audit))) \<and>
                           sameBucketFiles fs' (ensureStatusBuckets (cmPaths params) fs) \<and>
                           loadStatusBuckets (cmPaths params) fs' = cur
                      else out = Returned
                             \<lparr>mergedId = keepId, deprecatedId = item_id (locItem other),
                              mergeCounts = countsByStatus buckets, pairId = pid\<rparr> \<and>
                           sameBucketFiles fs' (saveStatusBuckets (cmPaths params) buckets fs) \<and>
                           memoryFile fs' = Some (serializeItems (flattenBuckets buckets)) \<and>
                           runtimeProjection fs' = Some (flattenBuckets buckets)))))"
          unfolding Let_def .
        from merge(3) have nk: "\<not> (keepId \<noteq> cmLeftId params \<and> keepId \<noteq> cmRightId params)"
          by blast
        from merge(2) have np: "\<not> \<not> isUnresolvedConflictPair (locItem l) (locItem r)"
          by blast
        show ?thesis
          unfolding left right prod.case option.case if_not_P [OF merge(1)]
            if_not_P [OF nk] if_not_P [OF np]
          by (rule body)
      qed
    qed
  qed
qed

text \<open>
  Merging the active A with the pending B, keeping A, by a caller that sleeps once before
  it takes the lock: the call returns, and the store holds the files of the buckets with
  the merged A active and B deprecated.
\<close>

theorem applyConflictMerge_contract_witness:
  "fst (applyConflictMerge mergeAB ''2024-04-01'' 1000000 waitingOnce pendingConflictDisk) =
     [Slept 200, Released] \<and>
   fst (snd (applyConflictMerge mergeAB ''2024-04-01'' 1000000 waitingOnce pendingConflictDisk)) =
     Returned \<lparr>mergedId = ''MEM-2024-01-001'', deprecatedId = ''MEM-2024-01-002'',
       mergeCounts = \<lparr>activeCount = 1, pendingCount = 0, deprecatedCount = 1\<rparr>,
       pairId = ''MEM-2024-01-001__MEM-2024-01-002''\<rparr> \<and>
   sameBucketFiles
     (snd (snd (applyConflictMerge mergeAB ''2024-04-01'' 1000000 waitingOnce
        pendingConflictDisk)))
     (saveStatusBuckets examplePaths
        \<lparr>active = [mergedA], pending = [], deprecated = [deprecatedB]\<rparr> pendingConflictDisk) \<and>
   memoryFile
     (snd (snd (applyConflictMerge mergeAB ''2024-04-01'' 1000000 waitingOnce
        pendingConflictDisk))) =
     Some (serializeItems (flattenBuckets
        \<lparr>active = [mergedA], pending = [], deprecated = [deprecatedB]\<rparr>))"
proof -
  let ?call = "applyConflictMerge mergeAB ''2024-04-01'' 1000000 waitingOnce pendingConflictDisk"
  have p: "cmPaths mergeAB = examplePaths" "cmLeftId mergeAB = ''MEM-2024-01-001''"
    "cmRightId mergeAB = ''MEM-2024-01-002''" "cmKeepId mergeAB = None"
    "cmToday mergeAB = Some ''2024-04-01''" "cmMergedValue mergeAB = StrV ''canary-then-blue-green''"
    by (simp_all add: mergeAB_def)
  have h1: "?call = (fst ?call, fst (snd ?call), snd (snd ?call))"
    by simp
  have h2: "Released \<in> set (fst ?call)"
    by (simp add: applyConflictMerge_mergeAB_waitingOnce)
  have m: "exampleA\<lparr>status := Active, item_value := StrV ''canary-then-blue-green'',
        updated := Some ''2024-04-01'',
        next' := Some (''Merged conflict '' @ ''MEM-2024-01-001__MEM-2024-01-002'' @
          ''; resolved by keeping '' @ ''MEM-2024-01-001'' @ ''.'')\<rparr> = mergedA"
    "(exampleB\<lparr>status := Pending\<rparr>)\<lparr>status := Deprecated, updated := Some ''2024-04-01'',
        next' := Some (''Deprecated after conflict merge '' @ ''MEM-2024-01-001__MEM-2024-01-002'' @
          '' into '' @ ''MEM-2024-01-001'' @ ''.'')\<rparr> = deprecatedB"
    by (simp_all add: mergedA_def deprecatedB_def exampleA_def exampleB_def)
  have i: "item_id (exampleB\<lparr>status := Pending\<rparr>) = ''MEM-2024-01-002''"
    "item_id exampleA = ''MEM-2024-01-001''"
    by (simp_all add: exampleA_def exampleB_def)
  have b: "pushItem (pushItem (spliceOut (spliceOut bucketsBefore Active 0) Pending 0) Active mergedA)
        Deprecated deprecatedB =
      \<lparr>active = [mergedA], pending = [], deprecated = [deprecatedB]\<rparr>"
    by (simp add: spliceOut_def pushItem_simps bucketsBefore_def)
  note w = applyConflictMerge_contract [OF h1 h2 refl refl refl refl]
  have "sameBucketFiles (snd (snd ?call))
        (saveStatusBuckets examplePaths
           \<lparr>active = [mergedA], pending = [], deprecated = [deprecatedB]\<rparr> pendingConflictDisk) \<and>
      memoryFile (snd (snd ?call)) =
        Some (serializeItems (flattenBuckets
           \<lparr>active = [mergedA], pending = [], deprecated = [deprecatedB]\<rparr>))"
    using w isUnresolvedConflictPair_examples
    unfolding p loadStatusBuckets_pendingConflictDisk findItemStatus_bucketsBefore_A
      findItemStatus_bucketsBefore_B conflictPairId_examples
      applyConflictMerge_mergeAB_waitingOnce
    by (simp only: simp_thms option.case prod.case located.simps if_True if_False m i b
        Let_def outcome.simps conflictMergeResult.simps list.simps char.simps
        findItemStatus_withoutA option.inject ex_simps split: if_splits)
  with applyConflictMerge_mergeAB_waitingOnce show ?thesis by (intro conjI) simp_all
qed

text \<open>
  C4 as stated fails: with A and C active and B pending, the ids of A and B are distinct,
  both are found, the pair is an unresolved conflict and \<^verbatim>\<open>keepId\<close> defaults to
  \<^verbatim>\<open>leftId\<close>; yet the merge raises the audit error, because the merged A still conflicts
  with C.
\<close>

theorem applyConflictMerge_auditGate_counterexample:
  "cmLeftId mergeAB \<noteq> cmRightId mergeAB \<and> cmKeepId mergeAB = None \<and>
   map_option locItem (findItemStatus
     (loadStatusBuckets examplePaths (ensureStatusBuckets examplePaths threeWayDisk))
     (cmLeftId mergeAB)) = Some exampleA \<and>
   map_option locItem (findItemStatus
     (loadStatusBuckets examplePaths (ensureStatusBuckets examplePaths threeWayDisk))
     (cmRightId mergeAB)) = Some (exampleB\<lparr>status := Pending\<rparr>) \<and>
   isUnresolvedConflictPair exampleA (exampleB\<lparr>status := Pending\<rparr>) \<and>
   fst (snd (applyConflictMerge mergeAB ''2024-04-01'' 0 [freeAt 0] threeWayDisk)) =
     Threw (AuditFailedAfterConflictMerge [conflictMessage ''MEM-2024-01-001'' ''MEM-2024-01-003''])"
proof -
  have p: "cmLeftId mergeAB = ''MEM-2024-01-001''" "cmRightId mergeAB = ''MEM-2024-01-002''"
    "cmKeepId mergeAB = None"
    by (simp_all add: mergeAB_def)
  have 1: "cmLeftId mergeAB \<noteq> cmRightId mergeAB"
    by (simp add: p)
  have 2: "fst (snd (applyConflictMerge mergeAB ''2024-04-01'' 0 [freeAt 0] threeWayDisk)) =
     Threw (AuditFailedAfterConflictMerge [conflictMessage ''MEM-2024-01-001'' ''MEM-2024-01-003''])"
    by (simp add: applyConflictMerge_threeWayDisk)
  from 1 p(3) findItemStatus_threeWayDisk [folded p(1,2)] isUnresolvedConflictPair_examples 2
  show ?thesis by (intro conjI)
qed

end
